theory Spec2Isabelle
  imports Main "HOL-Library.Sublist"
begin

section \<open>Data model\<close>

text \<open>
  The planner of \<^verbatim>\<open>DruidExternal\<close> and the clause assembly of \<^verbatim>\<open>SQLExternal\<close>,
  embedded as HOL functions. Strings are character lists; a thrown \<^verbatim>\<open>Error\<close> is the
  left injection of a sum, carrying the message.
\<close>

subsection \<open>Strings\<close>

text \<open>
  \<^verbatim>\<open>String.prototype.indexOf\<close>: the first position at which the pattern occurs, or
  \<open>-1\<close> when it occurs nowhere.
\<close>

fun indexOf :: "string \<Rightarrow> string \<Rightarrow> int" where
  "indexOf s pat =
     (if prefix pat s then 0
      else (case s of
              [] \<Rightarrow> - 1
            | c # t \<Rightarrow> (let r = indexOf t pat in if r < 0 then - 1 else r + 1)))"

declare indexOf.simps [simp del]

subsection \<open>Values, types and documents\<close>

text \<open>
  The value types of the algebra (\<^verbatim>\<open>PlyType\<close>); \<open>SET_STRING\<close> stands for
  \<^verbatim>\<open>'SET/STRING'\<close> and so on. An expression that has not been type-checked
  has no type (\<^verbatim>\<open>undefined\<close>), so a node carries \<open>plyType option\<close>.
\<close>

datatype plyType =
    NULL | BOOLEAN | NUMBER | TIME | STRING | NUMBER_RANGE | TIME_RANGE | DATASET
  | SET | SET_NULL | SET_BOOLEAN | SET_NUMBER | SET_TIME | SET_STRING
  | SET_NUMBER_RANGE | SET_TIME_RANGE

text \<open>
  Literal values. Numbers are only passed on by the code modelled here (limits, bucket
  sizes, literal operands), never computed with, and are kept as integers.
\<close>

datatype plywoodValue =
    VNull | VBoolean bool | VNumber int | VString string | VTime string
  | VSet "plywoodValue list"

text \<open>
  Native queries and their parts (dimension specs, extraction functions, aggregations)
  are JSON documents. An object is the list of its fields in insertion order; a field
  that was never set is absent from the list.
\<close>

datatype json =
    JNull | JBool bool | JNum int | JStr string | JArr "json list"
  | JObj "(string \<times> json) list"

type_synonym jobject = "(string \<times> json) list"

text \<open>
  Reading, setting and deleting a property of an object. The same functions serve for
  the other string-keyed objects of the code (split maps, option bags).
\<close>

fun getField :: "string \<Rightarrow> (string \<times> 'a) list \<Rightarrow> 'a option" where
  "getField k [] = None"
| "getField k ((k', v) # rest) = (if k = k' then Some v else getField k rest)"

fun setField :: "string \<Rightarrow> 'a \<Rightarrow> (string \<times> 'a) list \<Rightarrow> (string \<times> 'a) list" where
  "setField k v [] = [(k, v)]"
| "setField k v ((k', v') # rest) =
     (if k = k' then (k, v) # rest else (k', v') # setField k v rest)"

fun deleteField :: "string \<Rightarrow> (string \<times> 'a) list \<Rightarrow> (string \<times> 'a) list" where
  "deleteField k [] = []"
| "deleteField k ((k', v) # rest) =
     (if k = k' then deleteField k rest else (k', v) # deleteField k rest)"

text \<open>
  Reading a property of a plain object (one made by \<^verbatim>\<open>{}\<close>) under a computed name:
  an own field, or else one of the properties that every such object inherits from
  \<^verbatim>\<open>Object.prototype\<close>. Those are functions (for \<^verbatim>\<open>__proto__\<close>, the prototype
  itself), so they are truthy and they are not expressions.
\<close>

definition objectPrototypeKeys :: "string list" where
  "objectPrototypeKeys =
     [''constructor'', ''__defineGetter__'', ''__defineSetter__'', ''hasOwnProperty'',
      ''__lookupGetter__'', ''__lookupSetter__'', ''isPrototypeOf'',
      ''propertyIsEnumerable'', ''toString'', ''valueOf'', ''__proto__'',
      ''toLocaleString'']"

datatype 'a property = Own 'a | Inherited | Absent

definition getProperty :: "string \<Rightarrow> (string \<times> 'a) list \<Rightarrow> 'a property" where
  "getProperty k obj =
     (case getField k obj of
        Some v \<Rightarrow> Own v
      | None \<Rightarrow> if k \<in> set objectPrototypeKeys then Inherited else Absent)"

primrec valueToJS :: "plywoodValue \<Rightarrow> json" where
  "valueToJS VNull = JNull"
| "valueToJS (VBoolean b) = JBool b"
| "valueToJS (VNumber n) = JNum n"
| "valueToJS (VString s) = JStr s"
| "valueToJS (VTime s) = JStr s"
| "valueToJS (VSet vs) = JArr (map valueToJS vs)"

text \<open>A thrown error, with its message.\<close>

datatype error = Error string | TypeError string | InvalidResultError string

fun message :: "error \<Rightarrow> string" where
  "message (Error m) = m"
| "message (TypeError m) = m"
| "message (InvalidResultError m) = m"

subsection \<open>Expressions\<close>

text \<open>
  An expression node is a reference, a literal, a chainable node (an \<^verbatim>\<open>op\<close> over an
  operand), a chainable-unary node (an \<^verbatim>\<open>op\<close> over an operand and an argument
  expression) or a split. The class of a node, which the code tests with
  \<^verbatim>\<open>instanceof\<close>, is its tag; the tag carries the fields the class adds (the name of an
  apply, the regular expression of a match, the duration and time zone of a time bucket).
  The classes that the code never tests for share the tags \<open>OpChainable\<close> and
  \<open>OpChainableUnary\<close>, which carry the \<^verbatim>\<open>op\<close> string.
  Every node carries its \<^verbatim>\<open>type\<close> and its \<^verbatim>\<open>options\<close> bag.
\<close>

datatype direction = Ascending | Descending

datatype chainableOp =
    OpCount
  | OpCustomAggregate string
  | OpSqlAggregate string
  | OpMatch string
  | OpTimeBucket string "string option"
  | OpTimeFloor string "string option"
  | OpTimePart string "string option"
  | OpNumberBucket int int
  | OpCardinality
  | OpLimit int
  | OpNot
  | OpChainable string

datatype chainableUnaryOp =
    OpApply string
  | OpFilter
  | OpSort direction
  | OpIs | OpIn
  | OpMin | OpMax | OpSum | OpAverage | OpCountDistinct | OpQuantile | OpCollect
  | OpFallback | OpThen | OpAnd | OpOr | OpGreaterThan | OpAdd
  | OpChainableUnary string

type_synonym options = "(string \<times> plywoodValue) list"

datatype expression =
    RefExpression string nat "plyType option" bool options
  | LiteralExpression plywoodValue "plyType option" options
  | ChainableExpression chainableOp "plyType option" options expression
  | ChainableUnaryExpression chainableUnaryOp "plyType option" options expression expression
  | SplitExpression "plyType option" options expression "(string \<times> expression) list"
      "string option"

text \<open>The \<^verbatim>\<open>op\<close> string of a node, as the constructors' \<^verbatim>\<open>_ensureOp\<close> fix it.\<close>

fun chainableOpName :: "chainableOp \<Rightarrow> string" where
  "chainableOpName OpCount = ''count''"
| "chainableOpName (OpCustomAggregate c) = ''customAggregate''"
| "chainableOpName (OpSqlAggregate c) = ''sqlAggregate''"
| "chainableOpName (OpMatch r) = ''match''"
| "chainableOpName (OpTimeBucket d z) = ''timeBucket''"
| "chainableOpName (OpTimeFloor d z) = ''timeFloor''"
| "chainableOpName (OpTimePart p z) = ''timePart''"
| "chainableOpName (OpNumberBucket s off) = ''numberBucket''"
| "chainableOpName OpCardinality = ''cardinality''"
| "chainableOpName (OpLimit n) = ''limit''"
| "chainableOpName OpNot = ''not''"
| "chainableOpName (OpChainable s) = s"

fun chainableUnaryOpName :: "chainableUnaryOp \<Rightarrow> string" where
  "chainableUnaryOpName (OpApply n) = ''apply''"
| "chainableUnaryOpName OpFilter = ''filter''"
| "chainableUnaryOpName (OpSort d) = ''sort''"
| "chainableUnaryOpName OpIs = ''is''"
| "chainableUnaryOpName OpIn = ''in''"
| "chainableUnaryOpName OpMin = ''min''"
| "chainableUnaryOpName OpMax = ''max''"
| "chainableUnaryOpName OpSum = ''sum''"
| "chainableUnaryOpName OpAverage = ''average''"
| "chainableUnaryOpName OpCountDistinct = ''countDistinct''"
| "chainableUnaryOpName OpQuantile = ''quantile''"
| "chainableUnaryOpName OpCollect = ''collect''"
| "chainableUnaryOpName OpFallback = ''fallback''"
| "chainableUnaryOpName OpThen = ''then''"
| "chainableUnaryOpName OpAnd = ''and''"
| "chainableUnaryOpName OpOr = ''or''"
| "chainableUnaryOpName OpGreaterThan = ''greaterThan''"
| "chainableUnaryOpName OpAdd = ''add''"
| "chainableUnaryOpName (OpChainableUnary s) = s"

fun opOf :: "expression \<Rightarrow> string" where
  "opOf (RefExpression n k t i os) = ''ref''"
| "opOf (LiteralExpression v t os) = ''literal''"
| "opOf (ChainableExpression c t os x) = chainableOpName c"
| "opOf (ChainableUnaryExpression u t os x y) = chainableUnaryOpName u"
| "opOf (SplitExpression t os x ss d) = ''split''"

definition isOp :: "expression \<Rightarrow> string \<Rightarrow> bool" where
  "isOp ex op = (opOf ex = op)"

fun typeOf :: "expression \<Rightarrow> plyType option" where
  "typeOf (RefExpression n k t i os) = t"
| "typeOf (LiteralExpression v t os) = t"
| "typeOf (ChainableExpression c t os x) = t"
| "typeOf (ChainableUnaryExpression u t os x y) = t"
| "typeOf (SplitExpression t os x ss d) = t"

text \<open>\<^verbatim>\<open>Expression.TRUE\<close>, and \<^verbatim>\<open>Expression._\<close> (the reference \<^verbatim>\<open>$_\<close>, untyped).\<close>

definition TRUE :: expression where
  "TRUE = LiteralExpression (VBoolean True) (Some BOOLEAN) []"

definition ExpressionUnderscore :: expression where
  "ExpressionUnderscore = RefExpression ''_'' 0 None False []"

text \<open>\<^verbatim>\<open>$(name)\<close> and \<^verbatim>\<open>r(value)\<close>: an untyped reference, a number literal.\<close>

definition ref :: "string \<Rightarrow> expression" where
  "ref n = RefExpression n 0 None False []"

text \<open>
  \<^verbatim>\<open>Set.unwrapSetType\<close>: the element type of a set type, any other type unchanged.
\<close>

fun unwrapSetType :: "plyType option \<Rightarrow> plyType option" where
  "unwrapSetType None = None"
| "unwrapSetType (Some SET_NULL) = Some NULL"
| "unwrapSetType (Some SET_BOOLEAN) = Some BOOLEAN"
| "unwrapSetType (Some SET_NUMBER) = Some NUMBER"
| "unwrapSetType (Some SET_TIME) = Some TIME"
| "unwrapSetType (Some SET_STRING) = Some STRING"
| "unwrapSetType (Some SET_NUMBER_RANGE) = Some NUMBER_RANGE"
| "unwrapSetType (Some SET_TIME_RANGE) = Some TIME_RANGE"
| "unwrapSetType (Some t) = Some t"

text \<open>
  \<^verbatim>\<open>Expression.some(iter)\<close>. The iterator answers \<^verbatim>\<open>true\<close> (found), \<^verbatim>\<open>false\<close>
  (not here, and do not look below this node) or \<^verbatim>\<open>null\<close> (look below); the walk is
  in pre-order: the node, its operand, then its argument expressions.
\<close>

fun some :: "(expression \<Rightarrow> bool option) \<Rightarrow> expression \<Rightarrow> bool"
  and someSplits :: "(expression \<Rightarrow> bool option) \<Rightarrow> (string \<times> expression) list \<Rightarrow> bool"
where
  "some iter (RefExpression n k t i os) =
     (case iter (RefExpression n k t i os) of Some b \<Rightarrow> b | None \<Rightarrow> False)"
| "some iter (LiteralExpression v t os) =
     (case iter (LiteralExpression v t os) of Some b \<Rightarrow> b | None \<Rightarrow> False)"
| "some iter (ChainableExpression c t os x) =
     (case iter (ChainableExpression c t os x) of
        Some b \<Rightarrow> b
      | None \<Rightarrow> some iter x)"
| "some iter (ChainableUnaryExpression u t os x y) =
     (case iter (ChainableUnaryExpression u t os x y) of
        Some b \<Rightarrow> b
      | None \<Rightarrow> some iter x \<or> some iter y)"
| "some iter (SplitExpression t os x ss d) =
     (case iter (SplitExpression t os x ss d) of
        Some b \<Rightarrow> b
      | None \<Rightarrow> some iter x \<or> someSplits iter ss)"
| "someSplits iter [] = False"
| "someSplits iter ((k, e) # rest) = (some iter e \<or> someSplits iter rest)"

text \<open>The idiom \<^verbatim>\<open>cond || null\<close> and \<^verbatim>\<open>cond ? true : null\<close> of the iterators.\<close>

definition orNull :: "bool \<Rightarrow> bool option" where
  "orNull b = (if b then Some True else None)"

subsection \<open>Externals\<close>

text \<open>
  The expressions an External holds in typed fields are records: an apply is a name and
  an expression (its operand is always \<^verbatim>\<open>$_\<close>), a sort is an expression and a
  direction, a limit is a value, a split is the list of its keys with their expressions,
  in the order of \<^verbatim>\<open>keys\<close>.
\<close>

record applyExpression =
  applyName :: string
  applyExpr :: expression

record sortExpression =
  sortExpr :: expression
  sortDirection :: direction

record limitExpression =
  limitValue :: int

record splitExpression =
  splits :: "(string \<times> expression) list"
  dataName :: "string option"

record attributeInfo =
  attrName :: string
  attrType :: "plyType option"
  nativeType :: "string option"
  unsplitable :: bool
  maker :: "expression option"
  cardinality :: "int option"
  attrRange :: "(json \<times> json) option"

datatype mode = Raw | Value | Total | Split

datatype querySelection = Any | NoTopN | GroupByOnly

datatype source = Source string | SourceArray "string list"

record external =
  mode :: mode
  source :: source
  filterE :: expression
  split :: "splitExpression option"
  applies :: "applyExpression list option"
  valueExpression :: "expression option"
  sortE :: "sortExpression option"
  limit :: "limitExpression option"
  havingFilter :: expression
  derivedAttributes :: "(string \<times> expression) list"
  rawAttributes :: "attributeInfo list"
  selectE :: "string list option"

record druidExternal = external +
  timeAttribute :: string
  customAggregations :: jobject
  customTransforms :: jobject
  allowEternity :: bool
  allowSelectQueries :: bool
  exactResultsOnly :: bool
  querySelection :: "querySelection option"
  contextE :: "jobject option"

text \<open>\<^verbatim>\<open>SortExpression.refName()\<close>: the name of the sort expression when it is a
  reference, \<^verbatim>\<open>null\<close> otherwise.\<close>

definition refName :: "sortExpression \<Rightarrow> string option" where
  "refName srt =
     (case sortExpr srt of RefExpression n k t i os \<Rightarrow> Some n | _ \<Rightarrow> None)"

text \<open>
  \<^verbatim>\<open>canHandleSort(sort)\<close>: in raw mode, \<^verbatim>\<open>false\<close> when
  \<^verbatim>\<open>sort.refName() !== this.timeAttribute\<close>, else
  \<^verbatim>\<open>sort.direction === 'ascending'\<close>; in every other mode \<^verbatim>\<open>true\<close>.
\<close>

definition canHandleSort :: "druidExternal \<Rightarrow> sortExpression \<Rightarrow> bool" where
  "canHandleSort e srt =
     (if mode e = Raw then
        (if refName srt \<noteq> Some (timeAttribute e) then False
         else sortDirection srt = Ascending)
      else True)"

text \<open>\<^verbatim>\<open>getQuerySelection()\<close>: \<^verbatim>\<open>this.querySelection || 'any'\<close>.\<close>

definition getQuerySelection :: "druidExternal \<Rightarrow> querySelection" where
  "getQuerySelection e = (case querySelection e of Some q \<Rightarrow> q | None \<Rightarrow> Any)"

text \<open>\<^verbatim>\<open>getDruidDataSource()\<close>: a union of the sources when the source is an array.\<close>

definition getDruidDataSource :: "druidExternal \<Rightarrow> json" where
  "getDruidDataSource e =
     (case source e of
        SourceArray ss \<Rightarrow> JObj [(''type'', JStr ''union''), (''dataSources'', JArr (map JStr ss))]
      | Source s \<Rightarrow> JStr s)"

text \<open>
  Modelled from the spec: \<^verbatim>\<open>External.isTimeRef\<close> is not part of the sources at hand.
  The "time ref" of the spec is a reference whose name is the External's time attribute.
\<close>

definition isTimeRef :: "druidExternal \<Rightarrow> expression \<Rightarrow> bool" where
  "isTimeRef e ex =
     (case ex of RefExpression n k t i os \<Rightarrow> n = timeAttribute e | _ \<Rightarrow> False)"

text \<open>
  \<^verbatim>\<open>isTimestampCompatibleSort(sort, label)\<close>: no sort at all, or a sort on the reference
  named \<open>label\<close>.
\<close>

definition isTimestampCompatibleSort :: "sortExpression option \<Rightarrow> string \<Rightarrow> bool" where
  "isTimestampCompatibleSort srt label =
     (case srt of
        None \<Rightarrow> True
      | Some s \<Rightarrow> (case sortExpr s of RefExpression n k t i os \<Rightarrow> n = label | _ \<Rightarrow> False))"

text \<open>
  \<^verbatim>\<open>isMinMaxTimeExpression(applyExpression)\<close>: a \<^verbatim>\<open>MinExpression\<close> or
  \<^verbatim>\<open>MaxExpression\<close> whose argument is the time ref.
\<close>

definition isMinMaxTimeExpression :: "druidExternal \<Rightarrow> expression \<Rightarrow> bool" where
  "isMinMaxTimeExpression e applyExpression =
     (case applyExpression of
        ChainableUnaryExpression OpMin t os x y \<Rightarrow> isTimeRef e y
      | ChainableUnaryExpression OpMax t os x y \<Rightarrow> isTimeRef e y
      | _ \<Rightarrow> False)"

subsection \<open>Collaborators\<close>

text \<open>
  The planner calls into builders and base-class methods that are not part of the
  sources at hand. They are taken as parameters, so that every theorem holds for whatever
  they compute: the selected attributes and the attribute table of the base class, the
  free references and the printed form of an expression, the extraction-function builder
  (which may throw, or answer \<^verbatim>\<open>null\<close>), the expression builder (which may answer
  \<^verbatim>\<open>null\<close>), the inflater factories, the bucket bound of a split (\<open>None\<close> for
  \<^verbatim>\<open>Infinity\<close>), the filter, aggregation and having builders, the sort-on-label test,
  simplification, the construction of a split from a map of keys, the apply of a value
  query, and the dropping of an attribute's origin. Two more stand for what the code
  does with an object that is not what it expects: whether reading a property of an
  expression object under a computed name gives a truthy value
  (\<open>expressionProperty\<close>), and what the expression builder makes of an inherited
  property that was read where a derived attribute was expected, a Druid expression or
  an error, the refusal of a \<^verbatim>\<open>null\<close> result included (\<open>inheritedToDruidExpression\<close>).
\<close>

datatype inflater =
    BooleanInflater string | NumberInflater string | TimeInflater string
  | SetStringInflater string | SetCardinalityInflater string | IntelligentInflater string string

datatype postTransform =
    PostTransform "inflater option list" "attributeInfo list" "string list option"
      "applyExpression list option"
  | ValuePostTransform
  | TimeBoundaryPostTransform "applyExpression list option"

record collaborators =
  getSelectedAttributes :: "druidExternal \<Rightarrow> attributeInfo list"
  getAttributesInfo :: "druidExternal \<Rightarrow> string \<Rightarrow> error + attributeInfo"
  getFreeReferences :: "expression \<Rightarrow> string list"
  toString :: "expression \<Rightarrow> string"
  expressionToExtractionFn :: "druidExternal \<Rightarrow> expression \<Rightarrow> error + json option"
  expressionToDruidExpression :: "druidExternal \<Rightarrow> expression \<Rightarrow> error + string option"
  expressionTypeToOutputType :: "plyType option \<Rightarrow> string"
  getIntelligentInflater :: "expression \<Rightarrow> string \<Rightarrow> inflater option"
  maxBucketNumber :: "splitExpression \<Rightarrow> nat option"
  getQueryFilter :: "druidExternal \<Rightarrow> expression"
  getQuerySplit :: "druidExternal \<Rightarrow> error + splitExpression"
  filterToDruid :: "druidExternal \<Rightarrow> expression \<Rightarrow> error + (json \<times> json option)"
  makeAggregationsAndPostAggregations ::
    "druidExternal \<Rightarrow> applyExpression list option \<Rightarrow> error + (json list \<times> json list)"
  filterToHavingFilter :: "druidExternal \<Rightarrow> expression \<Rightarrow> error + json"
  sortOnLabel :: "druidExternal \<Rightarrow> bool"
  simplify :: "expression \<Rightarrow> expression"
  changeSplits :: "splitExpression \<Rightarrow> (string \<times> expression) list \<Rightarrow> splitExpression"
  splitOf :: "(string \<times> expression) list \<Rightarrow> splitExpression"
  toValueApply :: "druidExternal \<Rightarrow> applyExpression"
  dropOriginInfo :: "attributeInfo \<Rightarrow> attributeInfo"
  expressionProperty :: "expression \<Rightarrow> string \<Rightarrow> bool"
  inheritedToDruidExpression :: "druidExternal \<Rightarrow> string \<Rightarrow> error + string"

subsection \<open>Granularity of a time split\<close>

text \<open>
  Modelled from the spec: \<^verbatim>\<open>getTimezone()\<close> of a time bucket or floor is not part of
  the sources at hand; an expression without a time zone of its own is taken in UTC.
\<close>

definition getTimezone :: "string option \<Rightarrow> string" where
  "getTimezone z = (case z of Some tz \<Rightarrow> tz | None \<Rightarrow> ''Etc/UTC'')"

record granularityInflater =
  giGranularity :: json
  giInflater :: "inflater option"

text \<open>
  \<^verbatim>\<open>splitExpressionToGranularityInflater(splitExpression, label)\<close>: granularity
  \<^verbatim>\<open>'none'\<close> for the bare time ref, a period granularity for a time bucket or time floor
  of the time ref, \<^verbatim>\<open>null\<close> for every other expression.
\<close>

definition periodGranularity :: "string \<Rightarrow> string option \<Rightarrow> json" where
  "periodGranularity duration z =
     JObj [(''type'', JStr ''period''), (''period'', JStr duration),
           (''timeZone'', JStr (getTimezone z))]"

definition splitExpressionToGranularityInflater ::
  "collaborators \<Rightarrow> druidExternal \<Rightarrow> expression \<Rightarrow> string \<Rightarrow> granularityInflater option" where
  "splitExpressionToGranularityInflater K e splitExpression label =
     (if isTimeRef e splitExpression then
        Some \<lparr>giGranularity = JStr ''none'', giInflater = Some (TimeInflater label)\<rparr>
      else
        (case splitExpression of
           ChainableExpression (OpTimeBucket duration z) t os operand \<Rightarrow>
             (if isTimeRef e operand then
                Some \<lparr>giGranularity = periodGranularity duration z,
                      giInflater = getIntelligentInflater K splitExpression label\<rparr>
              else None)
         | ChainableExpression (OpTimeFloor duration z) t os operand \<Rightarrow>
             (if isTimeRef e operand then
                Some \<lparr>giGranularity = periodGranularity duration z,
                      giInflater = getIntelligentInflater K splitExpression label\<rparr>
              else None)
         | _ \<Rightarrow> None))"

subsection \<open>The sort of a topN\<close>

text \<open>
  \<^verbatim>\<open>topNCompatibleSort()\<close>: with a sort on the reference to an apply, the apply's
  expression must hold no filter whose predicate mentions the time ref. Reading
  \<^verbatim>\<open>this.applies\<close> when the External has none is a \<^verbatim>\<open>TypeError\<close>.
\<close>

definition filterOnTime :: "druidExternal \<Rightarrow> expression \<Rightarrow> bool option" where
  "filterOnTime e ex =
     (case ex of
        ChainableUnaryExpression OpFilter t os x y \<Rightarrow>
          Some (some (\<lambda>ex'. orNull (isTimeRef e ex')) y)
      | _ \<Rightarrow> None)"

definition topNCompatibleSort :: "druidExternal \<Rightarrow> error + bool" where
  "topNCompatibleSort e =
     (case sortE e of
        None \<Rightarrow> Inr True
      | Some srt \<Rightarrow>
          (case sortExpr srt of
             RefExpression sortRefName k t i os \<Rightarrow>
               (case applies e of
                  None \<Rightarrow> Inl (TypeError ''Cannot read properties of undefined (reading 'find')'')
                | Some as \<Rightarrow>
                    (case find (\<lambda>a. applyName a = sortRefName) as of
                       Some sortApply \<Rightarrow> Inr (\<not> some (filterOnTime e) (applyExpr sortApply))
                     | None \<Rightarrow> Inr True))
           | _ \<Rightarrow> Inr True))"

subsection \<open>Output names\<close>

text \<open>
  \<^verbatim>\<open>makeOutputName(name)\<close>:
  \<^verbatim>\<open>if (name.indexOf('__') === 0) return '***' + name; return name;\<close>
\<close>

definition makeOutputName :: "string \<Rightarrow> string" where
  "makeOutputName nm = (if indexOf nm ''__'' = 0 then ''***'' @ nm else nm)"

subsection \<open>Split lowering: dimensions\<close>

record dimensionInflater =
  diVirtualColumn :: "json option"
  diDimension :: jobject
  diInflater :: "inflater option"

record dimensionInflaterHaving = dimensionInflater +
  having :: expression

definition TIME_ATTRIBUTE :: string where
  "TIME_ATTRIBUTE = ''__time''"

text \<open>The apostrophe of the error messages.\<close>

definition apostrophe :: string where
  "apostrophe = [CHR 0x27]"

fun isRefExpression :: "expression \<Rightarrow> bool" where
  "isRefExpression (RefExpression n k t i os) = True"
| "isRefExpression ex = False"

text \<open>\<^verbatim>\<open>instanceof ChainableExpression\<close>: chainable, chainable-unary and split nodes.\<close>

fun isChainableExpression :: "expression \<Rightarrow> bool" where
  "isChainableExpression (RefExpression n k t i os) = False"
| "isChainableExpression (LiteralExpression v t os) = False"
| "isChainableExpression ex = True"

fun operandOf :: "expression \<Rightarrow> expression option" where
  "operandOf (ChainableExpression c t os x) = Some x"
| "operandOf (ChainableUnaryExpression u t os x y) = Some x"
| "operandOf (SplitExpression t os x ss d) = Some x"
| "operandOf ex = None"

text \<open>
  The local \<^verbatim>\<open>makeExpression\<close> of \<^verbatim>\<open>expressionToDimensionInflater\<close>: the expression
  becomes a virtual column \<^verbatim>\<open>v:<outputName>\<close> (a bare reference needs none), read by a
  \<^verbatim>\<open>default\<close> dimension.
\<close>

definition makeExpression ::
  "collaborators \<Rightarrow> druidExternal \<Rightarrow> expression \<Rightarrow> string \<Rightarrow> error + dimensionInflater" where
  "makeExpression K e expression label =
     (case expressionToDruidExpression K e expression of
        Inl err \<Rightarrow> Inl err
      | Inr None \<Rightarrow>
          Inl (Error (''could not convert '' @ toString K expression @ '' to Druid expression''))
      | Inr (Some druidExpression) \<Rightarrow>
          (let outputName = makeOutputName label;
               outputType = expressionTypeToOutputType K (typeOf expression);
               inflater = getIntelligentInflater K expression label;
               dimensionSrcName =
                 (if isRefExpression expression then outputName else ''v:'' @ outputName);
               virtualColumn =
                 (if isRefExpression expression then None
                  else Some (JObj [(''type'', JStr ''expression''),
                                   (''name'', JStr dimensionSrcName),
                                   (''expression'', JStr druidExpression),
                                   (''outputType'', JStr outputType)]))
           in Inr \<lparr>diVirtualColumn = virtualColumn,
                    diDimension = [(''type'', JStr ''default''),
                                   (''dimension'', JStr dimensionSrcName),
                                   (''outputName'', JStr outputName),
                                   (''outputType'', JStr outputType)],
                    diInflater = inflater\<rparr>))"

text \<open>
  \<^verbatim>\<open>isComplexFallback\<close>: a fallback to a reference whose operand is a chainable over a
  chainable.
\<close>

definition isComplexFallback :: "expression \<Rightarrow> bool" where
  "isComplexFallback expression =
     (case expression of
        ChainableUnaryExpression OpFallback t os myOp y \<Rightarrow>
          (if \<not> isOp y ''ref'' then False
           else isChainableExpression myOp \<and>
                (case operandOf myOp of Some x \<Rightarrow> isChainableExpression x | None \<Rightarrow> False))
      | _ \<Rightarrow> False)"

definition unsplitableMessage :: "collaborators \<Rightarrow> expression \<Rightarrow> string \<Rightarrow> string" where
  "unsplitableMessage K expression referenceName =
     ''can not convert '' @ toString K expression @
     '' to split because it references an un-splitable metric '' @ apostrophe @
     referenceName @ apostrophe @ '' which is most likely rolled up.''"

fun simpleDimensionClass :: "expression \<Rightarrow> bool" where
  "simpleDimensionClass (RefExpression n k t i os) = True"
| "simpleDimensionClass (ChainableExpression (OpTimeBucket d z) t os x) = True"
| "simpleDimensionClass (ChainableExpression (OpTimePart p z) t os x) = True"
| "simpleDimensionClass (ChainableExpression (OpNumberBucket sz off) t os x) = True"
| "simpleDimensionClass ex = False"

fun isCardinalityExpression :: "expression \<Rightarrow> bool" where
  "isCardinalityExpression (ChainableExpression OpCardinality t os x) = True"
| "isCardinalityExpression ex = False"

text \<open>
  \<^verbatim>\<open>expressionToDimensionInflater(expression, label)\<close>. With no free reference: an
  extraction dimension over \<^verbatim>\<open>__time\<close>. With several free references, a \<^verbatim>\<open>then\<close>
  or a complex fallback: \<^verbatim>\<open>makeExpression()\<close>. Otherwise the one referenced attribute
  is looked up, an un-splitable one is refused, and the extraction function is built; when
  the builder throws, the \<^verbatim>\<open>catch\<close> falls back to \<^verbatim>\<open>makeExpression()\<close>.
\<close>

definition plainDimension ::
  "collaborators \<Rightarrow> druidExternal \<Rightarrow> expression \<Rightarrow> string \<Rightarrow> attributeInfo \<Rightarrow> json option
     \<Rightarrow> error + dimensionInflater" where
  "plainDimension K e expression label attributeInfo extractionFn =
     (let simpleInflater = getIntelligentInflater K expression label;
          dimensionName =
            (if attrName attributeInfo = timeAttribute e then TIME_ATTRIBUTE
             else attrName attributeInfo);
          dimension0 = [(''type'', JStr ''default''),
                        (''dimension'', JStr dimensionName),
                        (''outputName'', JStr (makeOutputName label))];
          dimension1 =
            (case extractionFn of
               Some fn \<Rightarrow>
                 setField ''extractionFn'' fn (setField ''type'' (JStr ''extraction'') dimension0)
             | None \<Rightarrow> dimension0);
          dimension =
            (if typeOf expression = Some NUMBER then
               setField ''outputType''
                 (JStr (if dimensionName = TIME_ATTRIBUTE then ''LONG'' else ''DOUBLE''))
                 dimension1
             else dimension1)
      in if simpleDimensionClass expression then
           Inr \<lparr>diVirtualColumn = None, diDimension = dimension, diInflater = simpleInflater\<rparr>
         else if isCardinalityExpression expression then
           Inr \<lparr>diVirtualColumn = None, diDimension = dimension,
                diInflater = Some (SetCardinalityInflater label)\<rparr>
         else
           (let effectiveType = unwrapSetType (typeOf expression) in
            if simpleInflater \<noteq> None \<or> effectiveType = Some STRING
               \<or> effectiveType = Some NULL then
              Inr \<lparr>diVirtualColumn = None, diDimension = dimension,
                   diInflater = simpleInflater\<rparr>
            else
              Inl (Error (''could not convert '' @ toString K expression @
                          '' to a Druid dimension''))))"

definition expressionToDimensionInflater ::
  "collaborators \<Rightarrow> druidExternal \<Rightarrow> expression \<Rightarrow> string \<Rightarrow> error + dimensionInflater" where
  "expressionToDimensionInflater K e expression label =
     (let freeReferences = getFreeReferences K expression in
      if length freeReferences = 0 then
        (case expressionToExtractionFn K e expression of
           Inl err \<Rightarrow> Inl err
         | Inr fn \<Rightarrow>
             Inr \<lparr>diVirtualColumn = None,
                  diDimension = [(''type'', JStr ''extraction''),
                                 (''dimension'', JStr TIME_ATTRIBUTE),
                                 (''outputName'', JStr (makeOutputName label)),
                                 (''extractionFn'', (case fn of Some f \<Rightarrow> f | None \<Rightarrow> JNull))],
                  diInflater = None\<rparr>)
      else if length freeReferences > 1
              \<or> some (\<lambda>ex. orNull (isOp ex ''then'')) expression
              \<or> isComplexFallback expression then
        makeExpression K e expression label
      else
        (let referenceName = hd freeReferences in
         case getAttributesInfo K e referenceName of
           Inl err \<Rightarrow> Inl err
         | Inr attributeInfo \<Rightarrow>
             if unsplitable attributeInfo then
               Inl (Error (unsplitableMessage K expression referenceName))
             else
               (case expressionToExtractionFn K e expression of
                  Inl err \<Rightarrow> makeExpression K e expression label
                | Inr extractionFn \<Rightarrow>
                    plainDimension K e expression label attributeInfo extractionFn)))"

subsection \<open>Having push-down\<close>

text \<open>
  Modelled from the spec: \<^verbatim>\<open>Expression.extractFromAnd\<close>, \<^verbatim>\<open>Expression.and\<close> and
  \<^verbatim>\<open>getExpressionList\<close> are not part of the sources at hand. The spec's
  "AND-extraction" splits a filter into the conjuncts a predicate accepts and the residue:
  an \<^verbatim>\<open>and\<close> chain is flattened along its operands, the conjuncts are sorted by the
  predicate, and each side is rebuilt with \<^verbatim>\<open>Expression.and\<close> (\<^verbatim>\<open>TRUE\<close> for no
  conjunct, the conjunct itself for one, a left-nested chain for more). A filter that is
  not an \<^verbatim>\<open>and\<close> is one conjunct; for a filter that is not BOOLEAN the method answers
  \<^verbatim>\<open>null\<close>. The filter is taken as already simplified.
\<close>

fun getExpressionList :: "expression \<Rightarrow> expression list" where
  "getExpressionList (ChainableUnaryExpression OpAnd t os x y) = getExpressionList x @ [y]"
| "getExpressionList ex = [ex]"

definition andExpression :: "expression \<Rightarrow> expression \<Rightarrow> expression" where
  "andExpression acc ex = ChainableUnaryExpression OpAnd (Some BOOLEAN) [] acc ex"

definition Expression_and :: "expression list \<Rightarrow> expression" where
  "Expression_and exs =
     (case exs of [] \<Rightarrow> TRUE | ex # rest \<Rightarrow> foldl andExpression ex rest)"

definition extractFromAnd ::
  "(expression \<Rightarrow> bool) \<Rightarrow> expression \<Rightarrow> (expression \<times> expression) option" where
  "extractFromAnd matchFn ex =
     (case ex of
        ChainableUnaryExpression OpAnd t os x y \<Rightarrow>
          (let andExpressions = getExpressionList ex in
           Some (Expression_and (filter matchFn andExpressions),
                 Expression_and (filter (\<lambda>c. \<not> matchFn c) andExpressions)))
      | _ \<Rightarrow>
          (if typeOf ex \<noteq> Some BOOLEAN then None
           else if matchFn ex then Some (ex, TRUE)
           else Some (TRUE, ex)))"

text \<open>
  The predicate \<^verbatim>\<open>expressionToDimensionInflaterHaving\<close> hands to
  \<^verbatim>\<open>extractFromAnd\<close>: a chainable node whose operand is the reference named
  \<open>label\<close> and whose \<^verbatim>\<open>op\<close> is \<^verbatim>\<open>'match'\<close>, or \<^verbatim>\<open>'is'\<close> with a literal argument.
\<close>

fun constrainsLabel :: "string \<Rightarrow> expression \<Rightarrow> bool" where
  "constrainsLabel label (ChainableExpression hfOp t os (RefExpression n k t' i os')) =
     (n = label \<and> chainableOpName hfOp = ''match'')"
| "constrainsLabel label (ChainableUnaryExpression hfOp t os (RefExpression n k t' i os') y) =
     (n = label \<and>
      (chainableUnaryOpName hfOp = ''match'' \<or>
       (chainableUnaryOpName hfOp = ''is'' \<and> isOp y ''literal'')))"
| "constrainsLabel label hf = False"

text \<open>The \<^verbatim>\<open>values\<close> of a \<^verbatim>\<open>listFiltered\<close> dimension for an \<^verbatim>\<open>is\<close>:
  the elements of a set literal, or the one value of any other literal.\<close>

fun listFilteredValues :: "plywoodValue \<Rightarrow> json" where
  "listFilteredValues (VSet elements) = JArr (map valueToJS elements)"
| "listFilteredValues v = JArr [valueToJS v]"

text \<open>\<^verbatim>\<open>getLiteralValue()\<close>: the value of a literal, \<^verbatim>\<open>null\<close> for any other node.\<close>

fun getLiteralValue :: "expression \<Rightarrow> plywoodValue" where
  "getLiteralValue (LiteralExpression v t os) = v"
| "getLiteralValue ex = VNull"

text \<open>
  \<^verbatim>\<open>expressionToDimensionInflaterHaving(expression, label, havingFilter)\<close>. For a split
  key that is not SET/STRING the having filter is handed back as it came. Otherwise the
  conjuncts accepted by the predicate are extracted; a single match becomes a
  \<^verbatim>\<open>regexFiltered\<close> dimension, a single \<^verbatim>\<open>is\<close> (or an \<^verbatim>\<open>in\<close>) a
  \<^verbatim>\<open>listFiltered\<close> one, around the delegate; anything else leaves the dimension and
  the having filter as they were.
\<close>

definition withHaving :: "dimensionInflater \<Rightarrow> expression \<Rightarrow> dimensionInflaterHaving" where
  "withHaving d h =
     \<lparr>diVirtualColumn = diVirtualColumn d, diDimension = diDimension d,
      diInflater = diInflater d, having = h\<rparr>"

definition filteredDimension ::
  "dimensionInflater \<Rightarrow> jobject \<Rightarrow> expression \<Rightarrow> dimensionInflaterHaving" where
  "filteredDimension d dimension rest =
     \<lparr>diVirtualColumn = None, diDimension = dimension, diInflater = diInflater d,
      having = rest\<rparr>"

definition expressionToDimensionInflaterHaving ::
  "collaborators \<Rightarrow> druidExternal \<Rightarrow> expression \<Rightarrow> string \<Rightarrow> expression
     \<Rightarrow> error + dimensionInflaterHaving" where
  "expressionToDimensionInflaterHaving K e expression label havingFilter' =
     (case expressionToDimensionInflater K e expression label of
        Inl err \<Rightarrow> Inl err
      | Inr d \<Rightarrow>
          (let dimensionInflater = withHaving d havingFilter' in
           if typeOf expression \<noteq> Some SET_STRING then Inr dimensionInflater
           else
             (case extractFromAnd (constrainsLabel label) havingFilter' of
                None \<Rightarrow>
                  Inl (TypeError ''Cannot destructure property 'extract' of null'')
              | Some (extract, rest) \<Rightarrow>
                  if extract = TRUE then Inr dimensionInflater
                  else
                    (case extract of
                       ChainableExpression (OpMatch regexp) t os x \<Rightarrow>
                         Inr (filteredDimension d
                                [(''type'', JStr ''regexFiltered''),
                                 (''delegate'', JObj (diDimension d)),
                                 (''pattern'', JStr regexp)] rest)
                     | ChainableUnaryExpression OpIs t os x y \<Rightarrow>
                         (let v = getLiteralValue y in
                          Inr (filteredDimension d
                                 [(''type'', JStr ''listFiltered''),
                                  (''delegate'', JObj (diDimension d)),
                                  (''values'', listFilteredValues v)] rest))
                     | ChainableUnaryExpression OpIn t os x y \<Rightarrow>
                         (case getLiteralValue y of
                            VNull \<Rightarrow>
                              Inl (TypeError
                                ''Cannot read properties of null (reading 'elements')'')
                          | VSet elements \<Rightarrow>
                              Inr (filteredDimension d
                                     [(''type'', JStr ''listFiltered''),
                                      (''delegate'', JObj (diDimension d)),
                                      (''values'', JArr (map valueToJS elements))] rest)
                          | _ \<Rightarrow>
                              Inr (filteredDimension d
                                     [(''type'', JStr ''listFiltered''),
                                      (''delegate'', JObj (diDimension d))] rest))
                     | _ \<Rightarrow> Inr dimensionInflater))))"

subsection \<open>Split lowering: the shape of the query\<close>

record druidSplit =
  queryType :: string
  timestampLabel :: "string option"
  virtualColumns :: "json list option"
  granularity :: json
  dimension :: "jobject option"
  dimensions :: "jobject list option"
  leftoverHavingFilter :: expression
  postTransform :: postTransform

definition isMultiSplit :: "splitExpression \<Rightarrow> bool" where
  "isMultiSplit s = (length (splits s) > 1)"

text \<open>
  The body of \<^verbatim>\<open>split.mapSplits\<close> in the groupBy branch of \<^verbatim>\<open>splitToDruid\<close>: each
  key is lowered with the having filter the previous key left over; the virtual columns,
  dimensions and inflaters are collected in key order.
\<close>

fun groupByDimensions ::
  "collaborators \<Rightarrow> druidExternal \<Rightarrow> (string \<times> expression) list \<Rightarrow> expression
     \<Rightarrow> error + (json list \<times> jobject list \<times> inflater list \<times> expression)" where
  "groupByDimensions K e [] leftover = Inr ([], [], [], leftover)"
| "groupByDimensions K e ((nm, expression) # rest) leftover =
     (case expressionToDimensionInflaterHaving K e expression nm leftover of
        Inl err \<Rightarrow> Inl err
      | Inr d \<Rightarrow>
          (case groupByDimensions K e rest (having d) of
             Inl err \<Rightarrow> Inl err
           | Inr (vcs, dims, infls, lo) \<Rightarrow>
               Inr ((case diVirtualColumn d of Some vc \<Rightarrow> vc # vcs | None \<Rightarrow> vcs),
                    diDimension d # dims,
                    (case diInflater d of Some i \<Rightarrow> i # infls | None \<Rightarrow> infls),
                    lo)))"

text \<open>
  The test that guards the \<^verbatim>\<open>topN\<close> shape, evaluated left to right as \<^verbatim>\<open>&&\<close> does:
  no leftover having filter, a limit or a split of fewer than 1000 buckets, no
  \<^verbatim>\<open>exactResultsOnly\<close>, a topN-compatible sort, and the query selection \<^verbatim>\<open>'any'\<close>.
\<close>

definition topNGuard ::
  "collaborators \<Rightarrow> druidExternal \<Rightarrow> splitExpression \<Rightarrow> expression \<Rightarrow> error + bool" where
  "topNGuard K e s leftover =
     (if leftover = TRUE
         \<and> (limit e \<noteq> None \<or> (case maxBucketNumber K s of Some n \<Rightarrow> n < 1000 | None \<Rightarrow> False))
         \<and> \<not> exactResultsOnly e
      then (case topNCompatibleSort e of
              Inl err \<Rightarrow> Inl err
            | Inr b \<Rightarrow> Inr (b \<and> getQuerySelection e = Any))
      else Inr False)"

text \<open>
  \<^verbatim>\<open>splitToDruid(split)\<close>. Group-by-only selection or several keys: a groupBy over all
  keys. One key: a timeseries when there is no limit, the sort is compatible with the
  timestamp label, the having filter is \<^verbatim>\<open>TRUE\<close> and the key yields a granularity; else
  the key is lowered to a dimension, and the query is a topN under \<open>topNGuard\<close> and a
  groupBy otherwise. A split without keys (which the constructor of a split refuses) ends
  in a \<^verbatim>\<open>TypeError\<close> when the missing expression is lowered.
\<close>

definition splitToDruid ::
  "collaborators \<Rightarrow> druidExternal \<Rightarrow> splitExpression \<Rightarrow> error + druidSplit" where
  "splitToDruid K e s =
     (let selectedAttributes = getSelectedAttributes K e in
      if getQuerySelection e = GroupByOnly \<or> isMultiSplit s then
        (case groupByDimensions K e (splits s) (havingFilter e) of
           Inl err \<Rightarrow> Inl err
         | Inr (vcs, dims, infls, lo) \<Rightarrow>
             Inr \<lparr>queryType = ''groupBy'', timestampLabel = None,
                  virtualColumns = Some vcs, granularity = JStr ''all'',
                  dimension = None, dimensions = Some dims,
                  leftoverHavingFilter = lo,
                  postTransform =
                    PostTransform (map Some infls) selectedAttributes
                      (Some (map fst (splits s))) None\<rparr>)
      else
        (case splits s of
           [] \<Rightarrow> Inl (TypeError ''Cannot read properties of undefined (reading 'getFreeReferences')'')
         | (label, splitExpression) # others \<Rightarrow>
             (case (if limit e = None
                       \<and> isTimestampCompatibleSort (sortE e) label
                       \<and> havingFilter e = TRUE
                    then splitExpressionToGranularityInflater K e splitExpression label
                    else None) of
                Some granularityInflater \<Rightarrow>
                  Inr \<lparr>queryType = ''timeseries'', timestampLabel = Some label,
                       virtualColumns = None,
                       granularity = giGranularity granularityInflater,
                       dimension = None, dimensions = None,
                       leftoverHavingFilter = havingFilter e,
                       postTransform =
                         PostTransform [giInflater granularityInflater] selectedAttributes
                           (Some [label]) None\<rparr>
              | None \<Rightarrow>
                  (case expressionToDimensionInflaterHaving K e splitExpression label
                          (havingFilter e) of
                     Inl err \<Rightarrow> Inl err
                   | Inr d \<Rightarrow>
                       (let inflaters = (case diInflater d of Some i \<Rightarrow> [Some i] | None \<Rightarrow> []);
                            vcs = (case diVirtualColumn d of Some vc \<Rightarrow> Some [vc] | None \<Rightarrow> None);
                            pt = PostTransform inflaters selectedAttributes (Some [label]) None
                        in case topNGuard K e s (having d) of
                             Inl err \<Rightarrow> Inl err
                           | Inr True \<Rightarrow>
                               Inr \<lparr>queryType = ''topN'', timestampLabel = None,
                                    virtualColumns = vcs, granularity = JStr ''all'',
                                    dimension = Some (diDimension d), dimensions = None,
                                    leftoverHavingFilter = having d, postTransform = pt\<rparr>
                           | Inr False \<Rightarrow>
                               Inr \<lparr>queryType = ''groupBy'', timestampLabel = None,
                                    virtualColumns = vcs, granularity = JStr ''all'',
                                    dimension = None, dimensions = Some [diDimension d],
                                    leftoverHavingFilter = having d, postTransform = pt\<rparr>)))))"

subsection \<open>Re-split aggregates\<close>

text \<open>Printing a counter in decimal, as string concatenation with a number does.\<close>

definition digitChar :: "nat \<Rightarrow> char" where
  "digitChar d = char_of (48 + d)"

function showNat :: "nat \<Rightarrow> string" where
  "showNat n = (if n < 10 then [digitChar n] else showNat (n div 10) @ [digitChar (n mod 10)])"
  by pat_completeness auto
termination
  by (relation "measure id") auto

declare showNat.simps [simp del]

text \<open>
  Modelled from the spec: the \<^verbatim>\<open>Aggregate\<close> mixin is not part of the sources at hand;
  \<^verbatim>\<open>isAggregate()\<close> is a predicate on the tag, true of the aggregate classes.
\<close>

fun isAggregateChainable :: "chainableOp \<Rightarrow> bool" where
  "isAggregateChainable OpCount = True"
| "isAggregateChainable (OpCustomAggregate c) = True"
| "isAggregateChainable (OpSqlAggregate c) = True"
| "isAggregateChainable c = False"

fun isAggregateUnary :: "chainableUnaryOp \<Rightarrow> bool" where
  "isAggregateUnary OpMin = True"
| "isAggregateUnary OpMax = True"
| "isAggregateUnary OpSum = True"
| "isAggregateUnary OpAverage = True"
| "isAggregateUnary OpCountDistinct = True"
| "isAggregateUnary OpQuantile = True"
| "isAggregateUnary OpCollect = True"
| "isAggregateUnary u = False"

fun isAggregate :: "expression \<Rightarrow> bool" where
  "isAggregate (ChainableExpression c t os x) = isAggregateChainable c"
| "isAggregate (ChainableUnaryExpression u t os x y) = isAggregateUnary u"
| "isAggregate ex = False"

text \<open>
  Modelled from the spec: \<^verbatim>\<open>Expression.substitute\<close>, \<^verbatim>\<open>changeOperand\<close>,
  \<^verbatim>\<open>changeExpression\<close> and \<^verbatim>\<open>setOption\<close> are not part of the sources at hand.
  The spec's walk over an expression tree visits a node before its operand and its
  argument expressions; a node the function replaces is not entered. A changed node keeps
  its tag, type and options.
\<close>

fun substitute :: "(expression \<Rightarrow> expression option) \<Rightarrow> expression \<Rightarrow> expression"
  and substituteSplits ::
    "(expression \<Rightarrow> expression option) \<Rightarrow> (string \<times> expression) list
       \<Rightarrow> (string \<times> expression) list"
where
  "substitute f (RefExpression n k t i os) =
     (case f (RefExpression n k t i os) of Some sub \<Rightarrow> sub
      | None \<Rightarrow> RefExpression n k t i os)"
| "substitute f (LiteralExpression v t os) =
     (case f (LiteralExpression v t os) of Some sub \<Rightarrow> sub
      | None \<Rightarrow> LiteralExpression v t os)"
| "substitute f (ChainableExpression c t os x) =
     (case f (ChainableExpression c t os x) of Some sub \<Rightarrow> sub
      | None \<Rightarrow> ChainableExpression c t os (substitute f x))"
| "substitute f (ChainableUnaryExpression u t os x y) =
     (case f (ChainableUnaryExpression u t os x y) of Some sub \<Rightarrow> sub
      | None \<Rightarrow> ChainableUnaryExpression u t os (substitute f x) (substitute f y))"
| "substitute f (SplitExpression t os x ss d) =
     (case f (SplitExpression t os x ss d) of Some sub \<Rightarrow> sub
      | None \<Rightarrow> SplitExpression t os (substitute f x) (substituteSplits f ss) d)"
| "substituteSplits f [] = []"
| "substituteSplits f ((k, ex) # rest) = (k, substitute f ex) # substituteSplits f rest"

fun changeOperand :: "expression \<Rightarrow> expression \<Rightarrow> expression" where
  "changeOperand (ChainableExpression c t os x) x' = ChainableExpression c t os x'"
| "changeOperand (ChainableUnaryExpression u t os x y) x' = ChainableUnaryExpression u t os x' y"
| "changeOperand (SplitExpression t os x ss d) x' = SplitExpression t os x' ss d"
| "changeOperand ex x' = ex"

fun changeExpression :: "expression \<Rightarrow> expression \<Rightarrow> expression" where
  "changeExpression (ChainableUnaryExpression u t os x y) y' = ChainableUnaryExpression u t os x y'"
| "changeExpression ex y' = ex"

fun setOption :: "expression \<Rightarrow> string \<Rightarrow> plywoodValue \<Rightarrow> expression" where
  "setOption (RefExpression n k t i os) key v = RefExpression n k t i (setField key v os)"
| "setOption (LiteralExpression lv t os) key v = LiteralExpression lv t (setField key v os)"
| "setOption (ChainableExpression c t os x) key v =
     ChainableExpression c t (setField key v os) x"
| "setOption (ChainableUnaryExpression u t os x y) key v =
     ChainableUnaryExpression u t (setField key v os) x y"
| "setOption (SplitExpression t os x ss d) key v = SplitExpression t (setField key v os) x ss d"

text \<open>\<^verbatim>\<open>RefExpression.changeName(name)\<close>: the reference rebuilt from its value with the
  new name. The constructor refuses an empty name; the one caller passes
  \<^verbatim>\<open>oldName + '_' + i\<close>, which is never empty.\<close>

fun changeName :: "expression \<Rightarrow> string \<Rightarrow> expression" where
  "changeName (RefExpression n k t i os) n' = RefExpression n' k t i os"
| "changeName ex n' = ex"

text \<open>The expression builders the re-split rewrite uses; \<open>rLiteral\<close> is \<^verbatim>\<open>r(value)\<close>.\<close>

definition filterOf :: "expression \<Rightarrow> expression \<Rightarrow> expression" where
  "filterOf x predicate = ChainableUnaryExpression OpFilter (Some DATASET) [] x predicate"

definition countOf :: "expression \<Rightarrow> expression" where
  "countOf x = ChainableExpression OpCount (Some NUMBER) [] x"

definition sumOf :: "expression \<Rightarrow> expression \<Rightarrow> expression" where
  "sumOf x y = ChainableUnaryExpression OpSum (Some NUMBER) [] x y"

definition greaterThan :: "expression \<Rightarrow> expression \<Rightarrow> expression" where
  "greaterThan x y = ChainableUnaryExpression OpGreaterThan (Some BOOLEAN) [] x y"

definition rLiteral :: "int \<Rightarrow> expression" where
  "rLiteral n = LiteralExpression (VNumber n) (Some NUMBER) []"

record parsedResplitAgg =
  resplitAgg :: expression
  resplitApply :: applyExpression
  resplitSplit :: splitExpression

text \<open>
  \<^verbatim>\<open>parseResplitAgg(applyExpression)\<close>: an aggregate whose operand is an apply whose
  operand is a split of a reference, or of a filter of a reference. The parts come back
  with \<^verbatim>\<open>$_\<close> as operand; a filter under the split is moved into the apply's expression,
  onto its references to a dataset.
\<close>

definition filterDatasetRefs :: "expression \<Rightarrow> expression \<Rightarrow> expression option" where
  "filterDatasetRefs filterExpression ex =
     (case ex of
        RefExpression n k t i os \<Rightarrow>
          (if t = Some DATASET then Some (filterOf ex filterExpression) else None)
      | _ \<Rightarrow> None)"

definition parseResplitAgg :: "expression \<Rightarrow> parsedResplitAgg option" where
  "parseResplitAgg applyExpression =
     (if \<not> isChainableExpression applyExpression \<or> \<not> isAggregate applyExpression then None
      else
        (case operandOf applyExpression of
           Some (ChainableUnaryExpression (OpApply nm) ta osa resplitSplit' applied) \<Rightarrow>
             (case resplitSplit' of
                SplitExpression ts oss resplitRefOrFilter ss d \<Rightarrow>
                  (let (resplitRef, effectiveExpression) =
                         (case resplitRefOrFilter of
                            ChainableUnaryExpression OpFilter tf osf x filterExpression \<Rightarrow>
                              (x, substitute (filterDatasetRefs filterExpression) applied)
                          | _ \<Rightarrow> (resplitRefOrFilter, applied))
                   in if \<not> isRefExpression resplitRef then None
                      else Some \<lparr>resplitAgg = changeOperand applyExpression ExpressionUnderscore,
                                  resplitApply =
                                    \<lparr>applyName = nm, applyExpr = effectiveExpression\<rparr>,
                                  resplitSplit = \<lparr>splits = ss, dataName = d\<rparr>\<rparr>)
              | _ \<Rightarrow> None)
         | _ \<Rightarrow> None))"

text \<open>\<^verbatim>\<open>getFilterSubExpression\<close>: the first filter of an expression, in pre-order.\<close>

fun getFilterSubExpression :: "expression \<Rightarrow> expression option"
  and getFilterSubExpressionSplits :: "(string \<times> expression) list \<Rightarrow> expression option"
where
  "getFilterSubExpression (RefExpression n k t i os) = None"
| "getFilterSubExpression (LiteralExpression v t os) = None"
| "getFilterSubExpression (ChainableExpression c t os x) = getFilterSubExpression x"
| "getFilterSubExpression (ChainableUnaryExpression u t os x y) =
     (if u = OpFilter then Some (ChainableUnaryExpression u t os x y)
      else (case getFilterSubExpression x of
              Some f \<Rightarrow> Some f
            | None \<Rightarrow> getFilterSubExpression y))"
| "getFilterSubExpression (SplitExpression t os x ss d) =
     (case getFilterSubExpression x of
        Some f \<Rightarrow> Some f
      | None \<Rightarrow> getFilterSubExpressionSplits ss)"
| "getFilterSubExpressionSplits [] = None"
| "getFilterSubExpressionSplits ((k, ex) # rest) =
     (case getFilterSubExpression ex of
        Some f \<Rightarrow> Some f
      | None \<Rightarrow> getFilterSubExpressionSplits rest)"

subsection \<open>Nested group-by: splitting up the applies\<close>

text \<open>
  The substitution of \<^verbatim>\<open>nestedGroupByIfNeeded\<close> pushes onto arrays and may throw, so
  the walk of \<^verbatim>\<open>substitute\<close> is threaded with a state and an error: the function
  answers a replacement (or \<^verbatim>\<open>null\<close>) and the new state, or throws.
\<close>

fun substituteM ::
    "(expression \<Rightarrow> 's \<Rightarrow> error + (expression option \<times> 's)) \<Rightarrow> expression \<Rightarrow> 's
       \<Rightarrow> error + (expression \<times> 's)"
  and substituteSplitsM ::
    "(expression \<Rightarrow> 's \<Rightarrow> error + (expression option \<times> 's)) \<Rightarrow> (string \<times> expression) list
       \<Rightarrow> 's \<Rightarrow> error + ((string \<times> expression) list \<times> 's)"
where
  "substituteM f (RefExpression n k t i os) s =
     (case f (RefExpression n k t i os) s of
        Inl err \<Rightarrow> Inl err
      | Inr (Some sub, s') \<Rightarrow> Inr (sub, s')
      | Inr (None, s') \<Rightarrow> Inr (RefExpression n k t i os, s'))"
| "substituteM f (LiteralExpression v t os) s =
     (case f (LiteralExpression v t os) s of
        Inl err \<Rightarrow> Inl err
      | Inr (Some sub, s') \<Rightarrow> Inr (sub, s')
      | Inr (None, s') \<Rightarrow> Inr (LiteralExpression v t os, s'))"
| "substituteM f (ChainableExpression c t os x) s =
     (case f (ChainableExpression c t os x) s of
        Inl err \<Rightarrow> Inl err
      | Inr (Some sub, s') \<Rightarrow> Inr (sub, s')
      | Inr (None, s') \<Rightarrow>
          (case substituteM f x s' of
             Inl err \<Rightarrow> Inl err
           | Inr (x', s'') \<Rightarrow> Inr (ChainableExpression c t os x', s'')))"
| "substituteM f (ChainableUnaryExpression u t os x y) s =
     (case f (ChainableUnaryExpression u t os x y) s of
        Inl err \<Rightarrow> Inl err
      | Inr (Some sub, s') \<Rightarrow> Inr (sub, s')
      | Inr (None, s') \<Rightarrow>
          (case substituteM f x s' of
             Inl err \<Rightarrow> Inl err
           | Inr (x', s'') \<Rightarrow>
               (case substituteM f y s'' of
                  Inl err \<Rightarrow> Inl err
                | Inr (y', s''') \<Rightarrow> Inr (ChainableUnaryExpression u t os x' y', s'''))))"
| "substituteM f (SplitExpression t os x ss d) s =
     (case f (SplitExpression t os x ss d) s of
        Inl err \<Rightarrow> Inl err
      | Inr (Some sub, s') \<Rightarrow> Inr (sub, s')
      | Inr (None, s') \<Rightarrow>
          (case substituteM f x s' of
             Inl err \<Rightarrow> Inl err
           | Inr (x', s'') \<Rightarrow>
               (case substituteSplitsM f ss s'' of
                  Inl err \<Rightarrow> Inl err
                | Inr (ss', s''') \<Rightarrow> Inr (SplitExpression t os x' ss' d, s'''))))"
| "substituteSplitsM f [] s = Inr ([], s)"
| "substituteSplitsM f ((k, ex) # rest) s =
     (case substituteM f ex s of
        Inl err \<Rightarrow> Inl err
      | Inr (ex', s') \<Rightarrow>
          (case substituteSplitsM f rest s' of
             Inl err \<Rightarrow> Inl err
           | Inr (rest', s'') \<Rightarrow> Inr ((k, ex') # rest', s'')))"

record resplitState =
  globalResplitSplit :: "splitExpression option"
  outerAttributes :: "attributeInfo list"
  innerApplies :: "applyExpression list"
  counter :: nat

text \<open>\<^verbatim>\<open>AttributeInfo.fromJS({ name, type, nativeType })\<close>.\<close>

definition attributeInfoFromJS ::
  "string \<Rightarrow> plyType option \<Rightarrow> string option \<Rightarrow> attributeInfo" where
  "attributeInfoFromJS n t nt =
     \<lparr>attrName = n, attrType = t, nativeType = nt, unsplitable = False, maker = None,
      cardinality = None, attrRange = None\<rparr>"

definition renameRef :: "string \<Rightarrow> string \<Rightarrow> expression \<Rightarrow> expression option" where
  "renameRef oldName newName ex =
     (case ex of
        RefExpression n k t i os \<Rightarrow> (if n = oldName then Some (changeName ex newName) else None)
      | _ \<Rightarrow> None)"

fun isCountDistinctExpression :: "expression \<Rightarrow> bool" where
  "isCountDistinctExpression (ChainableUnaryExpression OpCountDistinct t os x y) = True"
| "isCountDistinctExpression ex = False"

definition sameSplitMessage :: string where
  "sameSplitMessage = ''all resplit aggregators must have the same split''"

definition customAggregateMessage :: string where
  "customAggregateMessage = ''can not currently combine custom aggregation and re-split''"

text \<open>
  The re-split branch of the substitution, for an aggregate that
  \<^verbatim>\<open>parseResplitAgg\<close> recognised: the inner split must be the one met before, if any;
  the apply moves to the inner query under the name \<^verbatim>\<open><name>_<i>\<close>, and the aggregate
  stays outside, over the renamed column (filtered on \<^verbatim>\<open><name>_<i>_def\<close> when the
  inner apply holds a filter).
\<close>

definition resplitAggregate ::
  "collaborators \<Rightarrow> nat \<Rightarrow> parsedResplitAgg \<Rightarrow> resplitState
     \<Rightarrow> error + (expression option \<times> resplitState)" where
  "resplitAggregate K i resplit st =
     (if (case globalResplitSplit st of
            Some g \<Rightarrow> g \<noteq> resplitSplit resplit
          | None \<Rightarrow> False)
      then Inl (Error sameSplitMessage)
      else
        (let st1 = st\<lparr>globalResplitSplit :=
                        Some (case globalResplitSplit st of
                                Some g \<Rightarrow> g
                              | None \<Rightarrow> resplitSplit resplit)\<rparr>;
             oldName = applyName (resplitApply resplit);
             newName = oldName @ ''_'' @ showNat i;
             st2 = st1\<lparr>innerApplies := innerApplies st1 @
                          [\<lparr>applyName = newName,
                            applyExpr = setOption (applyExpr (resplitApply resplit))
                                          ''forceFinalize'' (VBoolean True)\<rparr>],
                        outerAttributes := outerAttributes st1 @
                          [attributeInfoFromJS newName (Some NUMBER) None]\<rparr>;
             resplitAggWithUpdatedNames =
               substitute (renameRef oldName newName) (resplitAgg resplit)
         in case getFilterSubExpression (applyExpr (resplitApply resplit)) of
              Some filterExpression \<Rightarrow>
                (let definedFilterName = newName @ ''_def'' in
                 Inr (Some (changeOperand resplitAggWithUpdatedNames
                              (filterOf (ref ''_'')
                                 (simplify K (greaterThan (ref definedFilterName) (rLiteral 0))))),
                      st2\<lparr>innerApplies := innerApplies st2 @
                             [\<lparr>applyName = definedFilterName,
                               applyExpr = countOf filterExpression\<rparr>],
                           outerAttributes := outerAttributes st2 @
                             [attributeInfoFromJS definedFilterName (Some NUMBER) None]\<rparr>))
            | None \<Rightarrow> Inr (Some resplitAggWithUpdatedNames, st2)))"

text \<open>
  The other branch: an aggregate that is no re-split moves to the inner query under
  \<^verbatim>\<open>a<i>_<c>\<close>; a count becomes a sum over that column, a chainable-unary aggregate
  the same aggregate over it; a custom aggregate, and any other, is refused.
\<close>

definition plainAggregate ::
  "nat \<Rightarrow> expression \<Rightarrow> resplitState \<Rightarrow> error + (expression option \<times> resplitState)" where
  "plainAggregate i ex st =
     (let tempName = ''a'' @ showNat i @ ''_'' @ showNat (counter st);
          st1 = st\<lparr>counter := counter st + 1,
                    innerApplies := innerApplies st @ [\<lparr>applyName = tempName, applyExpr = ex\<rparr>],
                    outerAttributes := outerAttributes st @
                      [attributeInfoFromJS tempName (typeOf ex)
                         (if isCountDistinctExpression ex then Some ''hyperUnique'' else None)]\<rparr>
      in case ex of
           ChainableExpression OpCount t os x \<Rightarrow>
             Inr (Some (sumOf ExpressionUnderscore (ref tempName)), st1)
         | ChainableUnaryExpression u t os x y \<Rightarrow>
             Inr (Some (changeExpression (changeOperand ex ExpressionUnderscore) (ref tempName)),
                  st1)
         | ChainableExpression (OpCustomAggregate c) t os x \<Rightarrow>
             Inl (Error customAggregateMessage)
         | _ \<Rightarrow>
             Inl (Error (''bad '' @ apostrophe @ opOf ex @ apostrophe @
                         '' aggregate in custom expression'')))"

definition splitUpAggregate ::
  "collaborators \<Rightarrow> nat \<Rightarrow> expression \<Rightarrow> resplitState
     \<Rightarrow> error + (expression option \<times> resplitState)" where
  "splitUpAggregate K i ex st =
     (if isAggregate ex then
        (case parseResplitAgg ex of
           Some resplit \<Rightarrow> resplitAggregate K i resplit st
         | None \<Rightarrow> plainAggregate i ex st)
      else Inr (None, st))"

text \<open>\<^verbatim>\<open>effectiveApplies.map((apply, i) => ...)\<close>: the applies in order, \<open>c\<close> starting
  at 0 for each.\<close>

fun splitUpApplies ::
  "collaborators \<Rightarrow> nat \<Rightarrow> applyExpression list \<Rightarrow> resplitState
     \<Rightarrow> error + (applyExpression list \<times> resplitState)" where
  "splitUpApplies K i [] st = Inr ([], st)"
| "splitUpApplies K i (a # rest) st =
     (case substituteM (splitUpAggregate K i) (applyExpr a) (st\<lparr>counter := 0\<rparr>) of
        Inl err \<Rightarrow> Inl err
      | Inr (ex', st') \<Rightarrow>
          (case splitUpApplies K (Suc i) rest st' of
             Inl err \<Rightarrow> Inl err
           | Inr (as, st'') \<Rightarrow> Inr (a\<lparr>applyExpr := ex'\<rparr> # as, st'')))"

subsection \<open>Nested group-by: merging the split keys\<close>

text \<open>
  \<^verbatim>\<open>divvyUpNestedSplitExpression\<close>: the inner query keeps the key's expression; the
  outer query re-applies a time or number bucket to the intermediate column, and reads
  the column for any other key.
\<close>

definition divvyUpNestedSplitExpression ::
  "expression \<Rightarrow> string \<Rightarrow> expression \<times> expression" where
  "divvyUpNestedSplitExpression splitExpression intermediateName =
     (case splitExpression of
        ChainableExpression (OpTimeBucket d z) t os x \<Rightarrow>
          (splitExpression, changeOperand splitExpression (ref intermediateName))
      | ChainableExpression (OpNumberBucket sz off) t os x \<Rightarrow>
          (splitExpression, changeOperand splitExpression (ref intermediateName))
      | _ \<Rightarrow> (splitExpression, ref intermediateName))"

text \<open>
  The two objects \<^verbatim>\<open>outerSplits\<close> and \<^verbatim>\<open>innerSplits\<close>, the counter and the
  attributes pushed so far. \<^verbatim>\<open>outerSplits\<close> is written and read under the names of
  split keys. Writing it under \<^verbatim>\<open>__proto__\<close> makes no field: it replaces the prototype
  of the object by the expression written (\<open>outerPrototype\<close>, \<open>None\<close> for
  \<^verbatim>\<open>Object.prototype\<close>); any other name becomes an own field. Reading it is truthy for
  an own field and for a name inherited from the prototype.
\<close>

record mergedSplits =
  outerSplits :: "(string \<times> expression) list"
  outerPrototype :: "expression option"
  innerSplits :: "(string \<times> expression) list"
  splitCount :: nat
  mergedAttributes :: "attributeInfo list"

definition assignOuterSplit :: "string \<Rightarrow> expression \<Rightarrow> mergedSplits \<Rightarrow> mergedSplits" where
  "assignOuterSplit name v m =
     (if name = ''__proto__'' then m\<lparr>outerPrototype := Some v\<rparr>
      else m\<lparr>outerSplits := setField name v (outerSplits m)\<rparr>)"

definition outerSplitTaken :: "collaborators \<Rightarrow> mergedSplits \<Rightarrow> string \<Rightarrow> bool" where
  "outerSplitTaken K m name =
     (getField name (outerSplits m) \<noteq> None
      \<or> (case outerPrototype m of
            None \<Rightarrow> name \<in> set objectPrototypeKeys
          | Some p \<Rightarrow> expressionProperty K p name))"

text \<open>The name of the last key of the External's split whose expression equals \<open>ex\<close>.\<close>

fun outerSplitNameOf :: "expression \<Rightarrow> (string \<times> expression) list \<Rightarrow> string option" where
  "outerSplitNameOf ex [] = None"
| "outerSplitNameOf ex ((nm, myEx) # rest) =
     (case outerSplitNameOf ex rest of
        Some later \<Rightarrow> Some later
      | None \<Rightarrow> (if ex = myEx then Some nm else None))"

text \<open>The keys of the re-split, then the keys of the External's split not yet taken
  care of; \<^verbatim>\<open>if (outerSplitName)\<close> is false for the empty name as for \<^verbatim>\<open>null\<close>,
  and \<^verbatim>\<open>if (outerSplits[name]) return\<close> also skips a key whose name the object
  inherits, such as \<^verbatim>\<open>constructor\<close>.\<close>

fun mergeResplitKeys ::
  "splitExpression option \<Rightarrow> (string \<times> expression) list \<Rightarrow> mergedSplits \<Rightarrow> mergedSplits" where
  "mergeResplitKeys sp [] m = m"
| "mergeResplitKeys sp ((nm, ex) # rest) m =
     (let outerSplitName = (case sp of Some s \<Rightarrow> outerSplitNameOf ex (splits s) | None \<Rightarrow> None);
          intermediateName = ''s'' @ showNat (splitCount m);
          divvy = divvyUpNestedSplitExpression ex intermediateName;
          m1 = m\<lparr>splitCount := splitCount m + 1,
                  mergedAttributes := mergedAttributes m @
                    [attributeInfoFromJS intermediateName (typeOf (fst divvy)) None],
                  innerSplits := setField intermediateName (fst divvy) (innerSplits m)\<rparr>;
          m2 = (case outerSplitName of
                  Some n \<Rightarrow> (if n \<noteq> [] then assignOuterSplit n (snd divvy) m1 else m1)
                | None \<Rightarrow> m1)
      in mergeResplitKeys sp rest m2)"

fun mergeOuterKeys ::
  "collaborators \<Rightarrow> (string \<times> expression) list \<Rightarrow> mergedSplits \<Rightarrow> mergedSplits" where
  "mergeOuterKeys K [] m = m"
| "mergeOuterKeys K ((nm, ex) # rest) m =
     (if outerSplitTaken K m nm then mergeOuterKeys K rest m
      else
        (let intermediateName = ''s'' @ showNat (splitCount m);
             divvy = divvyUpNestedSplitExpression ex intermediateName
         in mergeOuterKeys K rest
              (assignOuterSplit nm (snd divvy)
                 (m\<lparr>splitCount := splitCount m + 1,
                    innerSplits := setField intermediateName (fst divvy) (innerSplits m),
                    mergedAttributes := mergedAttributes m @
                      [attributeInfoFromJS intermediateName (typeOf (fst divvy)) None]\<rparr>))))"

definition mergeSplits ::
  "collaborators \<Rightarrow> splitExpression option \<Rightarrow> splitExpression \<Rightarrow> attributeInfo list
     \<Rightarrow> mergedSplits" where
  "mergeSplits K sp globalSplit attrs =
     (let m = mergeResplitKeys sp (splits globalSplit)
                \<lparr>outerSplits = [], outerPrototype = None, innerSplits = [], splitCount = 0,
                 mergedAttributes = attrs\<rparr>
      in case sp of Some s \<Rightarrow> mergeOuterKeys K (splits s) m | None \<Rightarrow> m)"

subsection \<open>Nested group-by: the inner and the outer planner\<close>

record queryAndPostTransform =
  query :: jobject
  requesterContext :: jobject
  queryPostTransform :: postTransform

text \<open>
  The value of the inner External: the External's own value with mode \<^verbatim>\<open>'split'\<close>, the
  inner applies, group-by-only selection, the inner split, no limit and no sort.
\<close>

definition innerValue ::
  "collaborators \<Rightarrow> druidExternal \<Rightarrow> applyExpression list \<Rightarrow> mergedSplits \<Rightarrow> druidExternal" where
  "innerValue K e innerApplies' m =
     e\<lparr>mode := Split,
       applies := Some innerApplies',
       querySelection := Some GroupByOnly,
       split := Some (case split e of
                        Some s \<Rightarrow> changeSplits K s (innerSplits m)
                      | None \<Rightarrow> splitOf K (innerSplits m)),
       limit := None,
       sortE := None\<rparr>"

text \<open>
  The value of the outer External: the intermediate columns as raw attributes, the
  outer applies (or the outer value expression), filter \<^verbatim>\<open>TRUE\<close>, eternity allowed,
  group-by-only selection, and the outer split when the External has a split.
\<close>

definition outerValue ::
  "collaborators \<Rightarrow> druidExternal \<Rightarrow> applyExpression list \<Rightarrow> mergedSplits \<Rightarrow> druidExternal" where
  "outerValue K e outerApplies m =
     (let v1 = e\<lparr>rawAttributes := mergedAttributes m\<rparr>;
          v2 = (case applies e of
                  Some as \<Rightarrow> v1\<lparr>applies := Some outerApplies\<rparr>
                | None \<Rightarrow>
                    v1\<lparr>valueExpression :=
                         (case outerApplies of a # rest \<Rightarrow> Some (applyExpr a) | [] \<Rightarrow> None)\<rparr>);
          v3 = v2\<lparr>filterE := TRUE, allowEternity := True,
                  querySelection := Some GroupByOnly\<rparr>
      in case split e of
           Some s \<Rightarrow> v3\<lparr>split := Some (changeSplits K s (outerSplits m))\<rparr>
         | None \<Rightarrow> v3)"

fun isSplitExpression :: "expression \<Rightarrow> bool" where
  "isSplitExpression (SplitExpression t os x ss d) = True"
| "isSplitExpression ex = False"

definition effectiveApplies :: "druidExternal \<Rightarrow> error + applyExpression list" where
  "effectiveApplies e =
     (case applies e of
        Some as \<Rightarrow> Inr as
      | None \<Rightarrow>
          (case valueExpression e of
             Some v \<Rightarrow> Inr [\<lparr>applyName = ''__VALUE__'', applyExpr = v\<rparr>]
           | None \<Rightarrow> Inl (TypeError ''apply must have an expression'')))"

definition initialResplitState :: resplitState where
  "initialResplitState =
     \<lparr>globalResplitSplit = None, outerAttributes = [], innerApplies = [], counter = 0\<rparr>"

text \<open>
  \<^verbatim>\<open>nestedGroupByIfNeeded()\<close>. The planner it calls on the inner and on the outer
  External is the parameter \<open>plan\<close>. Nothing to do (\<^verbatim>\<open>null\<close>) when no apply holds a
  split, or when the walk met no re-split aggregate. Otherwise the inner query, without
  its context, becomes the data source of the outer query.
\<close>

definition nestedGroupByIfNeeded ::
  "(druidExternal \<Rightarrow> error + queryAndPostTransform) \<Rightarrow> collaborators \<Rightarrow> druidExternal
     \<Rightarrow> error + queryAndPostTransform option" where
  "nestedGroupByIfNeeded plan K e =
     (case effectiveApplies e of
        Inl err \<Rightarrow> Inl err
      | Inr eas \<Rightarrow>
          if \<not> list_ex (\<lambda>a. some (\<lambda>ex. orNull (isSplitExpression ex)) (applyExpr a)) eas
          then Inr None
          else
            (case splitUpApplies K 0 eas initialResplitState of
               Inl err \<Rightarrow> Inl err
             | Inr (outerApplies, st) \<Rightarrow>
                 (case globalResplitSplit st of
                    None \<Rightarrow> Inr None
                  | Some g \<Rightarrow>
                      (let m = mergeSplits K (split e) g (outerAttributes st) in
                       case plan (innerValue K e (innerApplies st) m) of
                         Inl err \<Rightarrow> Inl err
                       | Inr innerPlan \<Rightarrow>
                           (let innerQuery = deleteField ''context'' (query innerPlan) in
                            case plan (outerValue K e outerApplies m) of
                              Inl err \<Rightarrow> Inl err
                            | Inr outerPlan \<Rightarrow>
                                Inr (Some (outerPlan
                                  \<lparr>query :=
                                     setField ''dataSource''
                                       (JObj [(''type'', JStr ''query''),
                                              (''query'', JObj innerQuery)])
                                       (query outerPlan)\<rparr>)))))))"

subsection \<open>The time-boundary query\<close>

fun modeName :: "mode \<Rightarrow> string" where
  "modeName Raw = ''raw''"
| "modeName Value = ''value''"
| "modeName Total = ''total''"
| "modeName Split = ''split''"

fun directionName :: "direction \<Rightarrow> string" where
  "directionName Ascending = ''ascending''"
| "directionName Descending = ''descending''"

text \<open>
  \<^verbatim>\<open>getTimeBoundaryQueryAndPostTransform()\<close>: a \<^verbatim>\<open>timeBoundary\<close> query on the data
  source, with the External's context when it has one. In total mode a lone apply sets
  \<^verbatim>\<open>bound\<close> to its \<^verbatim>\<open>op\<close> followed by \<^verbatim>\<open>'Time'\<close>; in value mode the value
  expression does; any other mode is refused.
\<close>

definition getTimeBoundaryQueryAndPostTransform ::
  "druidExternal \<Rightarrow> error + queryAndPostTransform" where
  "getTimeBoundaryQueryAndPostTransform e =
     (let druidQuery0 = [(''queryType'', JStr ''timeBoundary''),
                         (''dataSource'', getDruidDataSource e)];
          druidQuery = (case contextE e of
                          Some c \<Rightarrow> setField ''context'' (JObj c) druidQuery0
                        | None \<Rightarrow> druidQuery0)
      in if mode e = Total then
           (case applies e of
              None \<Rightarrow> Inl (TypeError ''Cannot read properties of undefined (reading 'length')'')
            | Some as \<Rightarrow>
                Inr \<lparr>query =
                       (case as of
                          [loneApply] \<Rightarrow>
                            setField ''bound'' (JStr (opOf (applyExpr loneApply) @ ''Time''))
                              druidQuery
                        | _ \<Rightarrow> druidQuery),
                     requesterContext = [(''timestamp'', JNull)],
                     queryPostTransform = TimeBoundaryPostTransform (Some as)\<rparr>)
         else if mode e = Value then
           (case valueExpression e of
              None \<Rightarrow> Inl (TypeError ''Cannot read properties of undefined (reading 'op')'')
            | Some v \<Rightarrow>
                Inr \<lparr>query = setField ''bound'' (JStr (opOf v @ ''Time'')) druidQuery,
                     requesterContext = [(''timestamp'', JNull)],
                     queryPostTransform = TimeBoundaryPostTransform None\<rparr>)
         else
           Inl (Error (''invalid mode '' @ apostrophe @ modeName (mode e) @ apostrophe @
                       '' for timeBoundary'')))"

subsection \<open>The planner\<close>

text \<open>The columns of a scan: one virtual column for a renamed time column and for each
  derived attribute, the column list, and the inflaters by type. The derived attribute
  is read with \<^verbatim>\<open>derivedAttributes[name]\<close>, which for a name such as
  \<^verbatim>\<open>constructor\<close> is an inherited property.\<close>

fun scanColumns ::
  "collaborators \<Rightarrow> druidExternal \<Rightarrow> attributeInfo list
     \<Rightarrow> error + (json list \<times> string list \<times> inflater list)" where
  "scanColumns K e [] = Inr ([], [], [])"
| "scanColumns K e (attribute # rest) =
     (let nm = attrName attribute;
          virtualColumn =
            (if nativeType attribute = Some ''__time'' \<and> nm \<noteq> ''__time'' then
               Inr (Some (JObj [(''type'', JStr ''expression''), (''name'', JStr nm),
                                (''expression'', JStr ''__time''),
                                (''outputType'', JStr ''STRING'')]))
             else
               (case getProperty nm (derivedAttributes e) of
                  Absent \<Rightarrow> Inr None
                | Inherited \<Rightarrow>
                    (case inheritedToDruidExpression K e nm of
                       Inl err \<Rightarrow> Inl err
                     | Inr druidExpression \<Rightarrow>
                         Inr (Some (JObj [(''type'', JStr ''expression''), (''name'', JStr nm),
                                          (''expression'', JStr druidExpression),
                                          (''outputType'', JStr ''STRING'')])))
                | Own derivedAttribute \<Rightarrow>
                    (case expressionToDruidExpression K e derivedAttribute of
                       Inl err \<Rightarrow> Inl err
                     | Inr None \<Rightarrow>
                         Inl (Error (''could not convert '' @ toString K derivedAttribute @
                                     '' to Druid expression''))
                     | Inr (Some druidExpression) \<Rightarrow>
                         Inr (Some (JObj [(''type'', JStr ''expression''), (''name'', JStr nm),
                                          (''expression'', JStr druidExpression),
                                          (''outputType'', JStr ''STRING'')])))));
          inflaters =
            (if attrType attribute = Some BOOLEAN then [BooleanInflater nm]
             else if attrType attribute = Some NUMBER then [NumberInflater nm]
             else if attrType attribute = Some TIME then [TimeInflater nm]
             else if attrType attribute = Some SET_STRING then [SetStringInflater nm]
             else [])
      in case virtualColumn of
           Inl err \<Rightarrow> Inl err
         | Inr vc \<Rightarrow>
             (case scanColumns K e rest of
                Inl err \<Rightarrow> Inl err
              | Inr (vcs, cols, infls) \<Rightarrow>
                  Inr ((case vc of Some c \<Rightarrow> c # vcs | None \<Rightarrow> vcs), nm # cols,
                       inflaters @ infls)))"

definition selectMessage :: string where
  "selectMessage =
     ''to issue '' @ apostrophe @ ''scan'' @ apostrophe @ '' or '' @ apostrophe @ ''select''
     @ apostrophe @ '' queries allowSelectQueries flag must be set''"

definition rawQuery ::
  "collaborators \<Rightarrow> druidExternal \<Rightarrow> jobject \<Rightarrow> jobject \<Rightarrow> error + queryAndPostTransform" where
  "rawQuery K e druidQuery rc =
     (if \<not> allowSelectQueries e then Inl (Error selectMessage)
      else
        (let selectedAttributes = getSelectedAttributes K e in
         case scanColumns K e selectedAttributes of
           Inl err \<Rightarrow> Inl err
         | Inr (virtualColumns', columns, inflaters) \<Rightarrow>
             (let q1 = setField ''resultFormat'' (JStr ''compactedList'')
                         (setField ''queryType'' (JStr ''scan'') druidQuery);
                  q2 = (if virtualColumns' \<noteq> [] then
                          setField ''virtualColumns'' (JArr virtualColumns') q1
                        else q1);
                  q3 = setField ''columns'' (JArr (map JStr columns)) q2;
                  ordered =
                    (case sortE e of
                       None \<Rightarrow> Inr q3
                     | Some srt \<Rightarrow>
                         (if refName srt = Some (timeAttribute e) then
                            (case selectE e of
                               None \<Rightarrow>
                                 Inl (TypeError
                                   ''Cannot read properties of undefined (reading 'attributes')'')
                             | Some attributes \<Rightarrow>
                                 (if timeAttribute e \<in> set attributes then
                                    (let q4 = setField ''order''
                                                (JStr (directionName (sortDirection srt))) q3
                                     in if ''__time'' \<in> set columns then Inr q4
                                        else Inr (setField ''columns''
                                                    (JArr (map JStr (columns @ [''__time''])))
                                                    q4))
                                  else Inr q3))
                          else Inr q3))
              in case ordered of
                   Inl err \<Rightarrow> Inl err
                 | Inr q5 \<Rightarrow>
                     Inr \<lparr>query =
                            (case limit e of
                               Some l \<Rightarrow> setField ''limit'' (JNum (limitValue l)) q5
                             | None \<Rightarrow> q5),
                          requesterContext = rc,
                          queryPostTransform =
                            PostTransform (map Some inflaters)
                              (map (dropOriginInfo K) selectedAttributes) None None\<rparr>)))"

text \<open>Aggregations and post-aggregations are set on the query when there are any; a
  value or total query under group-by-only selection is a groupBy without dimensions.\<close>

definition withAggregations :: "json list \<times> json list \<Rightarrow> jobject \<Rightarrow> jobject" where
  "withAggregations ap q =
     (let q1 = (if fst ap \<noteq> [] then setField ''aggregations'' (JArr (fst ap)) q else q)
      in if snd ap \<noteq> [] then setField ''postAggregations'' (JArr (snd ap)) q1 else q1)"

definition groupByOnly :: "druidExternal \<Rightarrow> jobject \<Rightarrow> jobject" where
  "groupByOnly e q =
     (if querySelection e = Some GroupByOnly then
        setField ''dimensions'' (JArr []) (setField ''queryType'' (JStr ''groupBy'') q)
      else q)"

text \<open>\<^verbatim>\<open>expressionNeedsNumericSort\<close>: the expression is a number or a number range.
  Reading the type of a key that the split does not have is a \<^verbatim>\<open>TypeError\<close>; an
  inherited property read by \<^verbatim>\<open>split.splits[col]\<close> has no \<^verbatim>\<open>type\<close> and needs no
  numeric sort.\<close>

definition expressionNeedsNumericSort :: "expression \<Rightarrow> bool" where
  "expressionNeedsNumericSort ex = (typeOf ex = Some NUMBER \<or> typeOf ex = Some NUMBER_RANGE)"

definition undefinedType :: error where
  "undefinedType = TypeError ''Cannot read properties of undefined (reading 'type')''"

definition undefinedIndexOf :: error where
  "undefinedIndexOf = TypeError ''Cannot read properties of undefined (reading 'indexOf')''"

definition refNameJS :: "sortExpression \<Rightarrow> json" where
  "refNameJS srt = (case refName srt of Some n \<Rightarrow> JStr n | None \<Rightarrow> JNull)"

text \<open>
  The \<^verbatim>\<open>Combine\<close> step of a split query, by query type. A timeseries takes a sort on
  a split key only, and no limit, and skips empty buckets unless the context says
  otherwise; a topN gets its metric and threshold; a groupBy its limit spec and its
  having filter.
\<close>

definition combineTimeseries ::
  "druidExternal \<Rightarrow> splitExpression \<Rightarrow> jobject \<Rightarrow> error + jobject" where
  "combineTimeseries e s q =
     (let sorted =
            (case sortE e of
               None \<Rightarrow> Inr q
             | Some srt \<Rightarrow>
                 (if (case refName srt of
                        Some n \<Rightarrow> getField n (splits s) = None
                      | None \<Rightarrow> True)
                  then Inl (Error ''can not sort within timeseries query'')
                  else if sortDirection srt = Descending then
                    Inr (setField ''descending'' (JBool True) q)
                  else Inr q))
      in case sorted of
           Inl err \<Rightarrow> Inl err
         | Inr q1 \<Rightarrow>
             (if limit e \<noteq> None then Inl (Error ''can not limit within timeseries query'')
              else
                (case getField ''context'' q1 of
                   Some (JObj c) \<Rightarrow>
                     (if getField ''skipEmptyBuckets'' c = None then
                        Inr (setField ''context''
                               (JObj (setField ''skipEmptyBuckets'' (JStr ''true'') c)) q1)
                      else Inr q1)
                 | _ \<Rightarrow>
                     Inr (setField ''context''
                            (JObj [(''skipEmptyBuckets'', JStr ''true'')]) q1))))"

definition topNMetric ::
  "collaborators \<Rightarrow> druidExternal \<Rightarrow> splitExpression \<Rightarrow> error + json" where
  "topNMetric K e s =
     (case sortE e of
        Some srt \<Rightarrow>
          (let byLabel = sortOnLabel K e;
               metric0 =
                 (if byLabel then
                    (case splits s of
                       [] \<Rightarrow> Inl undefinedType
                     | (k, x) # rest \<Rightarrow>
                         (if expressionNeedsNumericSort x then
                            Inr (JObj [(''type'', JStr ''dimension''),
                                       (''ordering'', JStr ''numeric'')])
                          else
                            Inr (JObj [(''type'', JStr ''dimension''),
                                       (''ordering'', JStr ''lexicographic'')])))
                  else Inr (refNameJS srt));
               inverted =
                 (if byLabel then sortDirection srt = Descending
                  else sortDirection srt = Ascending)
           in case metric0 of
                Inl err \<Rightarrow> Inl err
              | Inr m \<Rightarrow>
                  (if inverted then Inr (JObj [(''type'', JStr ''inverted''), (''metric'', m)])
                   else Inr m))
      | None \<Rightarrow>
          Inr (JObj [(''type'', JStr ''dimension''), (''ordering'', JStr ''lexicographic'')]))"

definition combineTopN ::
  "collaborators \<Rightarrow> druidExternal \<Rightarrow> splitExpression \<Rightarrow> jobject \<Rightarrow> error + jobject" where
  "combineTopN K e s q =
     (case topNMetric K e s of
        Inl err \<Rightarrow> Inl err
      | Inr metric \<Rightarrow>
          Inr (setField ''threshold''
                 (JNum (case limit e of Some l \<Rightarrow> limitValue l | None \<Rightarrow> 1000))
                 (setField ''metric'' metric q)))"

definition orderByColumn ::
  "collaborators \<Rightarrow> druidExternal \<Rightarrow> splitExpression \<Rightarrow> sortExpression \<Rightarrow> error + jobject" where
  "orderByColumn K e s srt =
     (case refName srt of
        None \<Rightarrow> Inl undefinedIndexOf
      | Some col \<Rightarrow>
          (let column0 = [(''dimension'', JStr (makeOutputName col)),
                          (''direction'', JStr (directionName (sortDirection srt)))]
           in if sortOnLabel K e then
                (case getProperty col (splits s) of
                   Absent \<Rightarrow> Inl undefinedType
                 | Inherited \<Rightarrow> Inr column0
                 | Own x \<Rightarrow>
                     (if expressionNeedsNumericSort x then
                        Inr (setField ''dimensionOrder'' (JStr ''numeric'') column0)
                      else Inr column0))
              else Inr column0))"

definition groupByLimitSpec ::
  "collaborators \<Rightarrow> druidExternal \<Rightarrow> splitExpression \<Rightarrow> error + jobject option" where
  "groupByLimitSpec K e s =
     (case (case sortE e of
              Some srt \<Rightarrow>
                (case orderByColumn K e s srt of
                   Inl err \<Rightarrow> Inl err
                 | Inr column \<Rightarrow>
                     Inr (Some [(''type'', JStr ''default''),
                                (''columns'', JArr [JObj column])]))
            | None \<Rightarrow> Inr None) of
        Inl err \<Rightarrow> Inl err
      | Inr limitSpec0 \<Rightarrow>
          (case limit e of
             None \<Rightarrow> Inr limitSpec0
           | Some l \<Rightarrow>
               (case limitSpec0 of
                  Some ls \<Rightarrow> Inr (Some (setField ''limit'' (JNum (limitValue l)) ls))
                | None \<Rightarrow>
                    (case splits s of
                       [] \<Rightarrow> Inl undefinedIndexOf
                     | (k, x) # rest \<Rightarrow>
                         Inr (Some [(''type'', JStr ''default''),
                                    (''columns'', JArr [JStr (makeOutputName k)]),
                                    (''limit'', JNum (limitValue l))])))))"

definition combineGroupBy ::
  "collaborators \<Rightarrow> druidExternal \<Rightarrow> splitExpression \<Rightarrow> expression \<Rightarrow> jobject
     \<Rightarrow> error + jobject" where
  "combineGroupBy K e s leftover q =
     (case groupByLimitSpec K e s of
        Inl err \<Rightarrow> Inl err
      | Inr limitSpec \<Rightarrow>
          (let q1 = (case limitSpec of
                       Some ls \<Rightarrow> setField ''limitSpec'' (JObj ls) q
                     | None \<Rightarrow> q)
           in if leftover \<noteq> TRUE then
                (case filterToHavingFilter K e leftover of
                   Inl err \<Rightarrow> Inl err
                 | Inr h \<Rightarrow> Inr (setField ''having'' h q1))
              else Inr q1))"

definition splitQuery ::
  "collaborators \<Rightarrow> druidExternal \<Rightarrow> jobject \<Rightarrow> jobject \<Rightarrow> error + queryAndPostTransform" where
  "splitQuery K e druidQuery rc =
     (case getQuerySplit K e of
        Inl err \<Rightarrow> Inl err
      | Inr s \<Rightarrow>
          (case splitToDruid K e s of
             Inl err \<Rightarrow> Inl err
           | Inr splitSpec \<Rightarrow>
               (let q1 = setField ''granularity'' (granularity splitSpec)
                           (setField ''queryType'' (JStr (queryType splitSpec)) druidQuery);
                    q2 = (case virtualColumns splitSpec of
                            Some (vc # vcs) \<Rightarrow> setField ''virtualColumns'' (JArr (vc # vcs)) q1
                          | _ \<Rightarrow> q1);
                    q3 = (case dimension splitSpec of
                            Some d \<Rightarrow> setField ''dimension'' (JObj d) q2
                          | None \<Rightarrow> q2);
                    q4 = (case dimensions splitSpec of
                            Some ds \<Rightarrow> setField ''dimensions'' (JArr (map JObj ds)) q3
                          | None \<Rightarrow> q3);
                    rc1 = setField ''timestamp''
                            (case timestampLabel splitSpec of Some l \<Rightarrow> JStr l | None \<Rightarrow> JNull)
                            rc
                in case makeAggregationsAndPostAggregations K e (applies e) of
                     Inl err \<Rightarrow> Inl err
                   | Inr ap \<Rightarrow>
                       (let q5 = withAggregations ap q4;
                            combined =
                              (if queryType splitSpec = ''timeseries'' then
                                 combineTimeseries e s q5
                               else if queryType splitSpec = ''topN'' then
                                 combineTopN K e s q5
                               else if queryType splitSpec = ''groupBy'' then
                                 combineGroupBy K e s (leftoverHavingFilter splitSpec) q5
                               else Inr q5)
                        in case combined of
                             Inl err \<Rightarrow> Inl err
                           | Inr q6 \<Rightarrow>
                               Inr \<lparr>query = q6, requesterContext = rc1,
                                    queryPostTransform = postTransform splitSpec\<rparr>))))"

text \<open>
  The body of \<^verbatim>\<open>getQueryAndPostTransform()\<close>, over the planner \<open>plan\<close> that a nested
  group-by calls on its inner and outer External. Unless the selection is group-by-only,
  a total query all of whose applies (at least one) are the minimum or maximum of the
  time ref, and a value query that is one, become a time-boundary query. Otherwise the
  filter is lowered and the query is built by mode.
\<close>

definition timeBoundaryCase :: "druidExternal \<Rightarrow> bool" where
  "timeBoundaryCase e =
     (querySelection e \<noteq> Some GroupByOnly
      \<and> ((mode e = Total
           \<and> (case applies e of
                 Some as \<Rightarrow> as \<noteq> [] \<and> list_all (\<lambda>a. isMinMaxTimeExpression e (applyExpr a)) as
               | None \<Rightarrow> False))
          \<or> (mode e = Value
              \<and> (case valueExpression e of
                    Some v \<Rightarrow> isMinMaxTimeExpression e v
                  | None \<Rightarrow> False))))"

definition planQuery ::
  "(druidExternal \<Rightarrow> error + queryAndPostTransform) \<Rightarrow> collaborators \<Rightarrow> druidExternal
     \<Rightarrow> error + queryAndPostTransform" where
  "planQuery plan K e =
     (if timeBoundaryCase e then getTimeBoundaryQueryAndPostTransform e
      else
        (let druidQuery0 = [(''queryType'', JStr ''timeseries''),
                            (''dataSource'', getDruidDataSource e),
                            (''intervals'', JNull),
                            (''granularity'', JStr ''all'')];
             rc = [(''timestamp'', JNull), (''ignorePrefix'', JStr ''!''),
                   (''dummyPrefix'', JStr ''***'')];
             druidQuery1 = (case contextE e of
                              Some c \<Rightarrow> setField ''context'' (JObj c) druidQuery0
                            | None \<Rightarrow> druidQuery0)
         in case filterToDruid K e (getQueryFilter K e) of
              Inl err \<Rightarrow> Inl err
            | Inr (intervals, flt) \<Rightarrow>
                (let druidQuery2 = setField ''intervals'' intervals druidQuery1;
                     druidQuery = (case flt of
                                     Some f \<Rightarrow> setField ''filter'' f druidQuery2
                                   | None \<Rightarrow> druidQuery2)
                 in case mode e of
                      Raw \<Rightarrow> rawQuery K e druidQuery rc
                    | Value \<Rightarrow>
                        (case nestedGroupByIfNeeded plan K e of
                           Inl err \<Rightarrow> Inl err
                         | Inr (Some nested) \<Rightarrow> Inr nested
                         | Inr None \<Rightarrow>
                             (case makeAggregationsAndPostAggregations K e
                                     (Some [toValueApply K e]) of
                                Inl err \<Rightarrow> Inl err
                              | Inr ap \<Rightarrow>
                                  Inr \<lparr>query = groupByOnly e (withAggregations ap druidQuery),
                                       requesterContext = rc,
                                       queryPostTransform = ValuePostTransform\<rparr>))
                    | Total \<Rightarrow>
                        (case nestedGroupByIfNeeded plan K e of
                           Inl err \<Rightarrow> Inl err
                         | Inr (Some nested) \<Rightarrow> Inr nested
                         | Inr None \<Rightarrow>
                             (case makeAggregationsAndPostAggregations K e (applies e) of
                                Inl err \<Rightarrow> Inl err
                              | Inr ap \<Rightarrow>
                                  Inr \<lparr>query = groupByOnly e (withAggregations ap druidQuery),
                                       requesterContext = rc,
                                       queryPostTransform =
                                         PostTransform [] (getSelectedAttributes K e) (Some [])
                                           (applies e)\<rparr>))
                    | Split \<Rightarrow>
                        (case nestedGroupByIfNeeded plan K e of
                           Inl err \<Rightarrow> Inl err
                         | Inr (Some nested) \<Rightarrow> Inr nested
                         | Inr None \<Rightarrow> splitQuery K e druidQuery rc))))"

text \<open>
  \<^verbatim>\<open>getQueryAndPostTransform()\<close> calls itself through the inner and outer External of a
  nested group-by. The recursion is bounded by a depth: at depth 0 a nested planner call
  does not return (the error \<open>outOfFuel\<close>), at depth \<open>n + 1\<close> it is planned at depth \<open>n\<close>.
  The constructor of the base class, through which \<^verbatim>\<open>new DruidExternal(value)\<close> builds
  the inner and the outer External, is not part of the sources at hand; here the External
  is the value it was built from.
\<close>

definition outOfFuel :: error where
  "outOfFuel = Error ''out of fuel''"

fun getQueryAndPostTransform ::
  "collaborators \<Rightarrow> nat \<Rightarrow> druidExternal \<Rightarrow> error + queryAndPostTransform" where
  "getQueryAndPostTransform K 0 e = planQuery (\<lambda>inner. Inl outOfFuel) K e"
| "getQueryAndPostTransform K (Suc n) e = planQuery (getQueryAndPostTransform K n) K e"

subsection \<open>The SQL backend\<close>

text \<open>
  \<^verbatim>\<open>SQLExternal\<close> adds the user's \<^verbatim>\<open>withQuery\<close> to an External. The dialect and the
  renderers of the expression classes that are not part of the sources at hand are
  parameters, and each of them may throw: the dialect's \<^verbatim>\<open>escapeName\<close> (it is handed
  the source as it is, the cast \<^verbatim>\<open>source as string\<close> being erased at run time),
  \<^verbatim>\<open>maybeNamespacedName\<close> and \<^verbatim>\<open>emptyGroupBy\<close>; \<^verbatim>\<open>getSQL\<close> of an expression that is
  no reference, of an apply, of a sort and of a limit; the three SQL lists of a split.
  The apply that raw mode builds around an inherited property, read where a derived
  attribute was expected, renders to whatever \<open>inheritedApplyGetSQL\<close> says. The
  capabilities of the base class, the simple inflater of a type, and the selected
  attributes, query filter, query split and value apply of the External are parameters
  too.
\<close>

record sqlExternal = external +
  withQuery :: "string option"

record sqlCollaborators =
  escapeName :: "source \<Rightarrow> error + string"
  maybeNamespacedName :: "string \<Rightarrow> error + string"
  emptyGroupBy :: "error + string"
  expressionGetSQL :: "expression \<Rightarrow> error + string"
  applyGetSQL :: "applyExpression \<Rightarrow> error + string"
  inheritedApplyGetSQL :: "string \<Rightarrow> error + string"
  sortGetSQL :: "sortExpression \<Rightarrow> error + string"
  limitGetSQL :: "limitExpression \<Rightarrow> error + string"
  getSelectSQL :: "splitExpression \<Rightarrow> error + string list"
  getShortGroupBySQL :: "splitExpression \<Rightarrow> error + string list"
  getGroupBySQL :: "splitExpression \<Rightarrow> error + string list"
  superCapability :: "string \<Rightarrow> bool"
  getSimpleInflater :: "plyType option \<Rightarrow> string \<Rightarrow> inflater option"
  sqlSelectedAttributes :: "sqlExternal \<Rightarrow> attributeInfo list"
  sqlQueryFilter :: "sqlExternal \<Rightarrow> expression"
  sqlQuerySplit :: "sqlExternal \<Rightarrow> error + splitExpression"
  sqlToValueApply :: "sqlExternal \<Rightarrow> applyExpression"

text \<open>
  A step that may throw, followed by what is done with its result; and
  \<^verbatim>\<open>Array.prototype.map\<close> with a function that may throw, which stops at the first
  element that does.
\<close>

definition andThen :: "error + 'a \<Rightarrow> ('a \<Rightarrow> error + 'b) \<Rightarrow> error + 'b" where
  "andThen step rest = (case step of Inl err \<Rightarrow> Inl err | Inr v \<Rightarrow> rest v)"

fun traverse :: "('a \<Rightarrow> error + 'b) \<Rightarrow> 'a list \<Rightarrow> error + 'b list" where
  "traverse f [] = Inr []"
| "traverse f (x # xs) =
     andThen (f x) (\<lambda>y. andThen (traverse f xs) (\<lambda>ys. Inr (y # ys)))"

text \<open>\<^verbatim>\<open>Array.prototype.join\<close> on strings, and the line feed.\<close>

fun join :: "string list \<Rightarrow> string \<Rightarrow> string" where
  "join [] sep = []"
| "join [x] sep = x"
| "join (x # y # rest) sep = x @ sep @ join (y # rest) sep"

definition newline :: string where
  "newline = [CHR 0x0A]"

text \<open>
  \<^verbatim>\<open>RefExpression.toString()\<close>: the name, in braces unless it matches
  \<^verbatim>\<open>/^([a-z_]\w*)$/i\<close>, after one \<^verbatim>\<open>^\<close> per generation, before \<^verbatim>\<open>:\<close> and the type
  when there is one, and after \<^verbatim>\<open>$\<close> (\<^verbatim>\<open>i$\<close> when the case is ignored).
\<close>

fun typeName :: "plyType \<Rightarrow> string" where
  "typeName NULL = ''NULL''"
| "typeName BOOLEAN = ''BOOLEAN''"
| "typeName NUMBER = ''NUMBER''"
| "typeName TIME = ''TIME''"
| "typeName STRING = ''STRING''"
| "typeName NUMBER_RANGE = ''NUMBER_RANGE''"
| "typeName TIME_RANGE = ''TIME_RANGE''"
| "typeName DATASET = ''DATASET''"
| "typeName SET = ''SET''"
| "typeName SET_NULL = ''SET/NULL''"
| "typeName SET_BOOLEAN = ''SET/BOOLEAN''"
| "typeName SET_NUMBER = ''SET/NUMBER''"
| "typeName SET_TIME = ''SET/TIME''"
| "typeName SET_STRING = ''SET/STRING''"
| "typeName SET_NUMBER_RANGE = ''SET/NUMBER_RANGE''"
| "typeName SET_TIME_RANGE = ''SET/TIME_RANGE''"

definition isLetter :: "char \<Rightarrow> bool" where
  "isLetter c =
     (let n = (of_char c :: nat) in (97 \<le> n \<and> n \<le> 122) \<or> (65 \<le> n \<and> n \<le> 90))"

definition isWordChar :: "char \<Rightarrow> bool" where
  "isWordChar c =
     (let n = (of_char c :: nat) in isLetter c \<or> (48 \<le> n \<and> n \<le> 57) \<or> n = 95)"

definition isSimpleName :: "string \<Rightarrow> bool" where
  "isSimpleName n =
     (case n of
        [] \<Rightarrow> False
      | c # rest \<Rightarrow> (isLetter c \<or> c = CHR ''_'') \<and> list_all isWordChar rest)"

definition refToString :: "string \<Rightarrow> nat \<Rightarrow> plyType option \<Rightarrow> bool \<Rightarrow> string" where
  "refToString n nest t ignoreCase =
     (let str0 = (if isSimpleName n then n else ''{'' @ n @ ''}'');
          str1 = (if nest \<noteq> 0 then replicate nest (CHR ''^'') @ str0 else str0);
          str2 = (case t of Some ty \<Rightarrow> str1 @ '':'' @ typeName ty | None \<Rightarrow> str1)
      in (if ignoreCase then ''i$'' else ''$'') @ str2)"

text \<open>
  \<^verbatim>\<open>getSQL(dialect)\<close>. \<^verbatim>\<open>RefExpression.getSQL\<close> refuses a reference with a nesting
  and hands the name of any other to the dialect; the other classes are the parameter.
\<close>

definition getSQL :: "sqlCollaborators \<Rightarrow> expression \<Rightarrow> error + string" where
  "getSQL D ex =
     (case ex of
        RefExpression n nest t ignoreCase os \<Rightarrow>
          (if nest \<noteq> 0 then
             Inl (Error (''can not call getSQL on unresolved expression: ''
                         @ refToString n nest t ignoreCase))
           else maybeNamespacedName D n)
      | _ \<Rightarrow> expressionGetSQL D ex)"

text \<open>\<^verbatim>\<open>if (withQuery)\<close>: a string is truthy when it is set and not empty.\<close>

definition withQuerySet :: "sqlExternal \<Rightarrow> bool" where
  "withQuerySet e = (case withQuery e of Some q \<Rightarrow> q \<noteq> [] | None \<Rightarrow> False)"

text \<open>\<^verbatim>\<open>capability(cap)\<close>.\<close>

definition capability :: "sqlCollaborators \<Rightarrow> string \<Rightarrow> bool" where
  "capability D cap =
     (if cap = ''filter-on-attribute'' \<or> cap = ''shortcut-group-by'' then True
      else superCapability D cap)"

text \<open>\<^verbatim>\<open>getFrom()\<close>.\<close>

definition getFrom :: "sqlCollaborators \<Rightarrow> sqlExternal \<Rightarrow> error + string" where
  "getFrom D e =
     (if withQuerySet e then Inr ''FROM __with__ AS t''
      else andThen (escapeName D (source e)) (\<lambda>n. Inr (''FROM '' @ n @ '' AS t'')))"

text \<open>\<^verbatim>\<open>getSplitInflaters(split)\<close>: one entry per key, \<^verbatim>\<open>undefined\<close> where the key has
  no intelligent inflater.\<close>

definition getSplitInflaters :: "collaborators \<Rightarrow> splitExpression \<Rightarrow> inflater option list" where
  "getSplitInflaters K s =
     map (\<lambda>(label, splitExpression). getIntelligentInflater K splitExpression label) (splits s)"

text \<open>The inflater of an attribute selected in raw mode, if any.\<close>

definition rawInflater :: "attributeInfo \<Rightarrow> inflater option" where
  "rawInflater attribute =
     (if attrType attribute = Some BOOLEAN then Some (BooleanInflater (attrName attribute))
      else if attrType attribute = Some TIME then Some (TimeInflater (attrName attribute))
      else if attrType attribute = Some SET_STRING then
        Some (SetStringInflater (attrName attribute))
      else None)"

text \<open>The select item of an attribute in raw mode: the apply of what
  \<^verbatim>\<open>derivedAttributes[name]\<close> reads when that is truthy, the escaped name otherwise.\<close>

definition rawSelectItem ::
  "sqlCollaborators \<Rightarrow> sqlExternal \<Rightarrow> attributeInfo \<Rightarrow> error + string" where
  "rawSelectItem D e a =
     (case getProperty (attrName a) (derivedAttributes e) of
        Own ex \<Rightarrow> applyGetSQL D \<lparr>applyName = attrName a, applyExpr = ex\<rparr>
      | Inherited \<Rightarrow> inheritedApplyGetSQL D (attrName a)
      | Absent \<Rightarrow> escapeName D (Source (attrName a)))"

record sqlQueryAndPostTransform =
  sqlQuery :: string
  sqlPostTransform :: postTransform

definition undefinedMap :: error where
  "undefinedMap = TypeError ''Cannot read properties of undefined (reading 'map')''"

text \<open>The sort clause and the limit clause, pushed when there is a sort and when there
  is a limit.\<close>

definition pushSortLimit ::
  "sqlCollaborators \<Rightarrow> sqlExternal \<Rightarrow> string list \<Rightarrow> error + string list" where
  "pushSortLimit D e query' =
     andThen (case sortE e of
                Some srt \<Rightarrow> andThen (sortGetSQL D srt) (\<lambda>c. Inr (query' @ [c]))
              | None \<Rightarrow> Inr query')
       (\<lambda>sorted.
          case limit e of
            Some l \<Rightarrow> andThen (limitGetSQL D l) (\<lambda>c. Inr (sorted @ [c]))
          | None \<Rightarrow> Inr sorted)"

text \<open>
  \<^verbatim>\<open>getQueryAndPostTransform()\<close> of \<^verbatim>\<open>SQLExternal\<close>, in the order in which the code
  evaluates: the first step that throws ends the call. The array \<^verbatim>\<open>query\<close> grows by
  \<^verbatim>\<open>push\<close>; \<open>query1\<close> is its state before the \<^verbatim>\<open>switch\<close>. The four modes of the
  datatype are the four cases; the \<^verbatim>\<open>default\<close> case, for any other value of
  \<^verbatim>\<open>mode\<close>, has no counterpart. \<^verbatim>\<open>sqlToQuery\<close> is the identity.
\<close>

definition getQueryAndPostTransformSQL ::
  "collaborators \<Rightarrow> sqlCollaborators \<Rightarrow> sqlExternal \<Rightarrow> error + sqlQueryAndPostTransform" where
  "getQueryAndPostTransformSQL K D e =
     (let query0 = (if withQuerySet e
                    then [''WITH __with__ AS ('' @ (case withQuery e of Some q \<Rightarrow> q | None \<Rightarrow> [])
                          @ '')'']
                    else []);
          query1 = query0 @ [''SELECT'']
      in andThen (getFrom D e) (\<lambda>from0.
         let filter' = sqlQueryFilter D e in
         andThen (if filter' \<noteq> TRUE
                  then andThen (getSQL D filter')
                         (\<lambda>w. Inr (from0 @ newline @ ''WHERE '' @ w))
                  else Inr from0) (\<lambda>from.
         let selectedAttributes = sqlSelectedAttributes D e in
         case mode e of
           Raw \<Rightarrow>
             (let selectedAttributes' = map (dropOriginInfo K) selectedAttributes;
                  inflaters = List.map_filter rawInflater selectedAttributes'
              in andThen (traverse (rawSelectItem D e) selectedAttributes') (\<lambda>items.
                 andThen (pushSortLimit D e (query1 @ [join items '', '', from])) (\<lambda>query4.
                 Inr \<lparr>sqlQuery = join query4 newline,
                      sqlPostTransform =
                        PostTransform (map Some inflaters) selectedAttributes' None None\<rparr>)))
         | Value \<Rightarrow>
             andThen (applyGetSQL D (sqlToValueApply D e)) (\<lambda>item.
             andThen (emptyGroupBy D) (\<lambda>groupBy.
             Inr \<lparr>sqlQuery = join (query1 @ [item, from, groupBy]) newline,
                  sqlPostTransform = ValuePostTransform\<rparr>))
         | Total \<Rightarrow>
             (case applies e of
                None \<Rightarrow> Inl undefinedMap
              | Some as \<Rightarrow>
                  (let inflaters =
                         List.map_filter
                           (\<lambda>a. getSimpleInflater D (typeOf (applyExpr a)) (applyName a)) as
                   in andThen (traverse (applyGetSQL D) as) (\<lambda>items.
                      andThen (emptyGroupBy D) (\<lambda>groupBy.
                      Inr \<lparr>sqlQuery =
                             join (query1 @ [join items ('','' @ newline), from, groupBy])
                               newline,
                           sqlPostTransform =
                             PostTransform (map Some inflaters) selectedAttributes (Some [])
                               (Some as)\<rparr>))))
         | Split \<Rightarrow>
             andThen (sqlQuerySplit D e) (\<lambda>s.
             let keys = map fst (splits s) in
             andThen (getSelectSQL D s) (\<lambda>selectSQL.
             case applies e of
               None \<Rightarrow> Inl undefinedMap
             | Some as \<Rightarrow>
                 andThen (traverse (applyGetSQL D) as) (\<lambda>items.
                 andThen (if capability D ''shortcut-group-by''
                          then getShortGroupBySQL D s
                          else getGroupBySQL D s) (\<lambda>groupBy.
                 let query2 = query1 @
                       [join (selectSQL @ items) ('','' @ newline),
                        from,
                        ''GROUP BY '' @ join groupBy '','']
                 in andThen (if havingFilter e \<noteq> TRUE
                             then andThen (getSQL D (havingFilter e))
                                    (\<lambda>h. Inr (query2 @ [''HAVING '' @ h]))
                             else Inr query2) (\<lambda>query3.
                    andThen (pushSortLimit D e query3) (\<lambda>query5.
                    Inr \<lparr>sqlQuery = join query5 newline,
                         sqlPostTransform =
                           PostTransform (getSplitInflaters K s) selectedAttributes
                             (Some keys) None\<rparr>)))))))))"

subsection \<open>Introspection through segment metadata\<close>

text \<open>
  The rows a requester answers with are objects of which the code reads four
  properties: \<^verbatim>\<open>columns\<close> and \<^verbatim>\<open>aggregators\<close> of a \<^verbatim>\<open>segmentMetadata\<close> result,
  \<^verbatim>\<open>minTime\<close> and \<^verbatim>\<open>maxTime\<close> of a \<^verbatim>\<open>timeBoundary\<close> result; a property that a row
  does not have is \<open>None\<close>. An aggregator merged leniently may be \<^verbatim>\<open>null\<close>.
\<close>

record aggregation =
  aggType :: "string option"
  fieldName :: "string option"
  fieldNames :: "string list option"
  fnAggregate :: "string option"
  fnCombine :: "string option"

record columnMetadata =
  columnType :: "string option"
  hasMultipleValues :: bool
  columnSize :: "int option"
  columnCardinality :: "int option"
  errorMessage :: "string option"
  minValue :: "json option"
  maxValue :: "json option"

record resultRow =
  rowColumns :: "(string \<times> columnMetadata) list option"
  rowAggregators :: "(string \<times> aggregation option) list option"
  rowMinTime :: "json option"
  rowMaxTime :: "json option"

text \<open>
  \<^verbatim>\<open>Range.fromJS\<close> and \<^verbatim>\<open>TimeRange.fromJS\<close>, with bounds \<^verbatim>\<open>'[]'\<close>, are not part of the
  sources at hand and are parameters; a range is kept as its start and its end.
\<close>

record ranges =
  rangeFromJS :: "json \<Rightarrow> json \<Rightarrow> error + (json \<times> json)"
  timeRangeFromJS :: "json option \<Rightarrow> json option \<Rightarrow> error + (json \<times> json)"

text \<open>\<^verbatim>\<open>Expression._.max(ex)\<close> is typed as the constructor of \<^verbatim>\<open>MaxExpression\<close> types
  it. Modelled from the spec: \<^verbatim>\<open>MinExpression\<close> is not part of the sources at hand and
  is taken to be typed in the same way.\<close>

definition maxOf :: "expression \<Rightarrow> expression \<Rightarrow> expression" where
  "maxOf x y = ChainableUnaryExpression OpMax (unwrapSetType (typeOf y)) [] x y"

definition minOf :: "expression \<Rightarrow> expression \<Rightarrow> expression" where
  "minOf x y = ChainableUnaryExpression OpMin (unwrapSetType (typeOf y)) [] x y"

text \<open>A string that is set and not empty.\<close>

definition nonEmpty :: "string option \<Rightarrow> bool" where
  "nonEmpty s = (case s of Some t \<Rightarrow> t \<noteq> [] | None \<Rightarrow> False)"

definition undefinedIndexOfCombine :: error where
  "undefinedIndexOfCombine =
     TypeError ''Cannot read properties of undefined (reading 'indexOf')''"

text \<open>
  \<^verbatim>\<open>generateMaker(aggregation)\<close>: the expression that makes a rolled-up metric, guessed
  from its aggregator; \<^verbatim>\<open>null\<close> when there is no guess.
\<close>

definition generateMaker :: "aggregation option \<Rightarrow> error + expression option" where
  "generateMaker aggregation' =
     (case aggregation' of
        None \<Rightarrow> Inr None
      | Some aggregation \<Rightarrow>
          if aggType aggregation = Some ''longSum'' \<and> fieldName aggregation = Some ''count''
          then Inr (Some (countOf ExpressionUnderscore))
          else
            (case (if nonEmpty (fieldName aggregation) then fieldName aggregation
                   else (case fieldNames aggregation of
                           Some [f] \<Rightarrow> Some f
                         | _ \<Rightarrow> None)) of
               None \<Rightarrow> Inr None
             | Some f \<Rightarrow>
                 (let ex = ref f; t = aggType aggregation in
                  if t = Some ''count'' then Inr (Some (countOf ExpressionUnderscore))
                  else if t = Some ''doubleSum'' \<or> t = Some ''longSum''
                  then Inr (Some (sumOf ExpressionUnderscore ex))
                  else if t = Some ''javascript'' then
                    (if fnAggregate aggregation \<noteq> fnCombine aggregation then Inr None
                     else
                       (case fnCombine aggregation of
                          None \<Rightarrow> Inl undefinedIndexOfCombine
                        | Some c \<Rightarrow>
                            if indexOf c ''+'' = - 1 then Inr None
                            else Inr (Some (sumOf ExpressionUnderscore ex))))
                  else if t = Some ''doubleMin'' \<or> t = Some ''longMin''
                  then Inr (Some (minOf ExpressionUnderscore ex))
                  else if t = Some ''doubleMax'' \<or> t = Some ''longMax''
                  then Inr (Some (maxOf ExpressionUnderscore ex))
                  else Inr None)))"

text \<open>\<^verbatim>\<open>columnMetadataToRange(columnMetadata)\<close>; \<^verbatim>\<open>== null\<close> holds of \<^verbatim>\<open>null\<close> and of
  \<^verbatim>\<open>undefined\<close>.\<close>

definition columnMetadataToRange ::
  "ranges \<Rightarrow> columnMetadata \<Rightarrow> error + (json \<times> json) option" where
  "columnMetadataToRange R columnData =
     (case minValue columnData of
        None \<Rightarrow> Inr None
      | Some lo \<Rightarrow>
          (case maxValue columnData of
             None \<Rightarrow> Inr None
           | Some hi \<Rightarrow>
               if lo = JNull \<or> hi = JNull then Inr None
               else (case rangeFromJS R lo hi of
                       Inl err \<Rightarrow> Inl err
                     | Inr rng \<Rightarrow> Inr (Some rng))))"

text \<open>The attribute of a column that is neither the time column nor named as the time
  attribute: a number, a string or set of strings, an opaque metric, or unknown.\<close>

definition columnAttribute ::
  "ranges \<Rightarrow> (string \<times> aggregation option) list \<Rightarrow> string \<Rightarrow> columnMetadata
     \<Rightarrow> error + attributeInfo" where
  "columnAttribute R aggregators' name columnData =
     (let t = columnType columnData in
      if t = Some ''DOUBLE'' \<or> t = Some ''FLOAT'' \<or> t = Some ''LONG'' then
        (case generateMaker (case getField name aggregators' of Some a \<Rightarrow> a | None \<Rightarrow> None) of
           Inl err \<Rightarrow> Inl err
         | Inr mk \<Rightarrow>
             (case columnMetadataToRange R columnData of
                Inl err \<Rightarrow> Inl err
              | Inr rng \<Rightarrow>
                  Inr \<lparr>attrName = name, attrType = Some NUMBER, nativeType = t,
                       unsplitable = (getField name aggregators' \<noteq> None), maker = mk,
                       cardinality = columnCardinality columnData, attrRange = rng\<rparr>))
      else if t = Some ''STRING'' then
        (case columnMetadataToRange R columnData of
           Inl err \<Rightarrow> Inl err
         | Inr rng \<Rightarrow>
             Inr \<lparr>attrName = name,
                  attrType = Some (if hasMultipleValues columnData then SET_STRING else STRING),
                  nativeType = t, unsplitable = False, maker = None,
                  cardinality = columnCardinality columnData, attrRange = rng\<rparr>)
      else if t = Some ''hyperUnique'' \<or> t = Some ''approximateHistogram''
              \<or> t = Some ''thetaSketch'' \<or> t = Some ''HLLSketch''
              \<or> t = Some ''quantilesDoublesSketch'' then
        Inr \<lparr>attrName = name, attrType = Some NULL, nativeType = t, unsplitable = True,
             maker = None, cardinality = None, attrRange = None\<rparr>
      else
        Inr \<lparr>attrName = name, attrType = Some NULL, nativeType = t, unsplitable = False,
             maker = None, cardinality = None, attrRange = None\<rparr>)"

text \<open>
  The loop of \<^verbatim>\<open>segmentMetadataPostProcess\<close> over the columns, in the order of the
  object's keys: a column with an error message or a negative size is skipped, the
  column \<^verbatim>\<open>__time\<close> goes to the front under the name of the time attribute, a column
  named as the time attribute is skipped, any other goes to the end.
\<close>

fun columnAttributes ::
  "ranges \<Rightarrow> string \<Rightarrow> (string \<times> aggregation option) list
     \<Rightarrow> (string \<times> columnMetadata) list \<Rightarrow> attributeInfo list \<times> bool
     \<Rightarrow> error + (attributeInfo list \<times> bool)" where
  "columnAttributes R timeAttribute' aggregators' [] acc = Inr acc"
| "columnAttributes R timeAttribute' aggregators' ((name, columnData) # rest)
       (attributes, foundTime) =
     (if nonEmpty (errorMessage columnData)
         \<or> (case columnSize columnData of Some n \<Rightarrow> n < 0 | None \<Rightarrow> False)
      then columnAttributes R timeAttribute' aggregators' rest (attributes, foundTime)
      else if name = TIME_ATTRIBUTE then
        (case columnMetadataToRange R columnData of
           Inl err \<Rightarrow> Inl err
         | Inr rng \<Rightarrow>
             columnAttributes R timeAttribute' aggregators' rest
               (\<lparr>attrName = timeAttribute', attrType = Some TIME,
                 nativeType = Some ''__time'', unsplitable = False, maker = None,
                 cardinality = columnCardinality columnData, attrRange = rng\<rparr>
                # attributes, True))
      else if name = timeAttribute'
      then columnAttributes R timeAttribute' aggregators' rest (attributes, foundTime)
      else
        (case columnAttribute R aggregators' name columnData of
           Inl err \<Rightarrow> Inl err
         | Inr a \<Rightarrow>
             columnAttributes R timeAttribute' aggregators' rest
               (attributes @ [a], foundTime)))"

text \<open>\<^verbatim>\<open>segmentMetadataPostProcess(timeAttribute, res)\<close>.\<close>

definition segmentMetadataPostProcess ::
  "ranges \<Rightarrow> string \<Rightarrow> resultRow list \<Rightarrow> error + attributeInfo list" where
  "segmentMetadataPostProcess R timeAttribute' res =
     (case res of
        [] \<Rightarrow> Inl (InvalidResultError ''malformed segmentMetadata response'')
      | res0 # others \<Rightarrow>
          (case rowColumns res0 of
             None \<Rightarrow> Inl (InvalidResultError ''malformed segmentMetadata response'')
           | Some cols \<Rightarrow>
               (let aggregators' = (case rowAggregators res0 of Some a \<Rightarrow> a | None \<Rightarrow> []) in
                case columnAttributes R timeAttribute' aggregators' cols ([], False) of
                  Inl err \<Rightarrow> Inl err
                | Inr (attributes, foundTime) \<Rightarrow>
                    if \<not> foundTime
                    then Inl (Error (''no valid '' @ TIME_ATTRIBUTE
                                     @ '' in segmentMetadata response''))
                    else Inr attributes)))"

text \<open>The two queries of the introspection; the context is added when there is one.\<close>

definition segmentMetadataQuery :: "json \<Rightarrow> jobject option \<Rightarrow> string \<Rightarrow> jobject" where
  "segmentMetadataQuery dataSource ctx depth =
     (let analysisTypes =
            [''aggregators''] @ (if depth = ''deep'' then [''cardinality'', ''minmax''] else []);
          q = [(''queryType'', JStr ''segmentMetadata''),
               (''dataSource'', dataSource),
               (''merge'', JBool True),
               (''analysisTypes'', JArr (map JStr analysisTypes)),
               (''lenientAggregatorMerge'', JBool True)]
      in case ctx of Some c \<Rightarrow> setField ''context'' (JObj c) q | None \<Rightarrow> q)"

definition timeBoundaryQuery :: "json \<Rightarrow> jobject option \<Rightarrow> jobject" where
  "timeBoundaryQuery dataSource ctx =
     (let q = [(''queryType'', JStr ''timeBoundary''), (''dataSource'', dataSource)]
      in case ctx of Some c \<Rightarrow> setField ''context'' (JObj c) q | None \<Rightarrow> q)"

text \<open>
  \<^verbatim>\<open>introspectAttributesWithSegmentMetadata(dataSource, requester, timeAttribute,
  context, depth)\<close>. The requester answers a query with the rows of its stream, or
  fails. The result is the list of the queries handed to the requester, in order, and
  the outcome of the promise. Everything that fails inside the \<^verbatim>\<open>try\<close> block (the
  request, reading \<^verbatim>\<open>minTime\<close> of a missing first row, the construction of the time
  range) leaves the attributes as they were.
\<close>

definition introspectAttributesWithSegmentMetadata ::
  "ranges \<Rightarrow> json \<Rightarrow> (jobject \<Rightarrow> error + resultRow list) \<Rightarrow> string \<Rightarrow> jobject option
     \<Rightarrow> string \<Rightarrow> jobject list \<times> (error + attributeInfo list)" where
  "introspectAttributesWithSegmentMetadata R dataSource requester timeAttribute' ctx depth =
     (let q = segmentMetadataQuery dataSource ctx depth in
      case requester q of
        Inl err \<Rightarrow> ([q], Inl err)
      | Inr res \<Rightarrow>
          (case segmentMetadataPostProcess R timeAttribute' res of
             Inl err \<Rightarrow> ([q], Inl err)
           | Inr attributes \<Rightarrow>
               (case attributes of
                  [] \<Rightarrow> ([q], Inr attributes)
                | a0 # rest \<Rightarrow>
                    if depth \<noteq> ''shallow'' \<and> nativeType a0 = Some ''__time''
                       \<and> attrRange a0 = None
                    then
                      (let q' = timeBoundaryQuery dataSource ctx in
                       ([q, q'],
                        case requester q' of
                          Inl err \<Rightarrow> Inr attributes
                        | Inr resTB \<Rightarrow>
                            (case resTB of
                               [] \<Rightarrow> Inr attributes
                             | resTB0 # others \<Rightarrow>
                                 (case timeRangeFromJS R (rowMinTime resTB0) (rowMaxTime resTB0) of
                                    Inl err \<Rightarrow> Inr attributes
                                  | Inr rng \<Rightarrow>
                                      Inr (a0\<lparr>attrRange := Some rng\<rparr> # rest)))))
                    else ([q], Inr attributes))))"

subsection \<open>A sample instance of the collaborators\<close>

text \<open>
  For evaluating the planner on concrete inputs, the collaborators are instantiated with
  simple stand-ins: attributes are looked up by name among the raw attributes; the free
  references of an expression are the names of its references; only a bare reference has
  an extraction function (none is needed), for anything else the builder throws; every
  expression has a Druid expression; simple inflaters follow the expression type.
\<close>

fun referenceNames :: "expression \<Rightarrow> string list"
  and referenceNamesSplits :: "(string \<times> expression) list \<Rightarrow> string list"
where
  "referenceNames (RefExpression n k t i os) = [n]"
| "referenceNames (LiteralExpression v t os) = []"
| "referenceNames (ChainableExpression c t os x) = referenceNames x"
| "referenceNames (ChainableUnaryExpression u t os x y) = referenceNames x @ referenceNames y"
| "referenceNames (SplitExpression t os x ss d) = referenceNames x @ referenceNamesSplits ss"
| "referenceNamesSplits [] = []"
| "referenceNamesSplits ((k, ex) # rest) = referenceNames ex @ referenceNamesSplits rest"

definition sampleAttributesInfo :: "druidExternal \<Rightarrow> string \<Rightarrow> error + attributeInfo" where
  "sampleAttributesInfo e n =
     (case find (\<lambda>a. attrName a = n) (rawAttributes e) of
        Some a \<Rightarrow> Inr a
      | None \<Rightarrow> Inl (Error (''could not get attribute info for '' @ n)))"

definition sampleOutputType :: "plyType option \<Rightarrow> string" where
  "sampleOutputType t =
     (if t = Some TIME \<or> t = Some TIME_RANGE then ''LONG''
      else if t = Some NUMBER \<or> t = Some NUMBER_RANGE then ''DOUBLE''
      else ''STRING'')"

definition sampleInflater :: "expression \<Rightarrow> string \<Rightarrow> inflater option" where
  "sampleInflater ex label =
     (if typeOf ex = Some TIME then Some (TimeInflater label)
      else if typeOf ex = Some BOOLEAN then Some (BooleanInflater label)
      else if typeOf ex = Some SET_STRING then Some (SetStringInflater label)
      else None)"

definition sampleCollaborators :: collaborators where
  "sampleCollaborators =
     \<lparr>getSelectedAttributes = (\<lambda>e. rawAttributes e),
      getAttributesInfo = sampleAttributesInfo,
      getFreeReferences = (\<lambda>ex. remdups (referenceNames ex)),
      toString = (\<lambda>ex. opOf ex),
      expressionToExtractionFn =
        (\<lambda>e ex. if isRefExpression ex then Inr None
                 else Inl (Error ''no extraction function'')),
      expressionToDruidExpression = (\<lambda>e ex. Inr (Some (opOf ex))),
      expressionTypeToOutputType = sampleOutputType,
      getIntelligentInflater = sampleInflater,
      maxBucketNumber = (\<lambda>s. None),
      getQueryFilter = (\<lambda>e. filterE e),
      getQuerySplit =
        (\<lambda>e. case split e of
                Some s \<Rightarrow> Inr s
              | None \<Rightarrow> Inl (TypeError ''no split'')),
      filterToDruid = (\<lambda>e f. Inr (JStr ''0000/9999'', None)),
      makeAggregationsAndPostAggregations =
        (\<lambda>e as. Inr (map (\<lambda>a. JObj [(''name'', JStr (applyName a))])
                        (case as of Some l \<Rightarrow> l | None \<Rightarrow> []), [])),
      filterToHavingFilter = (\<lambda>e f. Inr (JStr (opOf f))),
      sortOnLabel = (\<lambda>e. False),
      simplify = (\<lambda>ex. ex),
      changeSplits = (\<lambda>s ss. s\<lparr>splits := ss\<rparr>),
      splitOf = (\<lambda>ss. \<lparr>splits = ss, dataName = None\<rparr>),
      toValueApply =
        (\<lambda>e. \<lparr>applyName = ''__VALUE__'',
               applyExpr = (case valueExpression e of Some v \<Rightarrow> v | None \<Rightarrow> TRUE)\<rparr>),
      dropOriginInfo = (\<lambda>a. a\<lparr>maker := None\<rparr>),
      expressionProperty = (\<lambda>p n. False),
      inheritedToDruidExpression = (\<lambda>e n. Inl (TypeError ''not an expression''))\<rparr>"

text \<open>
  A sample External: a data source with a time column, a string column, a multi-value
  string column, a rolled-up (un-splitable) metric and a numeric dimension.
\<close>

definition sampleAttributes :: "attributeInfo list" where
  "sampleAttributes =
     [\<lparr>attrName = ''time'', attrType = Some TIME, nativeType = Some ''__time'',
       unsplitable = False, maker = None, cardinality = None, attrRange = None\<rparr>,
      \<lparr>attrName = ''country'', attrType = Some STRING, nativeType = Some ''STRING'',
       unsplitable = False, maker = None, cardinality = None, attrRange = None\<rparr>,
      \<lparr>attrName = ''tags'', attrType = Some SET_STRING, nativeType = Some ''STRING'',
       unsplitable = False, maker = None, cardinality = None, attrRange = None\<rparr>,
      \<lparr>attrName = ''revenue'', attrType = Some NUMBER, nativeType = Some ''DOUBLE'',
       unsplitable = True, maker = None, cardinality = None, attrRange = None\<rparr>,
      \<lparr>attrName = ''delta'', attrType = Some NUMBER, nativeType = Some ''LONG'',
       unsplitable = False, maker = None, cardinality = None, attrRange = None\<rparr>]"

definition countApply :: applyExpression where
  "countApply =
     \<lparr>applyName = ''count'',
      applyExpr = ChainableExpression OpCount (Some NUMBER) []
                    (RefExpression ''main'' 0 (Some DATASET) False [])\<rparr>"

definition sampleSplitExternal :: "splitExpression \<Rightarrow> druidExternal" where
  "sampleSplitExternal s =
     \<lparr>mode = Split, source = Source ''wiki'', filterE = TRUE, split = Some s,
      applies = Some [countApply], valueExpression = None, sortE = None, limit = None,
      havingFilter = TRUE, derivedAttributes = [], rawAttributes = sampleAttributes,
      selectE = None, timeAttribute = ''time'', customAggregations = [],
      customTransforms = [], allowEternity = False, allowSelectQueries = False,
      exactResultsOnly = False, querySelection = None, contextE = None\<rparr>"

definition timeRef :: expression where
  "timeRef = RefExpression ''time'' 0 (Some TIME) False []"

definition countryRef :: expression where
  "countryRef = RefExpression ''country'' 0 (Some STRING) False []"

definition tagsRef :: expression where
  "tagsRef = RefExpression ''tags'' 0 (Some SET_STRING) False []"

definition revenueRef :: expression where
  "revenueRef = RefExpression ''revenue'' 0 (Some NUMBER) False []"

definition dayBucket :: expression where
  "dayBucket = ChainableExpression (OpTimeBucket ''P1D'' (Some ''Etc/UTC'')) (Some TIME_RANGE) [] timeRef"

definition splitOn :: "string \<Rightarrow> expression \<Rightarrow> splitExpression" where
  "splitOn label ex = \<lparr>splits = [(label, ex)], dataName = Some ''data''\<rparr>"

text \<open>Sample split queries: by day, by country with a limit, by country without one,
  by country and tags, and by the rolled-up metric.\<close>

definition byDay :: druidExternal where
  "byDay = sampleSplitExternal (splitOn ''day'' dayBucket)"

definition byCountryTop :: druidExternal where
  "byCountryTop =
     (sampleSplitExternal (splitOn ''country'' countryRef))\<lparr>limit := Some \<lparr>limitValue = 50\<rparr>\<rparr>"

definition byCountry :: druidExternal where
  "byCountry = sampleSplitExternal (splitOn ''country'' countryRef)"

definition countryAndTags :: splitExpression where
  "countryAndTags = \<lparr>splits = [(''country'', countryRef), (''tags'', tagsRef)], dataName = Some ''data''\<rparr>"

definition byRevenueExact :: druidExternal where
  "byRevenueExact =
     (sampleSplitExternal (splitOn ''revenue'' revenueRef))
       \<lparr>limit := Some \<lparr>limitValue = 5\<rparr>, exactResultsOnly := True\<rparr>"

text \<open>
  Predicates for stating what the push-down does: a filter that is an \<^verbatim>\<open>and\<close>, and a
  conjunct that compares the label with a literal by \<^verbatim>\<open>in\<close>.
\<close>

fun isAndExpression :: "expression \<Rightarrow> bool" where
  "isAndExpression (ChainableUnaryExpression OpAnd t os x y) = True"
| "isAndExpression ex = False"

fun inOnLabel :: "string \<Rightarrow> expression \<Rightarrow> bool" where
  "inOnLabel label (ChainableUnaryExpression OpIn t os (RefExpression n k t' i os') y) =
     (n = label \<and> isOp y ''literal'')"
| "inOnLabel label ex = False"

text \<open>
  The conjuncts of a having filter that directly constrain the label, and the residue.
\<close>

definition constrainingConjuncts :: "string \<Rightarrow> expression \<Rightarrow> expression list" where
  "constrainingConjuncts label hf = filter (constrainsLabel label) (getExpressionList hf)"

definition residue :: "string \<Rightarrow> expression \<Rightarrow> expression" where
  "residue label hf =
     Expression_and (filter (\<lambda>c. \<not> constrainsLabel label c) (getExpressionList hf))"

text \<open>Sample having filters over a split on the multi-value column \<^verbatim>\<open>tags\<close>.\<close>

definition matchTags :: expression where
  "matchTags = ChainableExpression (OpMatch ''^a'') (Some BOOLEAN) [] tagsRef"

definition isTagX :: expression where
  "isTagX =
     ChainableUnaryExpression OpIs (Some BOOLEAN) [] tagsRef
       (LiteralExpression (VString ''x'') (Some STRING) [])"

definition isTagsAB :: expression where
  "isTagsAB =
     ChainableUnaryExpression OpIs (Some BOOLEAN) [] tagsRef
       (LiteralExpression (VSet [VString ''a'', VString ''b'']) (Some SET_STRING) [])"

definition inTagsAB :: expression where
  "inTagsAB =
     ChainableUnaryExpression OpIn (Some BOOLEAN) [] tagsRef
       (LiteralExpression (VSet [VString ''a'', VString ''b'']) (Some SET_STRING) [])"

definition countOver10 :: expression where
  "countOver10 =
     ChainableUnaryExpression OpGreaterThan (Some BOOLEAN) []
       (RefExpression ''count'' 0 (Some NUMBER) False [])
       (LiteralExpression (VNumber 10) (Some NUMBER) [])"

definition tagsDimension :: jobject where
  "tagsDimension =
     [(''type'', JStr ''default''), (''dimension'', JStr ''tags''),
      (''outputName'', JStr ''tags'')]"

definition andOf :: "expression \<Rightarrow> expression \<Rightarrow> expression" where
  "andOf a b = ChainableUnaryExpression OpAnd (Some BOOLEAN) [] a b"

definition byTags :: druidExternal where
  "byTags = sampleSplitExternal (splitOn ''tags'' tagsRef)"

text \<open>A split key over two columns, one of them the rolled-up metric.\<close>

definition deltaRef :: expression where
  "deltaRef = RefExpression ''delta'' 0 (Some NUMBER) False []"

definition revenuePlusDelta :: expression where
  "revenuePlusDelta = ChainableUnaryExpression OpAdd (Some NUMBER) [] revenueRef deltaRef"

text \<open>Sample total queries: the maximum of the time column, and its minimum and
  maximum together.\<close>

definition mainRef :: expression where
  "mainRef = RefExpression ''main'' 0 (Some DATASET) False []"

definition maxTime :: applyExpression where
  "maxTime = \<lparr>applyName = ''max'',
              applyExpr = ChainableUnaryExpression OpMax (Some TIME) [] mainRef timeRef\<rparr>"

definition minTime :: applyExpression where
  "minTime = \<lparr>applyName = ''min'',
              applyExpr = ChainableUnaryExpression OpMin (Some TIME) [] mainRef timeRef\<rparr>"

definition sampleTotalExternal :: "applyExpression list \<Rightarrow> druidExternal" where
  "sampleTotalExternal as =
     \<lparr>mode = Total, source = Source ''wiki'', filterE = TRUE, split = None,
      applies = Some as, valueExpression = None, sortE = None, limit = None,
      havingFilter = TRUE, derivedAttributes = [], rawAttributes = sampleAttributes,
      selectE = None, timeAttribute = ''time'', customAggregations = [],
      customTransforms = [], allowEternity = False, allowSelectQueries = False,
      exactResultsOnly = False, querySelection = None, contextE = None\<rparr>"

subsection \<open>The aggregates a re-split walk meets\<close>

text \<open>
  The substitution of \<^verbatim>\<open>nestedGroupByIfNeeded\<close> replaces every aggregate it meets, so
  it meets the outermost aggregates of an apply's expression, in pre-order, and no
  aggregate below another.
\<close>

fun outermostAggregates :: "expression \<Rightarrow> expression list"
  and outermostAggregatesSplits :: "(string \<times> expression) list \<Rightarrow> expression list"
where
  "outermostAggregates (RefExpression n k t i os) = []"
| "outermostAggregates (LiteralExpression v t os) = []"
| "outermostAggregates (ChainableExpression c t os x) =
     (if isAggregateChainable c then [ChainableExpression c t os x]
      else outermostAggregates x)"
| "outermostAggregates (ChainableUnaryExpression u t os x y) =
     (if isAggregateUnary u then [ChainableUnaryExpression u t os x y]
      else outermostAggregates x @ outermostAggregates y)"
| "outermostAggregates (SplitExpression t os x ss d) =
     outermostAggregates x @ outermostAggregatesSplits ss"
| "outermostAggregatesSplits [] = []"
| "outermostAggregatesSplits ((k, ex) # rest) =
     outermostAggregates ex @ outermostAggregatesSplits rest"

definition walkedAggregates :: "applyExpression list \<Rightarrow> expression list" where
  "walkedAggregates as = concat (map (\<lambda>a. outermostAggregates (applyExpr a)) as)"

text \<open>The inner splits of the re-split aggregates among a list of aggregates.\<close>

definition resplitSplitsMet :: "expression list \<Rightarrow> splitExpression list" where
  "resplitSplitsMet as = List.map_filter (\<lambda>a. map_option resplitSplit (parseResplitAgg a)) as"

text \<open>
  The error with which the walk refuses an aggregate that is no re-split: none for a
  count and for a chainable-unary aggregate.
\<close>

definition plainError :: "expression \<Rightarrow> error option" where
  "plainError ex =
     (case ex of
        ChainableExpression OpCount t os x \<Rightarrow> None
      | ChainableUnaryExpression u t os x y \<Rightarrow> None
      | ChainableExpression (OpCustomAggregate c) t os x \<Rightarrow> Some (Error customAggregateMessage)
      | _ \<Rightarrow>
          Some (Error (''bad '' @ apostrophe @ opOf ex @ apostrophe @
                       '' aggregate in custom expression'')))"

text \<open>
  What meeting one aggregate does to the split shared so far, and what meeting a list
  of aggregates in order does: the first refusal ends the walk.
\<close>

definition aggregateOutcome ::
  "splitExpression option \<Rightarrow> expression \<Rightarrow> error + splitExpression option" where
  "aggregateOutcome g a =
     (case parseResplitAgg a of
        Some resplit \<Rightarrow>
          (if (case g of Some g' \<Rightarrow> g' \<noteq> resplitSplit resplit | None \<Rightarrow> False)
           then Inl (Error sameSplitMessage)
           else Inr (Some (case g of Some g' \<Rightarrow> g' | None \<Rightarrow> resplitSplit resplit)))
      | None \<Rightarrow> (case plainError a of Some err \<Rightarrow> Inl err | None \<Rightarrow> Inr g))"

fun walkOutcome ::
  "splitExpression option \<Rightarrow> expression list \<Rightarrow> error + splitExpression option" where
  "walkOutcome g [] = Inr g"
| "walkOutcome g (a # rest) =
     (case aggregateOutcome g a of
        Inl err \<Rightarrow> Inl err
      | Inr g' \<Rightarrow> walkOutcome g' rest)"

text \<open>The split shared so far, after a walk that did not throw.\<close>

definition walkResult :: "error + ('a \<times> resplitState) \<Rightarrow> error + splitExpression option" where
  "walkResult res =
     (case res of Inl err \<Rightarrow> Inl err | Inr (x, st) \<Rightarrow> Inr (globalResplitSplit st))"

text \<open>Sample re-split aggregates: the maximum over countries, and over tags, of a
  count; and a custom aggregate.\<close>

definition resplitMax :: "string \<Rightarrow> expression \<Rightarrow> expression" where
  "resplitMax key by =
     ChainableUnaryExpression OpMax (Some NUMBER) []
       (ChainableUnaryExpression (OpApply ''x'') (Some DATASET) []
          (SplitExpression (Some DATASET) [] mainRef [(key, by)] (Some ''data''))
          (countOf mainRef))
       (ref ''x'')"

definition maxByCountry :: applyExpression where
  "maxByCountry = \<lparr>applyName = ''maxByCountry'', applyExpr = resplitMax ''country'' countryRef\<rparr>"

definition maxByTags :: applyExpression where
  "maxByTags = \<lparr>applyName = ''maxByTags'', applyExpr = resplitMax ''tags'' tagsRef\<rparr>"

definition customApply :: applyExpression where
  "customApply =
     \<lparr>applyName = ''crazy'',
      applyExpr = ChainableExpression (OpCustomAggregate ''crazy'') (Some NUMBER) [] mainRef\<rparr>"


text \<open>Two re-split aggregates that are the maximum of the time ref, over disagreeing
  splits; and a re-split aggregate over a filtered split by tags, asked for by country.\<close>

definition resplitMaxTime :: "string \<Rightarrow> expression \<Rightarrow> expression" where
  "resplitMaxTime key by =
     ChainableUnaryExpression OpMax (Some TIME) []
       (ChainableUnaryExpression (OpApply ''x'') (Some DATASET) []
          (SplitExpression (Some DATASET) [] mainRef [(key, by)] (Some ''data''))
          (countOf mainRef))
       timeRef"

definition maxTimeByCountry :: applyExpression where
  "maxTimeByCountry =
     \<lparr>applyName = ''latestByCountry'', applyExpr = resplitMaxTime ''country'' countryRef\<rparr>"

definition maxTimeByTags :: applyExpression where
  "maxTimeByTags =
     \<lparr>applyName = ''latestByTags'', applyExpr = resplitMaxTime ''tags'' tagsRef\<rparr>"

definition maxTagged :: applyExpression where
  "maxTagged =
     \<lparr>applyName = ''maxTagged'',
      applyExpr =
        ChainableUnaryExpression OpMax (Some NUMBER) []
          (ChainableUnaryExpression (OpApply ''x'') (Some DATASET) []
             (SplitExpression (Some DATASET) [] (filterOf mainRef isTagX)
                [(''tags'', tagsRef)] (Some ''data''))
             (countOf mainRef))
          (ref ''x'')\<rparr>"

definition maxTaggedByCountry :: druidExternal where
  "maxTaggedByCountry =
     (sampleSplitExternal (splitOn ''country'' countryRef))\<lparr>applies := Some [maxTagged]\<rparr>"

text \<open>The plan expected for \<open>maxTaggedByCountry\<close>: the inner group-by has the
  dimension of the re-split, \<open>s0\<close>, and that of the split by country, \<open>s1\<close>, and
  counts the filtered rows twice, as \<open>x_0\<close> and, for the outer filter, as \<open>x_0_def\<close>;
  the outer group-by reads these four intermediate columns.\<close>

definition intermediateTaggedColumns :: "attributeInfo list" where
  "intermediateTaggedColumns =
     [attributeInfoFromJS ''x_0'' (Some NUMBER) None,
      attributeInfoFromJS ''x_0_def'' (Some NUMBER) None,
      attributeInfoFromJS ''s0'' (Some SET_STRING) None,
      attributeInfoFromJS ''s1'' (Some STRING) None]"

definition innerTaggedQuery :: jobject where
  "innerTaggedQuery =
     [(''queryType'', JStr ''groupBy''),
      (''dataSource'', JStr ''wiki''),
      (''intervals'', JStr ''0000/9999''),
      (''granularity'', JStr ''all''),
      (''dimensions'',
         JArr [JObj [(''type'', JStr ''default''), (''dimension'', JStr ''tags''),
                     (''outputName'', JStr ''s0'')],
               JObj [(''type'', JStr ''default''), (''dimension'', JStr ''country''),
                     (''outputName'', JStr ''s1'')]]),
      (''aggregations'',
         JArr [JObj [(''name'', JStr ''x_0'')], JObj [(''name'', JStr ''x_0_def'')]])]"

definition nestedTaggedPlan :: queryAndPostTransform where
  "nestedTaggedPlan =
     \<lparr>query =
        [(''queryType'', JStr ''groupBy''),
         (''dataSource'',
            JObj [(''type'', JStr ''query''), (''query'', JObj innerTaggedQuery)]),
         (''intervals'', JStr ''0000/9999''),
         (''granularity'', JStr ''all''),
         (''dimensions'',
            JArr [JObj [(''type'', JStr ''default''), (''dimension'', JStr ''s1''),
                        (''outputName'', JStr ''country'')]]),
         (''aggregations'', JArr [JObj [(''name'', JStr ''maxTagged'')]])],
      requesterContext =
        [(''timestamp'', JNull), (''ignorePrefix'', JStr ''!''),
         (''dummyPrefix'', JStr ''***'')],
      queryPostTransform =
        PostTransform [] intermediateTaggedColumns (Some [''country'']) None\<rparr>"

text \<open>A re-split aggregate whose inner apply holds two re-split aggregates of its own,
  over disagreeing splits.\<close>

definition addOf :: "expression \<Rightarrow> expression \<Rightarrow> expression" where
  "addOf x y = ChainableUnaryExpression OpAdd (Some NUMBER) [] x y"

definition deepResplit :: applyExpression where
  "deepResplit =
     \<lparr>applyName = ''deep'',
      applyExpr =
        ChainableUnaryExpression OpMax (Some NUMBER) []
          (ChainableUnaryExpression (OpApply ''x'') (Some DATASET) []
             (SplitExpression (Some DATASET) [] mainRef [(''country'', countryRef)]
                (Some ''data''))
             (addOf (resplitMax ''country'' countryRef) (resplitMax ''tags'' tagsRef)))
          (ref ''x'')\<rparr>"

subsection \<open>A sample SQL dialect\<close>

text \<open>A dialect that writes names in square brackets and renders every expression, and
  a split by country on it, over the user's query or over the table, with a having
  filter to choose.\<close>

definition bracket :: "string \<Rightarrow> string" where
  "bracket n = ''['' @ n @ '']''"

fun sampleSQL :: "expression \<Rightarrow> string" where
  "sampleSQL (RefExpression n k t i os) = bracket n"
| "sampleSQL (LiteralExpression v t os) = ''?''"
| "sampleSQL (ChainableExpression c t os x) = chainableOpName c @ ''('' @ sampleSQL x @ '')''"
| "sampleSQL (ChainableUnaryExpression u t os x y) =
     sampleSQL x @ '' '' @ chainableUnaryOpName u @ '' '' @ sampleSQL y"
| "sampleSQL (SplitExpression t os x ss d) = ''split''"

definition sampleDialect :: sqlCollaborators where
  "sampleDialect =
     \<lparr>escapeName =
        (\<lambda>s. case s of
                Source n \<Rightarrow> Inr (bracket n)
              | SourceArray ns \<Rightarrow> Inl (TypeError ''name.replace is not a function'')),
      maybeNamespacedName = (\<lambda>n. Inr (bracket n)),
      emptyGroupBy = Inr ''GROUP BY 1=1'',
      expressionGetSQL = (\<lambda>ex. Inr (sampleSQL ex)),
      applyGetSQL = (\<lambda>a. Inr (sampleSQL (applyExpr a) @ '' AS '' @ bracket (applyName a))),
      inheritedApplyGetSQL = (\<lambda>n. Inl (TypeError ''not an expression'')),
      sortGetSQL =
        (\<lambda>s. Inr (''ORDER BY '' @ sampleSQL (sortExpr s) @ '' ''
                   @ (case sortDirection s of Ascending \<Rightarrow> ''ASC'' | Descending \<Rightarrow> ''DESC''))),
      limitGetSQL = (\<lambda>l. Inr (''LIMIT '' @ showNat (nat (limitValue l)))),
      getSelectSQL =
        (\<lambda>s. Inr (map (\<lambda>(k, ex). sampleSQL ex @ '' AS '' @ bracket k) (splits s))),
      getShortGroupBySQL = (\<lambda>s. Inr (map (\<lambda>i. showNat (Suc i)) [0..<length (splits s)])),
      getGroupBySQL = (\<lambda>s. Inr (map (\<lambda>(k, ex). sampleSQL ex) (splits s))),
      superCapability = (\<lambda>cap. False),
      getSimpleInflater = (\<lambda>t n. None),
      sqlSelectedAttributes = (\<lambda>e. rawAttributes e),
      sqlQueryFilter = (\<lambda>e. filterE e),
      sqlQuerySplit =
        (\<lambda>e. case split e of
                Some s \<Rightarrow> Inr s
              | None \<Rightarrow> Inl (TypeError ''no split'')),
      sqlToValueApply =
        (\<lambda>e. \<lparr>applyName = ''__VALUE__'',
               applyExpr = (case valueExpression e of Some v \<Rightarrow> v | None \<Rightarrow> TRUE)\<rparr>)\<rparr>"

definition sqlByCountry :: "string option \<Rightarrow> expression \<Rightarrow> sqlExternal" where
  "sqlByCountry w h =
     \<lparr>mode = Split, source = Source ''wiki'', filterE = isTagX,
      split = Some (splitOn ''country'' countryRef),
      applies = Some [countApply, countApply\<lparr>applyName := ''n''\<rparr>], valueExpression = None,
      sortE = Some \<lparr>sortExpr = RefExpression ''count'' 0 (Some NUMBER) False [],
                    sortDirection = Descending\<rparr>,
      limit = Some \<lparr>limitValue = 5\<rparr>,
      havingFilter = h, derivedAttributes = [], rawAttributes = sampleAttributes,
      selectE = None, withQuery = w\<rparr>"

text \<open>A having filter that is a reference one generation up.\<close>

definition unresolvedFlag :: expression where
  "unresolvedFlag = RefExpression ''flag'' 1 (Some BOOLEAN) False []"

subsection \<open>A sample data source to introspect\<close>

text \<open>A data source whose segment metadata lists the time column, without minimum and
  maximum, and a string column; a requester that answers both queries, one whose time
  boundary fails, one whose time boundary is empty, and one whose time boundary has no
  minimum and maximum time.\<close>

definition sampleRanges :: ranges where
  "sampleRanges =
     \<lparr>rangeFromJS = (\<lambda>lo hi. Inr (lo, hi)),
      timeRangeFromJS =
        (\<lambda>lo hi. case (lo, hi) of
                    (Some l, Some h) \<Rightarrow> Inr (l, h)
                  | _ \<Rightarrow> Inl (Error ''bad range''))\<rparr>"

definition plainColumn :: "string \<Rightarrow> columnMetadata" where
  "plainColumn t =
     \<lparr>columnType = Some t, hasMultipleValues = False, columnSize = Some 0,
      columnCardinality = None, errorMessage = None, minValue = None, maxValue = None\<rparr>"

definition sampleMetadata :: resultRow where
  "sampleMetadata =
     \<lparr>rowColumns = Some [(''__time'', plainColumn ''LONG''), (''country'', plainColumn ''STRING'')],
      rowAggregators = Some [], rowMinTime = None, rowMaxTime = None\<rparr>"

definition sampleBoundary :: resultRow where
  "sampleBoundary =
     \<lparr>rowColumns = None, rowAggregators = None,
      rowMinTime = Some (JStr ''2015-09-12T00:00:00Z''),
      rowMaxTime = Some (JStr ''2015-09-13T00:00:00Z'')\<rparr>"

definition sampleRequester :: "jobject \<Rightarrow> error + resultRow list" where
  "sampleRequester q =
     (if getField ''queryType'' q = Some (JStr ''segmentMetadata'') then Inr [sampleMetadata]
      else Inr [sampleBoundary])"

definition failingRequester :: "jobject \<Rightarrow> error + resultRow list" where
  "failingRequester q =
     (if getField ''queryType'' q = Some (JStr ''segmentMetadata'') then Inr [sampleMetadata]
      else Inl (Error ''time boundary failed''))"

definition emptyRequester :: "jobject \<Rightarrow> error + resultRow list" where
  "emptyRequester q =
     (if getField ''queryType'' q = Some (JStr ''segmentMetadata'') then Inr [sampleMetadata]
      else Inr [])"

definition boundlessRequester :: "jobject \<Rightarrow> error + resultRow list" where
  "boundlessRequester q = Inr [sampleMetadata]"

definition sampleIntrospected :: "attributeInfo list" where
  "sampleIntrospected =
     [\<lparr>attrName = ''time'', attrType = Some TIME, nativeType = Some ''__time'',
       unsplitable = False, maker = None, cardinality = None, attrRange = None\<rparr>,
      \<lparr>attrName = ''country'', attrType = Some STRING, nativeType = Some ''STRING'',
       unsplitable = False, maker = None, cardinality = None, attrRange = None\<rparr>]"

section \<open>Output name rewriting\<close>

lemma indexOf_lower: "- 1 \<le> indexOf s pat"
proof (induction s)
  case Nil
  show ?case by (simp add: indexOf.simps)
next
  case (Cons c t)
  then show ?case by (simp add: indexOf.simps [of "c # t"] Let_def)
qed

lemma indexOf_zero_iff: "indexOf s pat = 0 \<longleftrightarrow> prefix pat s"
proof (cases "prefix pat s")
  case True
  then show ?thesis by (simp add: indexOf.simps [of s])
next
  case False
  show ?thesis
  proof (cases s)
    case Nil
    with False show ?thesis by (simp add: indexOf.simps [of "[]"])
  next
    case (Cons c t)
    have "- 1 \<le> indexOf t pat" by (rule indexOf_lower)
    with False Cons show ?thesis by (simp add: indexOf.simps [of "c # t"] Let_def)
  qed
qed

text \<open>The helper itself: \<^verbatim>\<open>'***'\<close> followed by the name exactly when the name begins
  with \<^verbatim>\<open>'__'\<close>, and the name unchanged otherwise.\<close>

lemma makeOutputName_prefix:
  "makeOutputName nm = (if prefix ''__'' nm then ''***'' @ nm else nm)"
  by (simp only: makeOutputName_def indexOf_zero_iff)

text \<open>The two places where a sort on an apply is emitted. A groupBy names the column of
  its limit spec through \<^verbatim>\<open>makeOutputName\<close>; a topN names its metric by the sort's
  reference as it stands.\<close>

lemma orderByColumn_prefixed:
  assumes "refName srt = Some col" and "\<not> sortOnLabel K e"
  shows "orderByColumn K e s srt =
           Inr [(''dimension'', JStr (if prefix ''__'' col then ''***'' @ col else col)),
                (''direction'', JStr (directionName (sortDirection srt)))]"
  using assms by (simp add: orderByColumn_def Let_def makeOutputName_prefix)

lemma topNMetric_unprefixed:
  assumes "sortE e = Some srt" and "refName srt = Some col" and "\<not> sortOnLabel K e"
  shows "topNMetric K e s =
           Inr (if sortDirection srt = Ascending
                then JObj [(''type'', JStr ''inverted''), (''metric'', JStr col)]
                else JStr col)"
  using assms by (simp add: topNMetric_def Let_def refNameJS_def)


section \<open>Sort feasibility\<close>

text \<open>
  C10. In raw mode \<^verbatim>\<open>canHandleSort\<close> returns true exactly when the sort's referenced
  name equals the External's time attribute and the direction is ascending; in every
  other mode it returns true for all sorts.
\<close>

theorem canHandleSort_raw_iff:
  "canHandleSort e srt =
     (if mode e = Raw
      then refName srt = Some (timeAttribute e) \<and> sortDirection srt = Ascending
      else True)"
  by (simp add: canHandleSort_def)

section \<open>Evaluating the sample inputs\<close>

lemma sampleCollaborators_fields:
  "getSelectedAttributes sampleCollaborators = (\<lambda>e. rawAttributes e)"
  "getAttributesInfo sampleCollaborators = sampleAttributesInfo"
  "getFreeReferences sampleCollaborators = (\<lambda>ex. remdups (referenceNames ex))"
  "toString sampleCollaborators = (\<lambda>ex. opOf ex)"
  "expressionToExtractionFn sampleCollaborators =
     (\<lambda>e ex. if isRefExpression ex then Inr None else Inl (Error ''no extraction function''))"
  "expressionToDruidExpression sampleCollaborators = (\<lambda>e ex. Inr (Some (opOf ex)))"
  "expressionTypeToOutputType sampleCollaborators = sampleOutputType"
  "getIntelligentInflater sampleCollaborators = sampleInflater"
  "maxBucketNumber sampleCollaborators = (\<lambda>s. None)"
  "getQueryFilter sampleCollaborators = (\<lambda>e. filterE e)"
  "sortOnLabel sampleCollaborators = (\<lambda>e. False)"
  "simplify sampleCollaborators = (\<lambda>ex. ex)"
  by (simp_all add: sampleCollaborators_def)

lemmas sample_defs = sampleSplitExternal_def splitOn_def sampleCollaborators_fields
  getQuerySelection_def isTimestampCompatibleSort_def splitExpressionToGranularityInflater_def
  isTimeRef_def dayBucket_def timeRef_def countryRef_def tagsRef_def revenueRef_def TRUE_def
  sampleAttributes_def sampleAttributesInfo_def sampleInflater_def sampleOutputType_def
  countApply_def Let_def

lemmas lowering_defs = expressionToDimensionInflaterHaving_def expressionToDimensionInflater_def
  plainDimension_def makeExpression_def withHaving_def filteredDimension_def makeOutputName_def
  indexOf.simps orNull_def isOp_def isComplexFallback_def TIME_ATTRIBUTE_def extractFromAnd_def

section \<open>The shape of a split query\<close>

lemma splitToDruid_groupBy_branch:
  assumes "getQuerySelection e = GroupByOnly \<or> isMultiSplit s"
  shows "case groupByDimensions K e (splits s) (havingFilter e) of
           Inl err \<Rightarrow> splitToDruid K e s = Inl err
         | Inr res \<Rightarrow> (\<exists>r. splitToDruid K e s = Inr r \<and> queryType r = ''groupBy'')"
proof (cases "groupByDimensions K e (splits s) (havingFilter e)")
  case (Inl err)
  with assms show ?thesis by (simp add: splitToDruid_def)
next
  case (Inr res)
  obtain vcs dims infls lo where "res = (vcs, dims, infls, lo)" by (cases res) auto
  with Inr assms show ?thesis by (simp add: splitToDruid_def)
qed

lemma splitToDruid_timeseries:
  assumes "getQuerySelection e \<noteq> GroupByOnly" and "splits s = [(label, splitExpression)]"
    and "limit e = None" and "isTimestampCompatibleSort (sortE e) label"
    and "havingFilter e = TRUE"
    and "splitExpressionToGranularityInflater K e splitExpression label = Some g"
  shows "\<exists>r. splitToDruid K e s = Inr r \<and> queryType r = ''timeseries''"
  using assms by (simp add: splitToDruid_def isMultiSplit_def)

lemma splitToDruid_lowered:
  assumes "getQuerySelection e \<noteq> GroupByOnly" and "splits s = [(label, splitExpression)]"
    and "\<not> (limit e = None \<and> isTimestampCompatibleSort (sortE e) label \<and> havingFilter e = TRUE
         \<and> splitExpressionToGranularityInflater K e splitExpression label \<noteq> None)"
  shows "splitToDruid K e s =
     (case expressionToDimensionInflaterHaving K e splitExpression label (havingFilter e) of
        Inl err \<Rightarrow> Inl err
      | Inr d \<Rightarrow>
         (case topNGuard K e s (having d) of
            Inl err \<Rightarrow> Inl err
          | Inr b \<Rightarrow>
             Inr \<lparr>queryType = (if b then ''topN'' else ''groupBy''), timestampLabel = None,
                  virtualColumns =
                    (case diVirtualColumn d of Some vc \<Rightarrow> Some [vc] | None \<Rightarrow> None),
                  granularity = JStr ''all'',
                  dimension = (if b then Some (diDimension d) else None),
                  dimensions = (if b then None else Some [diDimension d]),
                  leftoverHavingFilter = having d,
                  postTransform =
                    PostTransform (case diInflater d of Some i \<Rightarrow> [Some i] | None \<Rightarrow> [])
                      (getSelectedAttributes K e) (Some [label]) None\<rparr>))"
proof -
  have none: "(if limit e = None \<and> isTimestampCompatibleSort (sortE e) label
                  \<and> havingFilter e = TRUE
               then splitExpressionToGranularityInflater K e splitExpression label
               else None) = None"
    using assms(3) by auto
  show ?thesis
    unfolding splitToDruid_def Let_def
    using assms(1,2) none
    by (simp add: isMultiSplit_def split: sum.splits bool.splits)
qed

lemma topNGuard_cases:
  "topNGuard K e s lo =
     (if lo = TRUE \<and> (limit e \<noteq> None \<or> (\<exists>n. maxBucketNumber K s = Some n \<and> n < 1000))
         \<and> \<not> exactResultsOnly e
      then (case topNCompatibleSort e of
              Inl err \<Rightarrow> Inl err
            | Inr b \<Rightarrow> Inr (b \<and> getQuerySelection e = Any))
      else Inr False)"
  by (cases "maxBucketNumber K s") (simp_all add: topNGuard_def)

text \<open>
  C1, as amended. For a split with the single key \<open>label\<close> and a query selection other
  than group-by-only: when there is no limit, the sort is timestamp-compatible with the
  label, the having filter is \<^verbatim>\<open>TRUE\<close> and the key yields a granularity,
  \<^verbatim>\<open>splitToDruid\<close> returns the query type \<^verbatim>\<open>timeseries\<close>. Otherwise the key is lowered
  to a dimension: when the lowering throws, so does \<^verbatim>\<open>splitToDruid\<close>; when it succeeds
  and the leftover having filter is \<^verbatim>\<open>TRUE\<close>, there is a limit or fewer than 1000
  buckets, and \<^verbatim>\<open>exactResultsOnly\<close> is off, the query type is \<^verbatim>\<open>topN\<close> if the sort is
  topN-compatible and the selection is \<^verbatim>\<open>'any'\<close>, and \<^verbatim>\<open>groupBy\<close> if not (an error of
  the sort test is passed on); in every remaining case it is \<^verbatim>\<open>groupBy\<close>. With the
  group-by-only selection or several keys the query type is \<^verbatim>\<open>groupBy\<close> whenever all
  keys can be lowered, and the error of the first key that cannot is passed on.
\<close>

theorem splitToDruid_queryType:
  "(getQuerySelection e \<noteq> GroupByOnly \<and> splits s = [(label, splitExpression)] \<longrightarrow>
     (if limit e = None \<and> isTimestampCompatibleSort (sortE e) label \<and> havingFilter e = TRUE
         \<and> splitExpressionToGranularityInflater K e splitExpression label \<noteq> None
      then \<exists>r. splitToDruid K e s = Inr r \<and> queryType r = ''timeseries''
      else
        (case expressionToDimensionInflaterHaving K e splitExpression label (havingFilter e) of
           Inl err \<Rightarrow> splitToDruid K e s = Inl err
         | Inr d \<Rightarrow>
             (if having d = TRUE
                 \<and> (limit e \<noteq> None \<or> (\<exists>n. maxBucketNumber K s = Some n \<and> n < 1000))
                 \<and> \<not> exactResultsOnly e
              then (case topNCompatibleSort e of
                      Inl err \<Rightarrow> splitToDruid K e s = Inl err
                    | Inr compatible \<Rightarrow>
                        (\<exists>r. splitToDruid K e s = Inr r \<and>
                             queryType r =
                               (if compatible \<and> getQuerySelection e = Any then ''topN''
                                else ''groupBy'')))
              else \<exists>r. splitToDruid K e s = Inr r \<and> queryType r = ''groupBy''))))
   \<and> (getQuerySelection e = GroupByOnly \<or> isMultiSplit s \<longrightarrow>
        (case groupByDimensions K e (splits s) (havingFilter e) of
           Inl err \<Rightarrow> splitToDruid K e s = Inl err
         | Inr res \<Rightarrow> (\<exists>r. splitToDruid K e s = Inr r \<and> queryType r = ''groupBy'')))"
  (is "(?single \<longrightarrow> ?shape) \<and> (?multi \<longrightarrow> ?groupBy)")
proof (intro conjI impI)
  assume a: ?single
  show ?shape
  proof (cases "limit e = None \<and> isTimestampCompatibleSort (sortE e) label
                 \<and> havingFilter e = TRUE
                 \<and> splitExpressionToGranularityInflater K e splitExpression label \<noteq> None")
    case True
    then obtain g where "splitExpressionToGranularityInflater K e splitExpression label = Some g"
      by auto
    with a True have "\<exists>r. splitToDruid K e s = Inr r \<and> queryType r = ''timeseries''"
      by (intro splitToDruid_timeseries) auto
    with True show ?thesis by simp
  next
    case False
    note low = splitToDruid_lowered [OF conjunct1 [OF a] conjunct2 [OF a] False]
    have lowered:
      "case expressionToDimensionInflaterHaving K e splitExpression label (havingFilter e) of
         Inl err \<Rightarrow> splitToDruid K e s = Inl err
       | Inr d \<Rightarrow>
           (if having d = TRUE
               \<and> (limit e \<noteq> None \<or> (\<exists>n. maxBucketNumber K s = Some n \<and> n < 1000))
               \<and> \<not> exactResultsOnly e
            then (case topNCompatibleSort e of
                    Inl err \<Rightarrow> splitToDruid K e s = Inl err
                  | Inr compatible \<Rightarrow>
                      (\<exists>r. splitToDruid K e s = Inr r \<and>
                           queryType r =
                             (if compatible \<and> getQuerySelection e = Any then ''topN''
                              else ''groupBy'')))
            else \<exists>r. splitToDruid K e s = Inr r \<and> queryType r = ''groupBy'')"
    proof (cases "expressionToDimensionInflaterHaving K e splitExpression label (havingFilter e)")
      case (Inl err)
      with low show ?thesis by simp
    next
      case (Inr d)
      from low Inr have low':
        "splitToDruid K e s =
           (case topNGuard K e s (having d) of
              Inl err \<Rightarrow> Inl err
            | Inr b \<Rightarrow>
                Inr \<lparr>queryType = (if b then ''topN'' else ''groupBy''), timestampLabel = None,
                     virtualColumns =
                       (case diVirtualColumn d of Some vc \<Rightarrow> Some [vc] | None \<Rightarrow> None),
                     granularity = JStr ''all'',
                     dimension = (if b then Some (diDimension d) else None),
                     dimensions = (if b then None else Some [diDimension d]),
                     leftoverHavingFilter = having d,
                     postTransform =
                       PostTransform (case diInflater d of Some i \<Rightarrow> [Some i] | None \<Rightarrow> [])
                         (getSelectedAttributes K e) (Some [label]) None\<rparr>)"
        by simp
      have inner:
        "if having d = TRUE
            \<and> (limit e \<noteq> None \<or> (\<exists>n. maxBucketNumber K s = Some n \<and> n < 1000))
            \<and> \<not> exactResultsOnly e
         then (case topNCompatibleSort e of
                 Inl err \<Rightarrow> splitToDruid K e s = Inl err
               | Inr compatible \<Rightarrow>
                   (\<exists>r. splitToDruid K e s = Inr r \<and>
                        queryType r =
                          (if compatible \<and> getQuerySelection e = Any then ''topN''
                           else ''groupBy'')))
         else \<exists>r. splitToDruid K e s = Inr r \<and> queryType r = ''groupBy''"
      proof (cases "having d = TRUE
               \<and> (limit e \<noteq> None \<or> (\<exists>n. maxBucketNumber K s = Some n \<and> n < 1000))
               \<and> \<not> exactResultsOnly e")
        case guard: True
        then have g: "topNGuard K e s (having d) =
          (case topNCompatibleSort e of
             Inl err \<Rightarrow> Inl err
           | Inr b \<Rightarrow> Inr (b \<and> getQuerySelection e = Any))"
          by (subst topNGuard_cases) (rule if_P)
        have "case topNCompatibleSort e of
                 Inl err \<Rightarrow> splitToDruid K e s = Inl err
               | Inr compatible \<Rightarrow>
                   (\<exists>r. splitToDruid K e s = Inr r \<and>
                        queryType r =
                          (if compatible \<and> getQuerySelection e = Any then ''topN''
                           else ''groupBy''))"
        proof (cases "topNCompatibleSort e")
          case (Inl err)
          with low' g show ?thesis by simp
        next
          case r: (Inr compatible)
          with low' g show ?thesis by simp
        qed
        then show ?thesis by (subst if_P [OF guard])
      next
        case guard: False
        then have g: "topNGuard K e s (having d) = Inr False"
          by (subst topNGuard_cases) (rule if_not_P)
        with low' have "\<exists>r. splitToDruid K e s = Inr r \<and> queryType r = ''groupBy''" by simp
        then show ?thesis by (subst if_not_P [OF guard])
      qed
      show ?thesis unfolding Inr sum.case by (rule inner)
    qed
    show ?thesis by (subst if_not_P [OF False]) (rule lowered)
  qed
next
  assume ?multi
  then show ?groupBy by (rule splitToDruid_groupBy_branch)
qed

lemma lower_country:
  assumes "rawAttributes e = sampleAttributes" and "timeAttribute e = ''time''"
  shows "expressionToDimensionInflaterHaving sampleCollaborators e countryRef ''country'' TRUE
     = Inr \<lparr>diVirtualColumn = None,
            diDimension = [(''type'', JStr ''default''), (''dimension'', JStr ''country''),
                           (''outputName'', JStr ''country'')],
            diInflater = None, having = TRUE\<rparr>"
  using assms by (simp add: lowering_defs sample_defs)

lemma lower_tags:
  assumes "rawAttributes e = sampleAttributes" and "timeAttribute e = ''time''"
  shows "expressionToDimensionInflaterHaving sampleCollaborators e tagsRef ''tags'' TRUE
     = Inr \<lparr>diVirtualColumn = None,
            diDimension = [(''type'', JStr ''default''), (''dimension'', JStr ''tags''),
                           (''outputName'', JStr ''tags'')],
            diInflater = Some (SetStringInflater ''tags''), having = TRUE\<rparr>"
  using assms by (simp add: lowering_defs sample_defs)

theorem splitToDruid_queryType_witness:
  "(\<exists>r. splitToDruid sampleCollaborators byDay (splitOn ''day'' dayBucket) = Inr r
        \<and> queryType r = ''timeseries'')
   \<and> (\<exists>r. splitToDruid sampleCollaborators byCountryTop (splitOn ''country'' countryRef) = Inr r
        \<and> queryType r = ''topN'')
   \<and> (\<exists>r. splitToDruid sampleCollaborators byCountry (splitOn ''country'' countryRef) = Inr r
        \<and> queryType r = ''groupBy'')
   \<and> (\<exists>r. splitToDruid sampleCollaborators byCountry countryAndTags = Inr r
        \<and> queryType r = ''groupBy'')"
proof (intro conjI)
  show "\<exists>r. splitToDruid sampleCollaborators byDay (splitOn ''day'' dayBucket) = Inr r
        \<and> queryType r = ''timeseries''"
    using splitToDruid_queryType [of byDay "splitOn ''day'' dayBucket" "''day''" dayBucket
        sampleCollaborators, THEN conjunct1]
    by (simp add: byDay_def sample_defs)
  show "\<exists>r. splitToDruid sampleCollaborators byCountryTop (splitOn ''country'' countryRef) = Inr r
        \<and> queryType r = ''topN''"
    using splitToDruid_queryType [of byCountryTop "splitOn ''country'' countryRef" "''country''"
        countryRef sampleCollaborators, THEN conjunct1]
      lower_country [of byCountryTop]
    by (simp add: byCountryTop_def topNCompatibleSort_def sample_defs)
  show "\<exists>r. splitToDruid sampleCollaborators byCountry (splitOn ''country'' countryRef) = Inr r
        \<and> queryType r = ''groupBy''"
    using splitToDruid_queryType [of byCountry "splitOn ''country'' countryRef" "''country''"
        countryRef sampleCollaborators, THEN conjunct1]
      lower_country [of byCountry]
    by (simp add: byCountry_def topNCompatibleSort_def sample_defs)
  have "havingFilter byCountry = TRUE" "rawAttributes byCountry = sampleAttributes"
    "timeAttribute byCountry = ''time''" "getQuerySelection byCountry = Any"
    by (simp_all add: byCountry_def sampleSplitExternal_def getQuerySelection_def)
  then show "\<exists>r. splitToDruid sampleCollaborators byCountry countryAndTags = Inr r
        \<and> queryType r = ''groupBy''"
    using splitToDruid_queryType [of byCountry countryAndTags "''country''"
        countryRef sampleCollaborators, THEN conjunct2]
      lower_country [of byCountry] lower_tags [of byCountry]
    by (simp add: countryAndTags_def isMultiSplit_def)
qed

theorem splitToDruid_unsplitable_counterexample:
  "getQuerySelection byRevenueExact \<noteq> GroupByOnly
   \<and> splits (splitOn ''revenue'' revenueRef) = [(''revenue'', revenueRef)]
   \<and> limit byRevenueExact \<noteq> None
   \<and> exactResultsOnly byRevenueExact
   \<and> splitToDruid sampleCollaborators byRevenueExact (splitOn ''revenue'' revenueRef)
       = Inl (Error (unsplitableMessage sampleCollaborators revenueRef ''revenue''))"
  by (simp add: splitToDruid_def isMultiSplit_def lowering_defs byRevenueExact_def sample_defs)

section \<open>Having push-down into the dimension\<close>

lemma Expression_and_Nil: "Expression_and [] = TRUE"
  by (simp add: Expression_and_def)

lemma Expression_and_single: "Expression_and [c] = c"
  by (simp add: Expression_and_def)

lemma foldl_andExpression_isAnd:
  "rest \<noteq> [] \<Longrightarrow> isAndExpression (foldl andExpression acc rest)"
proof (induction rest arbitrary: acc)
  case Nil
  then show ?case by simp
next
  case (Cons c cs)
  show ?case
  proof (cases cs)
    case Nil
    then show ?thesis by (simp add: andExpression_def)
  next
    case (Cons c' cs')
    then have "cs \<noteq> []" by simp
    from Cons.IH [OF this] show ?thesis by simp
  qed
qed

lemma Expression_and_several:
  "2 \<le> length cs \<Longrightarrow> isAndExpression (Expression_and cs)"
proof (cases cs)
  case Nil
  assume "2 \<le> length cs"
  with Nil show ?thesis by simp
next
  case (Cons c rest)
  assume "2 \<le> length cs"
  with Cons have "rest \<noteq> []" by auto
  with Cons show ?thesis by (simp add: Expression_and_def foldl_andExpression_isAnd)
qed

lemma extractFromAnd_conjuncts:
  assumes "isAndExpression hf \<or> typeOf hf = Some BOOLEAN"
  shows "extractFromAnd P hf =
     Some (Expression_and (filter P (getExpressionList hf)),
           Expression_and (filter (\<lambda>c. \<not> P c) (getExpressionList hf)))"
proof (cases "isAndExpression hf")
  case True
  then obtain t os x y where "hf = ChainableUnaryExpression OpAnd t os x y"
    by (cases hf rule: isAndExpression.cases) auto
  then show ?thesis by (simp add: extractFromAnd_def)
next
  case False
  with assms have b: "typeOf hf = Some BOOLEAN" by simp
  from False have l: "getExpressionList hf = [hf]"
    by (cases hf rule: isAndExpression.cases) auto
  from False have "extractFromAnd P hf =
     (if typeOf hf \<noteq> Some BOOLEAN then None
      else if P hf then Some (hf, TRUE) else Some (TRUE, hf))"
    by (cases hf rule: isAndExpression.cases) (auto simp: extractFromAnd_def)
  with b l show ?thesis by (simp add: Expression_and_Nil Expression_and_single)
qed

text \<open>
  C5, as amended. Let the lowering of the split key succeed. For a key whose type is not
  SET/STRING the dimension and the having filter are returned unchanged. For a SET/STRING
  key and a having filter (BOOLEAN, or an \<^verbatim>\<open>and\<close>) none of whose conjuncts compares the
  label with a literal by \<^verbatim>\<open>in\<close>, the filter is split into the conjuncts that directly
  constrain the label (a match, or an \<^verbatim>\<open>is\<close> with a literal) and the residue: with no
  such conjunct, or with several, the dimension and the having filter are returned
  unchanged; with exactly one, a match becomes a \<^verbatim>\<open>regexFiltered\<close> dimension around the
  delegate and an \<^verbatim>\<open>is\<close> a \<^verbatim>\<open>listFiltered\<close> one (with the elements of a set literal, or
  the one value of another literal, as values), and the residue is the leftover having
  filter.
\<close>

theorem expressionToDimensionInflaterHaving_pushdown:
  assumes low: "expressionToDimensionInflater K e ex label = Inr d"
  shows
    "(typeOf ex \<noteq> Some SET_STRING \<longrightarrow>
        expressionToDimensionInflaterHaving K e ex label hf = Inr (withHaving d hf))
     \<and> (typeOf ex = Some SET_STRING
          \<and> (isAndExpression hf \<or> typeOf hf = Some BOOLEAN)
          \<and> (\<forall>c \<in> set (getExpressionList hf). \<not> inOnLabel label c) \<longrightarrow>
        (constrainingConjuncts label hf = [] \<longrightarrow>
           expressionToDimensionInflaterHaving K e ex label hf = Inr (withHaving d hf))
        \<and> (\<forall>regexp t os x.
             constrainingConjuncts label hf = [ChainableExpression (OpMatch regexp) t os x] \<longrightarrow>
             expressionToDimensionInflaterHaving K e ex label hf =
               Inr (filteredDimension d
                      [(''type'', JStr ''regexFiltered''),
                       (''delegate'', JObj (diDimension d)),
                       (''pattern'', JStr regexp)]
                      (residue label hf)))
        \<and> (\<forall>t os x y.
             constrainingConjuncts label hf = [ChainableUnaryExpression OpIs t os x y] \<longrightarrow>
             expressionToDimensionInflaterHaving K e ex label hf =
               Inr (filteredDimension d
                      [(''type'', JStr ''listFiltered''),
                       (''delegate'', JObj (diDimension d)),
                       (''values'', listFilteredValues (getLiteralValue y))]
                      (residue label hf)))
        \<and> (2 \<le> length (constrainingConjuncts label hf) \<longrightarrow>
             expressionToDimensionInflaterHaving K e ex label hf = Inr (withHaving d hf)))"
proof (intro conjI impI allI)
  assume "typeOf ex \<noteq> Some SET_STRING"
  with low show "expressionToDimensionInflaterHaving K e ex label hf = Inr (withHaving d hf)"
    by (simp add: expressionToDimensionInflaterHaving_def)
next
  assume a: "typeOf ex = Some SET_STRING
          \<and> (isAndExpression hf \<or> typeOf hf = Some BOOLEAN)
          \<and> (\<forall>c \<in> set (getExpressionList hf). \<not> inOnLabel label c)"
  then have ext: "extractFromAnd (constrainsLabel label) hf =
      Some (Expression_and (constrainingConjuncts label hf), residue label hf)"
    by (simp add: extractFromAnd_conjuncts constrainingConjuncts_def residue_def)
  note unfold = expressionToDimensionInflaterHaving_def low ext Let_def
  {
    assume "constrainingConjuncts label hf = []"
    with a show "expressionToDimensionInflaterHaving K e ex label hf = Inr (withHaving d hf)"
      by (simp add: unfold Expression_and_Nil)
  next
    fix regexp t os x
    assume "constrainingConjuncts label hf = [ChainableExpression (OpMatch regexp) t os x]"
    with a show "expressionToDimensionInflaterHaving K e ex label hf =
               Inr (filteredDimension d
                      [(''type'', JStr ''regexFiltered''),
                       (''delegate'', JObj (diDimension d)),
                       (''pattern'', JStr regexp)]
                      (residue label hf))"
      by (simp add: unfold Expression_and_single TRUE_def)
  next
    fix t os x y
    assume "constrainingConjuncts label hf = [ChainableUnaryExpression OpIs t os x y]"
    with a show "expressionToDimensionInflaterHaving K e ex label hf =
               Inr (filteredDimension d
                      [(''type'', JStr ''listFiltered''),
                       (''delegate'', JObj (diDimension d)),
                       (''values'', listFilteredValues (getLiteralValue y))]
                      (residue label hf))"
      by (simp add: unfold Expression_and_single TRUE_def)
  next
    assume "2 \<le> length (constrainingConjuncts label hf)"
    then have "isAndExpression (Expression_and (constrainingConjuncts label hf))"
      by (rule Expression_and_several)
    then obtain t os x y where
      "Expression_and (constrainingConjuncts label hf) = ChainableUnaryExpression OpAnd t os x y"
      by (cases "Expression_and (constrainingConjuncts label hf)" rule: isAndExpression.cases)
        auto
    with a show "expressionToDimensionInflaterHaving K e ex label hf = Inr (withHaving d hf)"
      by (simp add: unfold TRUE_def)
  }
qed

lemma lower_tags_dimension:
  assumes "rawAttributes e = sampleAttributes" and "timeAttribute e = ''time''"
  shows "expressionToDimensionInflater sampleCollaborators e tagsRef ''tags''
     = Inr \<lparr>diVirtualColumn = None, diDimension = tagsDimension,
            diInflater = Some (SetStringInflater ''tags'')\<rparr>"
  using assms by (simp add: lowering_defs sample_defs tagsDimension_def)

lemma byTags_fields:
  "rawAttributes byTags = sampleAttributes" "timeAttribute byTags = ''time''"
  by (simp_all add: byTags_def sampleSplitExternal_def)

lemmas having_defs = matchTags_def isTagX_def isTagsAB_def inTagsAB_def countOver10_def
  andOf_def tagsRef_def constrainingConjuncts_def residue_def Expression_and_def
  andExpression_def isOp_def

theorem expressionToDimensionInflaterHaving_pushdown_witness:
  "expressionToDimensionInflaterHaving sampleCollaborators byTags tagsRef ''tags''
       (andOf isTagsAB countOver10)
     = Inr \<lparr>diVirtualColumn = None,
            diDimension = [(''type'', JStr ''listFiltered''),
                           (''delegate'', JObj tagsDimension),
                           (''values'', JArr [JStr ''a'', JStr ''b''])],
            diInflater = Some (SetStringInflater ''tags''),
            having = countOver10\<rparr>
   \<and> expressionToDimensionInflaterHaving sampleCollaborators byTags tagsRef ''tags''
       (andOf matchTags countOver10)
     = Inr \<lparr>diVirtualColumn = None,
            diDimension = [(''type'', JStr ''regexFiltered''),
                           (''delegate'', JObj tagsDimension),
                           (''pattern'', JStr ''^a'')],
            diInflater = Some (SetStringInflater ''tags''),
            having = countOver10\<rparr>
   \<and> expressionToDimensionInflaterHaving sampleCollaborators byTags countryRef ''country''
       (andOf matchTags countOver10)
     = Inr \<lparr>diVirtualColumn = None,
            diDimension = [(''type'', JStr ''default''), (''dimension'', JStr ''country''),
                           (''outputName'', JStr ''country'')],
            diInflater = None,
            having = andOf matchTags countOver10\<rparr>"
proof (intro conjI)
  note low = lower_tags_dimension [OF byTags_fields]
  show "expressionToDimensionInflaterHaving sampleCollaborators byTags tagsRef ''tags''
       (andOf isTagsAB countOver10)
     = Inr \<lparr>diVirtualColumn = None,
            diDimension = [(''type'', JStr ''listFiltered''),
                           (''delegate'', JObj tagsDimension),
                           (''values'', JArr [JStr ''a'', JStr ''b''])],
            diInflater = Some (SetStringInflater ''tags''),
            having = countOver10\<rparr>"
    using expressionToDimensionInflaterHaving_pushdown
      [OF low, of "andOf isTagsAB countOver10", THEN conjunct2]
    by (simp add: having_defs filteredDimension_def)
  show "expressionToDimensionInflaterHaving sampleCollaborators byTags tagsRef ''tags''
       (andOf matchTags countOver10)
     = Inr \<lparr>diVirtualColumn = None,
            diDimension = [(''type'', JStr ''regexFiltered''),
                           (''delegate'', JObj tagsDimension),
                           (''pattern'', JStr ''^a'')],
            diInflater = Some (SetStringInflater ''tags''),
            having = countOver10\<rparr>"
    using expressionToDimensionInflaterHaving_pushdown
      [OF low, of "andOf matchTags countOver10", THEN conjunct2]
    by (simp add: having_defs filteredDimension_def)
  have lowc: "expressionToDimensionInflater sampleCollaborators byTags countryRef ''country''
     = Inr \<lparr>diVirtualColumn = None,
            diDimension = [(''type'', JStr ''default''), (''dimension'', JStr ''country''),
                           (''outputName'', JStr ''country'')],
            diInflater = None\<rparr>"
    using byTags_fields by (simp add: lowering_defs sample_defs)
  show "expressionToDimensionInflaterHaving sampleCollaborators byTags countryRef ''country''
       (andOf matchTags countOver10)
     = Inr \<lparr>diVirtualColumn = None,
            diDimension = [(''type'', JStr ''default''), (''dimension'', JStr ''country''),
                           (''outputName'', JStr ''country'')],
            diInflater = None,
            having = andOf matchTags countOver10\<rparr>"
    using expressionToDimensionInflaterHaving_pushdown
      [OF lowc, of "andOf matchTags countOver10", THEN conjunct1]
    by (simp add: withHaving_def countryRef_def)
qed

theorem expressionToDimensionInflaterHaving_counterexample:
  "typeOf tagsRef = Some SET_STRING
   \<and> constrainingConjuncts ''tags'' (andOf (andOf matchTags isTagX) countOver10)
       = [matchTags, isTagX]
   \<and> expressionToDimensionInflaterHaving sampleCollaborators byTags tagsRef ''tags''
       (andOf (andOf matchTags isTagX) countOver10)
     = Inr \<lparr>diVirtualColumn = None, diDimension = tagsDimension,
            diInflater = Some (SetStringInflater ''tags''),
            having = andOf (andOf matchTags isTagX) countOver10\<rparr>
   \<and> inOnLabel ''tags'' inTagsAB
   \<and> expressionToDimensionInflaterHaving sampleCollaborators byTags tagsRef ''tags''
       (andOf inTagsAB countOver10)
     = Inr \<lparr>diVirtualColumn = None, diDimension = tagsDimension,
            diInflater = Some (SetStringInflater ''tags''),
            having = andOf inTagsAB countOver10\<rparr>"
  using lower_tags_dimension [OF byTags_fields]
  by (simp add: expressionToDimensionInflaterHaving_def extractFromAnd_def withHaving_def
      having_defs TRUE_def)

section \<open>Un-splitable attributes\<close>

text \<open>
  On the path of a single free reference (no \<^verbatim>\<open>then\<close>, no complex fallback) a
  reference to an un-splitable attribute is refused with the message of the spec.
\<close>

lemma expressionToDimensionInflater_unsplitable_single:
  assumes "getFreeReferences K ex = [r]"
    and "\<not> some (\<lambda>ex'. orNull (isOp ex' ''then'')) ex"
    and "\<not> isComplexFallback ex"
    and "getAttributesInfo K e r = Inr a"
    and "unsplitable a"
  shows "\<exists>pre post. expressionToDimensionInflater K e ex label =
           Inl (Error (pre @ ''references an un-splitable metric'' @ post))"
proof -
  have "expressionToDimensionInflater K e ex label = Inl (Error (unsplitableMessage K ex r))"
    using assms by (simp add: expressionToDimensionInflater_def Let_def)
  moreover have "unsplitableMessage K ex r =
      (''can not convert '' @ toString K ex @ '' to split because it '')
      @ ''references an un-splitable metric''
      @ ('' '' @ apostrophe @ r @ apostrophe @ '' which is most likely rolled up.'')"
    by (simp add: unsplitableMessage_def)
  ultimately show ?thesis by metis
qed

text \<open>
  With several free references the attribute table is never consulted: the result is
  that of \<^verbatim>\<open>makeExpression()\<close>, whatever the attributes are.
\<close>

lemma expressionToDimensionInflater_several_references:
  assumes "1 < length (getFreeReferences K ex)"
  shows "expressionToDimensionInflater K e ex label = makeExpression K e ex label"
  using assms by (auto simp: expressionToDimensionInflater_def Let_def)

text \<open>
  C7. The claim asks that every split-key expression referencing an un-splitable
  attribute be refused. The code refuses it on the single-reference path only. The sum
  of the rolled-up metric \<^verbatim>\<open>revenue\<close> and the dimension \<^verbatim>\<open>delta\<close> references the
  un-splitable \<^verbatim>\<open>revenue\<close>, and \<^verbatim>\<open>expressionToDimensionInflater\<close> emits a dimension
  for it, over a virtual column.
\<close>

theorem expressionToDimensionInflater_unsplitable_lowered:
  "getFreeReferences sampleCollaborators revenuePlusDelta = [''revenue'', ''delta'']
   \<and> getAttributesInfo sampleCollaborators byCountry ''revenue''
       = Inr \<lparr>attrName = ''revenue'', attrType = Some NUMBER, nativeType = Some ''DOUBLE'',
               unsplitable = True, maker = None, cardinality = None, attrRange = None\<rparr>
   \<and> expressionToDimensionInflater sampleCollaborators byCountry revenuePlusDelta ''total''
       = Inr \<lparr>diVirtualColumn =
                 Some (JObj [(''type'', JStr ''expression''), (''name'', JStr ''v:total''),
                             (''expression'', JStr ''add''), (''outputType'', JStr ''DOUBLE'')]),
               diDimension =
                 [(''type'', JStr ''default''), (''dimension'', JStr ''v:total''),
                  (''outputName'', JStr ''total''), (''outputType'', JStr ''DOUBLE'')],
               diInflater = None\<rparr>"
  by (simp add: revenuePlusDelta_def deltaRef_def byCountry_def lowering_defs sample_defs)

section \<open>The time-boundary specialisation\<close>

lemma getField_setField:
  "getField k (setField k' v q) = (if k = k' then Some v else getField k q)"
  by (induction q) auto

lemma isMinMaxTimeExpression_op:
  assumes "isMinMaxTimeExpression e ex"
  shows "opOf ex = ''min'' \<or> opOf ex = ''max''"
proof (cases ex)
  case (ChainableUnaryExpression u t os x y)
  with assms show ?thesis
    by (cases u) (simp_all add: isMinMaxTimeExpression_def)
qed (use assms in \<open>simp_all add: isMinMaxTimeExpression_def\<close>)

lemma getQueryAndPostTransform_unfold:
  "\<exists>plan. getQueryAndPostTransform K n e = planQuery plan K e"
  by (cases n) auto

lemma timeBoundary_query:
  assumes "mode e = Total" and "applies e = Some as"
  shows "\<exists>p. getTimeBoundaryQueryAndPostTransform e = Inr p
           \<and> getField ''queryType'' (query p) = Some (JStr ''timeBoundary'')
           \<and> (\<forall>a. as = [a] \<longrightarrow>
                 getField ''bound'' (query p) = Some (JStr (opOf (applyExpr a) @ ''Time'')))
           \<and> (1 < length as \<longrightarrow> getField ''bound'' (query p) = None)"
proof (cases as)
  case Nil
  with assms show ?thesis
    by (simp add: getTimeBoundaryQueryAndPostTransform_def getField_setField Let_def
        split: option.split)
next
  case (Cons a rest)
  show ?thesis
  proof (cases rest)
    case Nil
    with Cons assms show ?thesis
      by (simp add: getTimeBoundaryQueryAndPostTransform_def getField_setField Let_def
          split: option.split)
  next
    case (Cons b rest')
    with \<open>as = a # rest\<close> assms show ?thesis
      by (simp add: getTimeBoundaryQueryAndPostTransform_def getField_setField Let_def
          split: option.split)
  qed
qed

text \<open>
  C2. For an External in total mode with a non-empty list of applies, each the minimum
  or maximum of the time ref, and a query selection other than group-by-only,
  \<^verbatim>\<open>getQueryAndPostTransform\<close> returns (at every depth) a query of type
  \<^verbatim>\<open>timeBoundary\<close>. With exactly one apply, \<^verbatim>\<open>bound\<close> is the apply's \<^verbatim>\<open>op\<close> followed
  by \<^verbatim>\<open>'Time'\<close>, which is \<^verbatim>\<open>'minTime'\<close> or \<^verbatim>\<open>'maxTime'\<close>; with more than one apply
  the query has no \<^verbatim>\<open>bound\<close>.
\<close>

theorem getQueryAndPostTransform_timeBoundary:
  assumes "mode e = Total" and "applies e = Some as" and "as \<noteq> []"
    and "\<forall>a \<in> set as. isMinMaxTimeExpression e (applyExpr a)"
    and "querySelection e \<noteq> Some GroupByOnly"
  shows "\<exists>p. getQueryAndPostTransform K n e = Inr p
           \<and> getField ''queryType'' (query p) = Some (JStr ''timeBoundary'')
           \<and> (\<forall>a. as = [a] \<longrightarrow>
                 getField ''bound'' (query p) = Some (JStr (opOf (applyExpr a) @ ''Time''))
                 \<and> (opOf (applyExpr a) @ ''Time'' = ''minTime''
                      \<or> opOf (applyExpr a) @ ''Time'' = ''maxTime''))
           \<and> (1 < length as \<longrightarrow> getField ''bound'' (query p) = None)"
proof -
  from assms have tb: "timeBoundaryCase e"
    by (simp add: timeBoundaryCase_def list_all_iff)
  obtain plan where "getQueryAndPostTransform K n e = planQuery plan K e"
    using getQueryAndPostTransform_unfold by blast
  with tb have eq: "getQueryAndPostTransform K n e = getTimeBoundaryQueryAndPostTransform e"
    by (simp add: planQuery_def)
  from timeBoundary_query [OF assms(1,2)] obtain p where
    p: "getTimeBoundaryQueryAndPostTransform e = Inr p"
      "getField ''queryType'' (query p) = Some (JStr ''timeBoundary'')"
      "\<forall>a. as = [a] \<longrightarrow>
          getField ''bound'' (query p) = Some (JStr (opOf (applyExpr a) @ ''Time''))"
      "1 < length as \<longrightarrow> getField ''bound'' (query p) = None"
    by blast
  have ops: "opOf (applyExpr a) @ ''Time'' = ''minTime'' \<or> opOf (applyExpr a) @ ''Time'' = ''maxTime''"
    if "as = [a]" for a
  proof -
    from that assms(4) have "isMinMaxTimeExpression e (applyExpr a)" by simp
    from isMinMaxTimeExpression_op [OF this] show ?thesis by auto
  qed
  from eq p ops show ?thesis by auto
qed

theorem getQueryAndPostTransform_timeBoundary_witness:
  "(\<exists>p. getQueryAndPostTransform sampleCollaborators 0 (sampleTotalExternal [maxTime]) = Inr p
        \<and> getField ''queryType'' (query p) = Some (JStr ''timeBoundary'')
        \<and> getField ''bound'' (query p) = Some (JStr ''maxTime''))
   \<and> (\<exists>p. getQueryAndPostTransform sampleCollaborators 0 (sampleTotalExternal [minTime, maxTime])
             = Inr p
        \<and> getField ''queryType'' (query p) = Some (JStr ''timeBoundary'')
        \<and> getField ''bound'' (query p) = None)"
proof (intro conjI)
  show "\<exists>p. getQueryAndPostTransform sampleCollaborators 0 (sampleTotalExternal [maxTime]) = Inr p
        \<and> getField ''queryType'' (query p) = Some (JStr ''timeBoundary'')
        \<and> getField ''bound'' (query p) = Some (JStr ''maxTime'')"
    using getQueryAndPostTransform_timeBoundary
      [of "sampleTotalExternal [maxTime]" "[maxTime]" sampleCollaborators 0]
    by (simp add: sampleTotalExternal_def maxTime_def isMinMaxTimeExpression_def isTimeRef_def
        timeRef_def)
  show "\<exists>p. getQueryAndPostTransform sampleCollaborators 0 (sampleTotalExternal [minTime, maxTime])
             = Inr p
        \<and> getField ''queryType'' (query p) = Some (JStr ''timeBoundary'')
        \<and> getField ''bound'' (query p) = None"
    using getQueryAndPostTransform_timeBoundary
      [of "sampleTotalExternal [minTime, maxTime]" "[minTime, maxTime]" sampleCollaborators 0]
    by (simp add: sampleTotalExternal_def maxTime_def minTime_def isMinMaxTimeExpression_def
        isTimeRef_def timeRef_def)
qed

section \<open>Re-split aggregates must share their split\<close>

lemma walkOutcome_append:
  "walkOutcome g (xs @ ys) =
     (case walkOutcome g xs of Inl err \<Rightarrow> Inl err | Inr g' \<Rightarrow> walkOutcome g' ys)"
  by (induction xs arbitrary: g) (auto split: sum.splits)

lemma walkOutcome_single:
  "walkOutcome g [a] = aggregateOutcome g a"
  by (simp split: sum.splits)

lemma splitUpAggregate_not_aggregate:
  "\<not> isAggregate ex \<Longrightarrow> splitUpAggregate K i ex st = Inr (None, st)"
  by (simp add: splitUpAggregate_def)

lemma resplitAggregate_outcome:
  assumes "parseResplitAgg ex = Some resplit"
  shows "case resplitAggregate K i resplit st of
           Inl err \<Rightarrow> aggregateOutcome (globalResplitSplit st) ex = Inl err
         | Inr (sub, st') \<Rightarrow>
             sub \<noteq> None \<and> aggregateOutcome (globalResplitSplit st) ex = Inr (globalResplitSplit st')"
  using assms
  by (cases "globalResplitSplit st")
    (auto simp: resplitAggregate_def aggregateOutcome_def Let_def split: option.splits)

lemma plainAggregate_outcome:
  assumes "parseResplitAgg ex = None"
  shows "case plainAggregate i ex st of
           Inl err \<Rightarrow> aggregateOutcome (globalResplitSplit st) ex = Inl err
         | Inr (sub, st') \<Rightarrow>
             sub \<noteq> None \<and> aggregateOutcome (globalResplitSplit st) ex = Inr (globalResplitSplit st')"
  using assms
  by (auto simp: plainAggregate_def aggregateOutcome_def plainError_def Let_def
      split: expression.splits chainableOp.splits)

lemma splitUpAggregate_outcome:
  assumes "isAggregate ex"
  shows "case splitUpAggregate K i ex st of
           Inl err \<Rightarrow> aggregateOutcome (globalResplitSplit st) ex = Inl err
         | Inr (sub, st') \<Rightarrow>
             sub \<noteq> None \<and> aggregateOutcome (globalResplitSplit st) ex = Inr (globalResplitSplit st')"
proof (cases "parseResplitAgg ex")
  case None
  with assms plainAggregate_outcome [OF None, where i = i and st = st] show ?thesis
    by (simp add: splitUpAggregate_def)
next
  case (Some resplit)
  with assms resplitAggregate_outcome [OF Some, where K = K and i = i and st = st] show ?thesis
    by (simp add: splitUpAggregate_def)
qed

lemma walkResult_simps:
  "walkResult (Inl err) = Inl err"
  "walkResult (Inr (x, st)) = Inr (globalResplitSplit st)"
  by (simp_all add: walkResult_def)

lemma aggregate_walkResult:
  assumes "isAggregate ex"
  shows "walkResult (substituteM (splitUpAggregate K i) ex st)
           = aggregateOutcome (globalResplitSplit st) ex"
proof -
  note step = splitUpAggregate_outcome [OF assms, where K = K and i = i and st = st]
  show ?thesis
  proof (cases "splitUpAggregate K i ex st")
    case (Inl err)
    with step have "aggregateOutcome (globalResplitSplit st) ex = Inl err" by simp
    moreover from Inl have "substituteM (splitUpAggregate K i) ex st = Inl err"
      by (cases ex) simp_all
    ultimately show ?thesis by (simp add: walkResult_simps)
  next
    case (Inr res)
    obtain sub st' where res: "res = (sub, st')" by (cases res) auto
    with Inr step obtain sub' where sub: "sub = Some sub'"
      and out: "aggregateOutcome (globalResplitSplit st) ex = Inr (globalResplitSplit st')"
      by auto
    from Inr res sub have "substituteM (splitUpAggregate K i) ex st = Inr (sub', st')"
      by (cases ex) simp_all
    with out show ?thesis by (simp add: walkResult_simps)
  qed
qed

lemma walkResult_operand:
  assumes "substituteM f x st = Inl err"
  shows "walkResult (case substituteM f x st of Inl e \<Rightarrow> Inl e | Inr (x', s') \<Rightarrow> g x' s') = Inl err"
  using assms by (simp add: walkResult_simps)

lemma substituteM_outcome:
  "walkOutcome (globalResplitSplit st) (outermostAggregates ex)
     = walkResult (substituteM (splitUpAggregate K i) ex st)"
  "walkOutcome (globalResplitSplit st) (outermostAggregatesSplits ss)
     = walkResult (substituteSplitsM (splitUpAggregate K i) ss st)"
proof (induction ex and ss arbitrary: st and st
    rule: outermostAggregates_outermostAggregatesSplits.induct)
  case (1 n k t i' os)
  show ?case by (simp add: splitUpAggregate_not_aggregate walkResult_simps)
next
  case (2 v t os)
  show ?case by (simp add: splitUpAggregate_not_aggregate walkResult_simps)
next
  case (3 c t os x)
  show ?case
  proof (cases "isAggregateChainable c")
    case True
    then have agg: "isAggregate (ChainableExpression c t os x)" by simp
    from True have l: "outermostAggregates (ChainableExpression c t os x)
        = [ChainableExpression c t os x]" by simp
    show ?thesis unfolding l walkOutcome_single
      by (rule aggregate_walkResult [OF agg, symmetric])
  next
    case False
    then have f: "splitUpAggregate K i (ChainableExpression c t os x) st = Inr (None, st)"
      by (simp add: splitUpAggregate_not_aggregate)
    from 3 [OF False] have ih: "walkOutcome (globalResplitSplit st) (outermostAggregates x)
       = walkResult (substituteM (splitUpAggregate K i) x st)" .
    show ?thesis
    proof (cases "substituteM (splitUpAggregate K i) x st")
      case (Inl err)
      with ih False show ?thesis by (simp add: f walkResult_simps)
    next
      case (Inr res)
      obtain x' st' where "res = (x', st')" by (cases res) auto
      with Inr ih False show ?thesis by (simp add: f walkResult_simps)
    qed
  qed
next
  case (4 u t os x y)
  show ?case
  proof (cases "isAggregateUnary u")
    case True
    then have agg: "isAggregate (ChainableUnaryExpression u t os x y)" by simp
    from True have l: "outermostAggregates (ChainableUnaryExpression u t os x y)
        = [ChainableUnaryExpression u t os x y]" by simp
    show ?thesis unfolding l walkOutcome_single
      by (rule aggregate_walkResult [OF agg, symmetric])
  next
    case False
    then have f: "splitUpAggregate K i (ChainableUnaryExpression u t os x y) st = Inr (None, st)"
      by (simp add: splitUpAggregate_not_aggregate)
    note ihx = 4(1) [OF False, of st]
    show ?thesis
    proof (cases "substituteM (splitUpAggregate K i) x st")
      case (Inl err)
      with ihx False show ?thesis by (simp add: f walkResult_simps walkOutcome_append)
    next
      case (Inr res)
      obtain x' st' where res: "res = (x', st')" by (cases res) auto
      note ihy = 4(2) [OF False, of st']
      show ?thesis
      proof (cases "substituteM (splitUpAggregate K i) y st'")
        case (Inl err)
        with Inr res ihx ihy False show ?thesis
          by (simp add: f walkResult_simps walkOutcome_append)
      next
        case r2: (Inr res2)
        obtain y' st'' where "res2 = (y', st'')" by (cases res2) auto
        with r2 Inr res ihx ihy False show ?thesis
          by (simp add: f walkResult_simps walkOutcome_append)
      qed
    qed
  qed
next
  case (5 t os x ss d)
  have f: "splitUpAggregate K i (SplitExpression t os x ss d) st = Inr (None, st)"
    by (simp add: splitUpAggregate_not_aggregate)
  note ihx = 5(1) [of st]
  show ?case
  proof (cases "substituteM (splitUpAggregate K i) x st")
    case (Inl err)
    with ihx show ?thesis by (simp add: f walkResult_simps walkOutcome_append)
  next
    case (Inr res)
    obtain x' st' where res: "res = (x', st')" by (cases res) auto
    note ihs = 5(2) [of st']
    show ?thesis
    proof (cases "substituteSplitsM (splitUpAggregate K i) ss st'")
      case (Inl err)
      with Inr res ihx ihs show ?thesis
        by (simp add: f walkResult_simps walkOutcome_append)
    next
      case r2: (Inr res2)
      obtain ss' st'' where "res2 = (ss', st'')" by (cases res2) auto
      with r2 Inr res ihx ihs show ?thesis
        by (simp add: f walkResult_simps walkOutcome_append)
    qed
  qed
next
  case 6
  show ?case by (simp add: walkResult_simps)
next
  case (7 k ex rest)
  note ihx = 7(1) [of st]
  show ?case
  proof (cases "substituteM (splitUpAggregate K i) ex st")
    case (Inl err)
    with ihx show ?thesis by (simp add: walkResult_simps walkOutcome_append)
  next
    case (Inr res)
    obtain x' st' where res: "res = (x', st')" by (cases res) auto
    note ihs = 7(2) [of st']
    show ?thesis
    proof (cases "substituteSplitsM (splitUpAggregate K i) rest st'")
      case (Inl err)
      with Inr res ihx ihs show ?thesis
        by (simp add: walkResult_simps walkOutcome_append)
    next
      case r2: (Inr res2)
      obtain ss' st'' where "res2 = (ss', st'')" by (cases res2) auto
      with r2 Inr res ihx ihs show ?thesis
        by (simp add: walkResult_simps walkOutcome_append)
    qed
  qed
qed

lemma splitUpApplies_outcome:
  "walkOutcome (globalResplitSplit st) (walkedAggregates eas)
     = walkResult (splitUpApplies K i eas st)"
proof (induction eas arbitrary: i st)
  case Nil
  show ?case by (simp add: walkedAggregates_def walkResult_simps)
next
  case (Cons a rest)
  have w: "walkedAggregates (a # rest) = outermostAggregates (applyExpr a) @ walkedAggregates rest"
    by (simp add: walkedAggregates_def)
  have one: "walkOutcome (globalResplitSplit st) (outermostAggregates (applyExpr a))
      = walkResult (substituteM (splitUpAggregate K i) (applyExpr a) (st\<lparr>counter := 0\<rparr>))"
    using substituteM_outcome(1) [of "st\<lparr>counter := 0\<rparr>" "applyExpr a" K i] by simp
  show ?case
  proof (cases "substituteM (splitUpAggregate K i) (applyExpr a) (st\<lparr>counter := 0\<rparr>)")
    case (Inl err)
    with one show ?thesis by (simp add: w walkOutcome_append walkResult_simps)
  next
    case (Inr res)
    obtain x' st' where res: "res = (x', st')" by (cases res) auto
    note ih = Cons.IH [of st' "Suc i"]
    show ?thesis
    proof (cases "splitUpApplies K (Suc i) rest st'")
      case (Inl err)
      with Inr res one ih show ?thesis by (simp add: w walkOutcome_append walkResult_simps)
    next
      case r2: (Inr res2)
      obtain as' st'' where "res2 = (as', st'')" by (cases res2) auto
      with r2 Inr res one ih show ?thesis by (simp add: w walkOutcome_append walkResult_simps)
    qed
  qed
qed

text \<open>A re-split aggregate holds a split, so the early exit is not taken when the walk
  would meet one.\<close>

lemma parseResplitAgg_has_split:
  assumes "parseResplitAgg a = Some resplit"
  shows "some (\<lambda>ex. orNull (isSplitExpression ex)) a"
proof -
  from assms obtain nm ta osa sp applied where
    op: "operandOf a = Some (ChainableUnaryExpression (OpApply nm) ta osa sp applied)"
    and "isSplitExpression sp"
    by (auto simp: parseResplitAgg_def split: if_splits option.splits expression.splits
        chainableUnaryOp.splits)
  then have "some (\<lambda>ex. orNull (isSplitExpression ex))
               (ChainableUnaryExpression (OpApply nm) ta osa sp applied)"
    by (cases sp) (simp_all add: orNull_def)
  with op show ?thesis
    by (cases a) (simp_all add: orNull_def)
qed

lemma some_split_outermost:
  "a \<in> set (outermostAggregates ex) \<Longrightarrow> some (\<lambda>e. orNull (isSplitExpression e)) a
     \<Longrightarrow> some (\<lambda>e. orNull (isSplitExpression e)) ex"
  "a \<in> set (outermostAggregatesSplits ss) \<Longrightarrow> some (\<lambda>e. orNull (isSplitExpression e)) a
     \<Longrightarrow> someSplits (\<lambda>e. orNull (isSplitExpression e)) ss"
proof (induction ex and ss rule: outermostAggregates_outermostAggregatesSplits.induct)
  case (3 c t os x)
  then show ?case by (cases "isAggregateChainable c") (auto simp: orNull_def)
next
  case (4 u t os x y)
  then show ?case by (cases "isAggregateUnary u") (auto simp: orNull_def)
next
  case (5 t os x ss d)
  then show ?case by (auto simp: orNull_def)
next
  case (7 k ex rest)
  then show ?case by auto
qed simp_all

lemma resplitSplitsMet_Cons:
  "resplitSplitsMet (a # rest) =
     (case parseResplitAgg a of
        Some resplit \<Rightarrow> resplitSplit resplit # resplitSplitsMet rest
      | None \<Rightarrow> resplitSplitsMet rest)"
  by (simp add: resplitSplitsMet_def split: option.splits)

lemma resplitSplitsMet_iff:
  "s \<in> set (resplitSplitsMet as)
     \<longleftrightarrow> (\<exists>a \<in> set as. \<exists>resplit. parseResplitAgg a = Some resplit \<and> resplitSplit resplit = s)"
proof (induction as)
  case Nil
  show ?case by (simp add: resplitSplitsMet_def)
next
  case (Cons a rest)
  then show ?case by (cases "parseResplitAgg a") (auto simp: resplitSplitsMet_Cons)
qed

lemma resplit_met_has_split:
  assumes "s \<in> set (resplitSplitsMet (walkedAggregates eas))"
  shows "list_ex (\<lambda>a. some (\<lambda>ex. orNull (isSplitExpression ex)) (applyExpr a)) eas"
proof -
  from assms obtain a resplit where "a \<in> set (walkedAggregates eas)"
    and p: "parseResplitAgg a = Some resplit"
    by (auto simp: resplitSplitsMet_iff)
  then obtain ap where ap: "ap \<in> set eas" and "a \<in> set (outermostAggregates (applyExpr ap))"
    by (auto simp: walkedAggregates_def)
  with parseResplitAgg_has_split [OF p]
  have "some (\<lambda>ex. orNull (isSplitExpression ex)) (applyExpr ap)"
    by (auto intro: some_split_outermost(1))
  with ap show ?thesis by (auto simp: list_ex_iff)
qed

text \<open>The outcome of a walk, from the inner splits it meets.\<close>

lemma walkOutcome_other_split:
  assumes "\<exists>s \<in> set (resplitSplitsMet as). s \<noteq> g"
  shows "\<exists>err. walkOutcome (Some g) as = Inl err"
  using assms
proof (induction as)
  case Nil
  then show ?case by (simp add: resplitSplitsMet_def)
next
  case (Cons a rest)
  show ?case
  proof (cases "aggregateOutcome (Some g) a")
    case (Inl err)
    then show ?thesis by simp
  next
    case (Inr g')
    then have g': "g' = Some g"
      by (auto simp: aggregateOutcome_def split: option.splits if_splits)
    from Inr have "\<forall>resplit. parseResplitAgg a = Some resplit \<longrightarrow> resplitSplit resplit = g"
      by (auto simp: aggregateOutcome_def split: option.splits if_splits)
    with Cons.prems have "\<exists>s \<in> set (resplitSplitsMet rest). s \<noteq> g"
      by (auto simp: resplitSplitsMet_Cons split: option.splits)
    from Cons.IH [OF this] Inr g' show ?thesis by simp
  qed
qed

lemma walkOutcome_disagree:
  assumes "\<exists>s \<in> set (resplitSplitsMet as). \<exists>s' \<in> set (resplitSplitsMet as). s \<noteq> s'"
  shows "\<exists>err. walkOutcome None as = Inl err"
  using assms
proof (induction as)
  case Nil
  then show ?case by (simp add: resplitSplitsMet_def)
next
  case (Cons a rest)
  show ?case
  proof (cases "parseResplitAgg a")
    case None
    show ?thesis
    proof (cases "plainError a")
      case n: None
      from Cons.prems None have "\<exists>s \<in> set (resplitSplitsMet rest).
          \<exists>s' \<in> set (resplitSplitsMet rest). s \<noteq> s'"
        by (simp add: resplitSplitsMet_Cons)
      from Cons.IH [OF this] None n show ?thesis by (simp add: aggregateOutcome_def)
    next
      case (Some err)
      with None show ?thesis by (simp add: aggregateOutcome_def)
    qed
  next
    case (Some resplit)
    from Cons.prems Some have "\<exists>s \<in> set (resplitSplitsMet rest). s \<noteq> resplitSplit resplit"
      by (simp add: resplitSplitsMet_Cons) metis
    from walkOutcome_other_split [OF this] Some show ?thesis
      by (simp add: aggregateOutcome_def)
  qed
qed

lemma plainError_not_sameSplit: "plainError a \<noteq> Some (Error sameSplitMessage)"
  by (auto simp: plainError_def sameSplitMessage_def customAggregateMessage_def
      split: expression.splits chainableOp.splits)

lemma walkOutcome_sameSplit_Some:
  assumes "\<forall>s \<in> set (resplitSplitsMet as). s = g"
  shows "walkOutcome (Some g) as \<noteq> Inl (Error sameSplitMessage)"
  using assms
proof (induction as)
  case Nil
  show ?case by simp
next
  case (Cons a rest)
  show ?case
  proof (cases "parseResplitAgg a")
    case None
    with Cons.prems have "\<forall>s \<in> set (resplitSplitsMet rest). s = g"
      by (simp add: resplitSplitsMet_Cons)
    from Cons.IH [OF this] None plainError_not_sameSplit [of a] show ?thesis
      by (auto simp: aggregateOutcome_def split: option.splits)
  next
    case (Some resplit)
    with Cons.prems have eq: "resplitSplit resplit = g"
      and "\<forall>s \<in> set (resplitSplitsMet rest). s = g"
      by (simp_all add: resplitSplitsMet_Cons)
    from Cons.IH [OF this(2)] Some eq show ?thesis
      by (simp add: aggregateOutcome_def)
  qed
qed

lemma walkOutcome_sameSplit_None:
  assumes "\<forall>s \<in> set (resplitSplitsMet as). \<forall>s' \<in> set (resplitSplitsMet as). s = s'"
  shows "walkOutcome None as \<noteq> Inl (Error sameSplitMessage)"
  using assms
proof (induction as)
  case Nil
  show ?case by simp
next
  case (Cons a rest)
  show ?case
  proof (cases "parseResplitAgg a")
    case None
    with Cons.prems have "\<forall>s \<in> set (resplitSplitsMet rest).
        \<forall>s' \<in> set (resplitSplitsMet rest). s = s'"
      by (simp add: resplitSplitsMet_Cons)
    from Cons.IH [OF this] None plainError_not_sameSplit [of a] show ?thesis
      by (auto simp: aggregateOutcome_def split: option.splits)
  next
    case (Some resplit)
    with Cons.prems have "\<forall>s \<in> set (resplitSplitsMet rest). s = resplitSplit resplit"
      by (auto simp: resplitSplitsMet_Cons)
    from walkOutcome_sameSplit_Some [OF this] Some show ?thesis
      by (simp add: aggregateOutcome_def)
  qed
qed

lemma walkOutcome_only_sameSplit_Some:
  assumes "\<forall>a \<in> set as. parseResplitAgg a = None \<longrightarrow> plainError a = None"
    and "walkOutcome (Some g) as = Inl err"
  shows "err = Error sameSplitMessage"
  using assms
proof (induction as)
  case Nil
  then show ?case by simp
next
  case (Cons a rest)
  then show ?case
    by (cases "parseResplitAgg a")
      (auto simp: aggregateOutcome_def split: if_splits)
qed

lemma walkOutcome_only_sameSplit:
  assumes "\<forall>a \<in> set as. parseResplitAgg a = None \<longrightarrow> plainError a = None"
    and "walkOutcome None as = Inl err"
  shows "err = Error sameSplitMessage"
  using assms
proof (induction as)
  case Nil
  then show ?case by simp
next
  case (Cons a rest)
  show ?case
  proof (cases "parseResplitAgg a")
    case None
    with Cons show ?thesis by (auto simp: aggregateOutcome_def)
  next
    case (Some resplit)
    with Cons.prems have "walkOutcome (Some (resplitSplit resplit)) rest = Inl err"
      by (simp add: aggregateOutcome_def)
    with Cons.prems(1) show ?thesis
      by (intro walkOutcome_only_sameSplit_Some [of rest]) auto
  qed
qed

text \<open>When the planner gets to call \<^verbatim>\<open>nestedGroupByIfNeeded\<close>, an error of that
  call is the planner's error: the query is not a time-boundary query, the filter was
  lowered, and the mode is not raw.\<close>

lemma planQuery_nested_error:
  assumes "\<not> timeBoundaryCase e" and "mode e \<noteq> Raw"
    and "filterToDruid K e (getQueryFilter K e) = Inr f"
    and "nestedGroupByIfNeeded plan K e = Inl err"
  shows "planQuery plan K e = Inl err"
  using assms by (cases "mode e"; cases f) (simp_all add: planQuery_def Let_def)

lemma getQueryAndPostTransform_nested_error:
  assumes "\<not> timeBoundaryCase e" and "mode e \<noteq> Raw"
    and "filterToDruid K e (getQueryFilter K e) = Inr f"
    and "\<And>plan. nestedGroupByIfNeeded plan K e = Inl err"
  shows "getQueryAndPostTransform K n e = Inl err"
  using assms by (cases n) (simp_all add: planQuery_nested_error)

text \<open>
  C3, as amended. Take the re-split aggregates that the walk of
  \<^verbatim>\<open>nestedGroupByIfNeeded\<close> meets: the outermost aggregates of the applies'
  expressions that \<^verbatim>\<open>parseResplitAgg\<close> recognises. If two of them have unequal inner
  splits, \<^verbatim>\<open>nestedGroupByIfNeeded\<close> throws, whatever planner it calls; the error is
  "all resplit aggregators must have the same split" when every other aggregate the walk
  meets is a count or a chainable-unary aggregate (a custom aggregate met first is refused
  with its own message); and \<^verbatim>\<open>getQueryAndPostTransform\<close> throws that same error, at
  every depth, when it gets to call \<^verbatim>\<open>nestedGroupByIfNeeded\<close>: the query is not a
  time-boundary query, the mode is not raw, and the filter was lowered. If all of them
  share one inner split and \<^verbatim>\<open>nestedGroupByIfNeeded\<close> throws that error all the same,
  then the walk succeeded and met a re-split, and the error came out of the planner's
  call on the inner External or of its call on the outer External.
\<close>

theorem nestedGroupByIfNeeded_same_split:
  assumes eas: "effectiveApplies e = Inr eas"
  shows
    "((\<exists>s \<in> set (resplitSplitsMet (walkedAggregates eas)).
        \<exists>s' \<in> set (resplitSplitsMet (walkedAggregates eas)). s \<noteq> s') \<longrightarrow>
        (\<exists>err. nestedGroupByIfNeeded plan K e = Inl err
           \<and> ((\<forall>a \<in> set (walkedAggregates eas).
                  parseResplitAgg a = None \<longrightarrow> plainError a = None) \<longrightarrow>
                err = Error sameSplitMessage)
           \<and> (\<not> timeBoundaryCase e \<and> mode e \<noteq> Raw
                \<and> (\<exists>f. filterToDruid K e (getQueryFilter K e) = Inr f) \<longrightarrow>
                getQueryAndPostTransform K n e = Inl err)))
     \<and> ((\<forall>s \<in> set (resplitSplitsMet (walkedAggregates eas)).
           \<forall>s' \<in> set (resplitSplitsMet (walkedAggregates eas)). s = s')
          \<and> nestedGroupByIfNeeded plan K e = Inl (Error sameSplitMessage) \<longrightarrow>
          (\<exists>outerApplies st g.
             splitUpApplies K 0 eas initialResplitState = Inr (outerApplies, st)
             \<and> globalResplitSplit st = Some g
             \<and> (plan (innerValue K e (innerApplies st)
                        (mergeSplits K (split e) g (outerAttributes st)))
                  = Inl (Error sameSplitMessage)
                \<or> plan (outerValue K e outerApplies
                          (mergeSplits K (split e) g (outerAttributes st)))
                    = Inl (Error sameSplitMessage))))"
proof (intro conjI impI)
  have walk: "walkOutcome None (walkedAggregates eas)
      = walkResult (splitUpApplies K 0 eas initialResplitState)"
    using splitUpApplies_outcome [of initialResplitState eas K 0]
    by (simp add: initialResplitState_def)
  {
    assume dis: "\<exists>s \<in> set (resplitSplitsMet (walkedAggregates eas)).
        \<exists>s' \<in> set (resplitSplitsMet (walkedAggregates eas)). s \<noteq> s'"
    from walkOutcome_disagree [OF dis] obtain err where
      err: "walkOutcome None (walkedAggregates eas) = Inl err" by blast
    with walk have up: "splitUpApplies K 0 eas initialResplitState = Inl err"
      by (cases "splitUpApplies K 0 eas initialResplitState")
        (auto simp: walkResult_def)
    from dis have "list_ex (\<lambda>a. some (\<lambda>ex. orNull (isSplitExpression ex)) (applyExpr a)) eas"
      by (blast intro: resplit_met_has_split)
    with eas up have res: "\<And>plan. nestedGroupByIfNeeded plan K e = Inl err"
      by (simp add: nestedGroupByIfNeeded_def)
    have msg: "(\<forall>a \<in> set (walkedAggregates eas).
        parseResplitAgg a = None \<longrightarrow> plainError a = None) \<longrightarrow> err = Error sameSplitMessage"
      using walkOutcome_only_sameSplit [OF _ err] by blast
    have reach: "\<not> timeBoundaryCase e \<and> mode e \<noteq> Raw
        \<and> (\<exists>f. filterToDruid K e (getQueryFilter K e) = Inr f) \<longrightarrow>
        getQueryAndPostTransform K n e = Inl err"
      using getQueryAndPostTransform_nested_error [of e K _ err n] res by blast
    from res [of plan] msg reach
    show "\<exists>err. nestedGroupByIfNeeded plan K e = Inl err
           \<and> ((\<forall>a \<in> set (walkedAggregates eas).
                  parseResplitAgg a = None \<longrightarrow> plainError a = None) \<longrightarrow>
                err = Error sameSplitMessage)
           \<and> (\<not> timeBoundaryCase e \<and> mode e \<noteq> Raw
                \<and> (\<exists>f. filterToDruid K e (getQueryFilter K e) = Inr f) \<longrightarrow>
                getQueryAndPostTransform K n e = Inl err)"
      by (intro exI [of _ err] conjI)
  }
  assume a: "(\<forall>s \<in> set (resplitSplitsMet (walkedAggregates eas)).
           \<forall>s' \<in> set (resplitSplitsMet (walkedAggregates eas)). s = s')
          \<and> nestedGroupByIfNeeded plan K e = Inl (Error sameSplitMessage)"
  then have "walkOutcome None (walkedAggregates eas) \<noteq> Inl (Error sameSplitMessage)"
    by (intro walkOutcome_sameSplit_None) blast
  with walk have up: "splitUpApplies K 0 eas initialResplitState \<noteq> Inl (Error sameSplitMessage)"
    by (auto simp: walkResult_def)
  from a have thrown: "nestedGroupByIfNeeded plan K e = Inl (Error sameSplitMessage)" by blast
  show "\<exists>outerApplies st g.
             splitUpApplies K 0 eas initialResplitState = Inr (outerApplies, st)
             \<and> globalResplitSplit st = Some g
             \<and> (plan (innerValue K e (innerApplies st)
                        (mergeSplits K (split e) g (outerAttributes st)))
                  = Inl (Error sameSplitMessage)
                \<or> plan (outerValue K e outerApplies
                          (mergeSplits K (split e) g (outerAttributes st)))
                    = Inl (Error sameSplitMessage))"
  proof (cases "splitUpApplies K 0 eas initialResplitState")
    case (Inl err)
    with up eas thrown show ?thesis
      by (auto simp: nestedGroupByIfNeeded_def split: if_splits)
  next
    case (Inr res)
    obtain outerApplies st where res: "res = (outerApplies, st)" by (cases res) auto
    note run = Inr [unfolded res]
    show ?thesis
    proof (cases "globalResplitSplit st")
      case None
      with run eas thrown show ?thesis
        by (simp add: nestedGroupByIfNeeded_def split: if_splits)
    next
      case (Some g)
      let ?m = "mergeSplits K (split e) g (outerAttributes st)"
      show ?thesis
      proof (cases "plan (innerValue K e (innerApplies st) ?m)")
        case i: (Inl err)
        with Some run eas thrown have "err = Error sameSplitMessage"
          by (simp add: nestedGroupByIfNeeded_def Let_def split: if_splits)
        with i Some run show ?thesis by blast
      next
        case i: (Inr innerPlan)
        show ?thesis
        proof (cases "plan (outerValue K e outerApplies ?m)")
          case (Inl err)
          with i Some run eas thrown have "err = Error sameSplitMessage"
            by (simp add: nestedGroupByIfNeeded_def Let_def split: if_splits)
          with Inl Some run show ?thesis by blast
        next
          case o: (Inr outerPlan)
          with i Some run eas thrown show ?thesis
            by (simp add: nestedGroupByIfNeeded_def Let_def split: if_splits)
        qed
      qed
    qed
  qed
qed

lemmas resplit_defs = walkedAggregates_def resplitSplitsMet_def parseResplitAgg_def
  maxByCountry_def maxByTags_def customApply_def resplitMax_def mainRef_def countOf_def
  ref_def countryRef_def tagsRef_def ExpressionUnderscore_def Let_def

lemma met_disagreeing:
  "resplitSplitsMet (walkedAggregates [maxByCountry, maxByTags]) =
     [\<lparr>splits = [(''country'', countryRef)], dataName = Some ''data''\<rparr>,
      \<lparr>splits = [(''tags'', tagsRef)], dataName = Some ''data''\<rparr>]"
  by (simp add: resplit_defs)

lemma met_deep:
  "resplitSplitsMet (walkedAggregates [deepResplit]) =
     [\<lparr>splits = [(''country'', countryRef)], dataName = Some ''data''\<rparr>]"
  by (simp add: resplit_defs deepResplit_def addOf_def)

text \<open>The planner itself, on the total of two maxima over disagreeing splits, throws; on
  the total of a maximum whose inner apply holds two such maxima, the walk finds one
  re-split and the planning of the inner query throws; on the total of two maxima over
  the same split it returns a plan.\<close>

theorem nestedGroupByIfNeeded_same_split_witness:
  "nestedGroupByIfNeeded (getQueryAndPostTransform sampleCollaborators 0) sampleCollaborators
       (sampleTotalExternal [maxByCountry, maxByTags])
     = Inl (Error sameSplitMessage)
   \<and> getQueryAndPostTransform sampleCollaborators 1
       (sampleTotalExternal [maxByCountry, maxByTags])
     = Inl (Error sameSplitMessage)
   \<and> nestedGroupByIfNeeded (getQueryAndPostTransform sampleCollaborators 0) sampleCollaborators
       (sampleTotalExternal [deepResplit])
     = Inl (Error sameSplitMessage)
   \<and> (\<exists>outerApplies st g.
         splitUpApplies sampleCollaborators 0 [deepResplit] initialResplitState
           = Inr (outerApplies, st)
         \<and> globalResplitSplit st = Some g
         \<and> getQueryAndPostTransform sampleCollaborators 0
             (innerValue sampleCollaborators (sampleTotalExternal [deepResplit])
                (innerApplies st)
                (mergeSplits sampleCollaborators (split (sampleTotalExternal [deepResplit])) g
                   (outerAttributes st)))
           = Inl (Error sameSplitMessage))
   \<and> \<not> isl (nestedGroupByIfNeeded (getQueryAndPostTransform sampleCollaborators 0)
              sampleCollaborators (sampleTotalExternal [maxByCountry, maxByCountry]))"
proof (intro conjI)
  let ?e = "sampleTotalExternal [maxByCountry, maxByTags]"
  have e1: "effectiveApplies ?e = Inr [maxByCountry, maxByTags]"
    by (simp add: effectiveApplies_def sampleTotalExternal_def)
  have ok: "\<forall>a \<in> set (walkedAggregates [maxByCountry, maxByTags]).
      parseResplitAgg a = None \<longrightarrow> plainError a = None"
    by (simp add: resplit_defs)
  have dis: "\<exists>s \<in> set (resplitSplitsMet (walkedAggregates [maxByCountry, maxByTags])).
      \<exists>s' \<in> set (resplitSplitsMet (walkedAggregates [maxByCountry, maxByTags])). s \<noteq> s'"
    by (auto simp: met_disagreeing countryRef_def tagsRef_def)
  have tb: "\<not> timeBoundaryCase ?e" by code_simp
  have md: "mode ?e \<noteq> Raw" by (simp add: sampleTotalExternal_def)
  have fl: "\<not> isl (filterToDruid sampleCollaborators ?e (getQueryFilter sampleCollaborators ?e))"
    by code_simp
  then have fl': "\<exists>f. filterToDruid sampleCollaborators ?e
      (getQueryFilter sampleCollaborators ?e) = Inr f"
    by (cases "filterToDruid sampleCollaborators ?e (getQueryFilter sampleCollaborators ?e)")
      simp_all
  from nestedGroupByIfNeeded_same_split [OF e1,
      of "getQueryAndPostTransform sampleCollaborators 0" sampleCollaborators 1,
      THEN conjunct1, THEN mp, OF dis] ok tb md fl'
  show "nestedGroupByIfNeeded (getQueryAndPostTransform sampleCollaborators 0)
       sampleCollaborators ?e = Inl (Error sameSplitMessage)"
    and "getQueryAndPostTransform sampleCollaborators 1 ?e = Inl (Error sameSplitMessage)"
    by auto
  let ?d = "sampleTotalExternal [deepResplit]"
  have e2: "effectiveApplies ?d = Inr [deepResplit]"
    by (simp add: effectiveApplies_def sampleTotalExternal_def)
  show thrown: "nestedGroupByIfNeeded (getQueryAndPostTransform sampleCollaborators 0)
      sampleCollaborators ?d = Inl (Error sameSplitMessage)"
    by code_simp
  have agree: "\<forall>s \<in> set (resplitSplitsMet (walkedAggregates [deepResplit])).
      \<forall>s' \<in> set (resplitSplitsMet (walkedAggregates [deepResplit])). s = s'"
    by (simp add: met_deep)
  from nestedGroupByIfNeeded_same_split [OF e2,
      of "getQueryAndPostTransform sampleCollaborators 0" sampleCollaborators 0,
      THEN conjunct2, THEN mp, OF conjI, OF agree thrown]
  obtain outerApplies st g where
    run: "splitUpApplies sampleCollaborators 0 [deepResplit] initialResplitState
            = Inr (outerApplies, st)"
    and g: "globalResplitSplit st = Some g"
    and either: "getQueryAndPostTransform sampleCollaborators 0
             (innerValue sampleCollaborators ?d (innerApplies st)
                (mergeSplits sampleCollaborators (split ?d) g (outerAttributes st)))
           = Inl (Error sameSplitMessage)
         \<or> getQueryAndPostTransform sampleCollaborators 0
             (outerValue sampleCollaborators ?d outerApplies
                (mergeSplits sampleCollaborators (split ?d) g (outerAttributes st)))
           = Inl (Error sameSplitMessage)"
    by blast
  show "\<exists>outerApplies st g.
         splitUpApplies sampleCollaborators 0 [deepResplit] initialResplitState
           = Inr (outerApplies, st)
         \<and> globalResplitSplit st = Some g
         \<and> getQueryAndPostTransform sampleCollaborators 0
             (innerValue sampleCollaborators ?d (innerApplies st)
                (mergeSplits sampleCollaborators (split ?d) g (outerAttributes st)))
           = Inl (Error sameSplitMessage)"
  proof -
    let ?r = "splitUpApplies sampleCollaborators 0 [deepResplit] initialResplitState"
    from run have st: "st = snd (projr ?r)" by simp
    have "getQueryAndPostTransform sampleCollaborators 0
             (innerValue sampleCollaborators ?d (innerApplies (snd (projr ?r)))
                (mergeSplits sampleCollaborators (split ?d)
                   (the (globalResplitSplit (snd (projr ?r))))
                   (outerAttributes (snd (projr ?r)))))
           = Inl (Error sameSplitMessage)"
      by code_simp
    from this [folded st] have "getQueryAndPostTransform sampleCollaborators 0
             (innerValue sampleCollaborators ?d (innerApplies st)
                (mergeSplits sampleCollaborators (split ?d) g (outerAttributes st)))
           = Inl (Error sameSplitMessage)"
      by (simp only: g option.sel)
    with run g show ?thesis by blast
  qed
  show "\<not> isl (nestedGroupByIfNeeded (getQueryAndPostTransform sampleCollaborators 0)
              sampleCollaborators (sampleTotalExternal [maxByCountry, maxByCountry]))"
    by code_simp
qed
text \<open>Two inputs with disagreeing re-splits. With a custom aggregate met first, the
  error is the custom aggregate's. With maxima of the time ref, the planner answers with
  a time-boundary query and never calls \<^verbatim>\<open>nestedGroupByIfNeeded\<close>.\<close>

theorem nestedGroupByIfNeeded_disagreeing_counterexample:
  "resplitSplitsMet (walkedAggregates [customApply, maxByCountry, maxByTags]) =
     [\<lparr>splits = [(''country'', countryRef)], dataName = Some ''data''\<rparr>,
      \<lparr>splits = [(''tags'', tagsRef)], dataName = Some ''data''\<rparr>]
   \<and> countryRef \<noteq> tagsRef
   \<and> nestedGroupByIfNeeded (getQueryAndPostTransform sampleCollaborators 0) sampleCollaborators
       (sampleTotalExternal [customApply, maxByCountry, maxByTags])
     = Inl (Error customAggregateMessage)
   \<and> getQueryAndPostTransform sampleCollaborators 1
       (sampleTotalExternal [customApply, maxByCountry, maxByTags])
     = Inl (Error customAggregateMessage)
   \<and> customAggregateMessage \<noteq> sameSplitMessage
   \<and> resplitSplitsMet (walkedAggregates [maxTimeByCountry, maxTimeByTags]) =
       [\<lparr>splits = [(''country'', countryRef)], dataName = Some ''data''\<rparr>,
        \<lparr>splits = [(''tags'', tagsRef)], dataName = Some ''data''\<rparr>]
   \<and> nestedGroupByIfNeeded (getQueryAndPostTransform sampleCollaborators 0) sampleCollaborators
       (sampleTotalExternal [maxTimeByCountry, maxTimeByTags])
     = Inl (Error sameSplitMessage)
   \<and> map_sum id query
       (getQueryAndPostTransform sampleCollaborators 1
          (sampleTotalExternal [maxTimeByCountry, maxTimeByTags]))
     = Inr [(''queryType'', JStr ''timeBoundary''), (''dataSource'', JStr ''wiki'')]"
proof (intro conjI)
  show "resplitSplitsMet (walkedAggregates [customApply, maxByCountry, maxByTags]) =
     [\<lparr>splits = [(''country'', countryRef)], dataName = Some ''data''\<rparr>,
      \<lparr>splits = [(''tags'', tagsRef)], dataName = Some ''data''\<rparr>]"
    by (simp add: resplit_defs)
  show "countryRef \<noteq> tagsRef" by (simp add: countryRef_def tagsRef_def)
  show "customAggregateMessage \<noteq> sameSplitMessage"
    by (simp add: customAggregateMessage_def sameSplitMessage_def)
  show "nestedGroupByIfNeeded (getQueryAndPostTransform sampleCollaborators 0)
       sampleCollaborators (sampleTotalExternal [customApply, maxByCountry, maxByTags])
     = Inl (Error customAggregateMessage)"
    by code_simp
  show "getQueryAndPostTransform sampleCollaborators 1
       (sampleTotalExternal [customApply, maxByCountry, maxByTags])
     = Inl (Error customAggregateMessage)"
    by code_simp
  show "resplitSplitsMet (walkedAggregates [maxTimeByCountry, maxTimeByTags]) =
       [\<lparr>splits = [(''country'', countryRef)], dataName = Some ''data''\<rparr>,
        \<lparr>splits = [(''tags'', tagsRef)], dataName = Some ''data''\<rparr>]"
    by (simp add: resplit_defs maxTimeByCountry_def maxTimeByTags_def resplitMaxTime_def)
  show "nestedGroupByIfNeeded (getQueryAndPostTransform sampleCollaborators 0)
       sampleCollaborators (sampleTotalExternal [maxTimeByCountry, maxTimeByTags])
     = Inl (Error sameSplitMessage)"
    by code_simp
  show "map_sum id query
       (getQueryAndPostTransform sampleCollaborators 1
          (sampleTotalExternal [maxTimeByCountry, maxTimeByTags]))
     = Inr [(''queryType'', JStr ''timeBoundary''), (''dataSource'', JStr ''wiki'')]"
    by code_simp
qed

section \<open>The inner and outer planner of a nested group-by\<close>

lemma innerValue_fields:
  "mode (innerValue K e ia m) = Split"
  "sortE (innerValue K e ia m) = None"
  "limit (innerValue K e ia m) = None"
  "querySelection (innerValue K e ia m) = Some GroupByOnly"
  "applies (innerValue K e ia m) = Some ia"
  "split (innerValue K e ia m) =
     Some (case split e of
             Some s \<Rightarrow> changeSplits K s (innerSplits m)
           | None \<Rightarrow> splitOf K (innerSplits m))"
  by (simp_all add: innerValue_def)

lemma outerValue_fields:
  "filterE (outerValue K e oa m) = TRUE"
  "allowEternity (outerValue K e oa m)"
  "querySelection (outerValue K e oa m) = Some GroupByOnly"
  "rawAttributes (outerValue K e oa m) = mergedAttributes m"
  by (simp_all add: outerValue_def Let_def split: option.splits)

lemma digitChar_inj:
  assumes "a < 10" and "b < 10" and "digitChar a = digitChar b"
  shows "a = b"
proof -
  from assms(3) have "of_char (digitChar a) = (of_char (digitChar b) :: nat)" by simp
  with assms(1,2) show ?thesis by (simp add: digitChar_def)
qed

lemma showNat_nonempty: "showNat n \<noteq> []"
  by (subst showNat.simps) simp

lemma showNat_inj: "showNat n = showNat m \<Longrightarrow> n = m"
proof (induction n arbitrary: m rule: showNat.induct)
  case (1 n)
  show ?case
  proof (cases "n < 10")
    case True
    show ?thesis
    proof (cases "m < 10")
      case m: True
      from 1(2) True m have "digitChar n = digitChar m"
        by (simp add: showNat.simps [of n] showNat.simps [of m])
      with True m show ?thesis by (rule digitChar_inj)
    next
      case m: False
      from 1(2) True m have "[digitChar n] = showNat (m div 10) @ [digitChar (m mod 10)]"
        by (simp add: showNat.simps [of n] showNat.simps [of m])
      then have "showNat (m div 10) = []" by (simp add: Cons_eq_append_conv)
      with showNat_nonempty show ?thesis by blast
    qed
  next
    case False
    show ?thesis
    proof (cases "m < 10")
      case m: True
      from 1(2) False m have "showNat (n div 10) @ [digitChar (n mod 10)] = [digitChar m]"
        by (simp add: showNat.simps [of n] showNat.simps [of m])
      then have "showNat (n div 10) = []" by (simp add: append_eq_Cons_conv)
      with showNat_nonempty show ?thesis by blast
    next
      case m: False
      from 1(2) False m have "showNat (n div 10) @ [digitChar (n mod 10)]
          = showNat (m div 10) @ [digitChar (m mod 10)]"
        by (simp add: showNat.simps [of n] showNat.simps [of m])
      then have hd: "showNat (n div 10) = showNat (m div 10)"
        and tl: "digitChar (n mod 10) = digitChar (m mod 10)" by simp_all
      from 1(1) [OF False hd] have d: "n div 10 = m div 10" .
      have "n mod 10 = m mod 10" by (rule digitChar_inj [OF _ _ tl]) simp_all
      with d show ?thesis by (metis div_mult_mod_eq)
    qed
  qed
qed

lemma setField_fresh:
  "k \<notin> set (map fst xs) \<Longrightarrow> setField k v xs = xs @ [(k, v)]"
  by (induction xs) auto

lemma fst_divvyUpNestedSplitExpression:
  "fst (divvyUpNestedSplitExpression ex nm) = ex"
  by (simp add: divvyUpNestedSplitExpression_def split: expression.splits chainableOp.splits)

text \<open>The intermediate columns. Every inner split key is new, so the inner splits are
  the keys \<open>s0\<close>, \<open>s1\<close>, ... in the order they were made, and the attributes are those
  given followed by one attribute for each inner split key.\<close>

lemma assignOuterSplit_fields:
  "innerSplits (assignOuterSplit nm v m) = innerSplits m"
  "splitCount (assignOuterSplit nm v m) = splitCount m"
  "mergedAttributes (assignOuterSplit nm v m) = mergedAttributes m"
  by (simp_all add: assignOuterSplit_def)

lemma intermediate_fresh:
  assumes "map fst ss = map (\<lambda>i. ''s'' @ showNat i) [0..<c]"
  shows "setField (''s'' @ showNat c) ex ss = ss @ [(''s'' @ showNat c, ex)]"
proof (rule setField_fresh)
  show "''s'' @ showNat c \<notin> set (map fst ss)"
    unfolding assms by (auto dest: showNat_inj)
qed

lemma mergeResplitKeys_intermediate:
  assumes "map fst (innerSplits m) = map (\<lambda>i. ''s'' @ showNat i) [0..<splitCount m]"
    and "mergedAttributes m =
           attrs @ map (\<lambda>(k, ex). attributeInfoFromJS k (typeOf ex) None) (innerSplits m)"
  shows "map fst (innerSplits (mergeResplitKeys sp ks m))
           = map (\<lambda>i. ''s'' @ showNat i) [0..<splitCount (mergeResplitKeys sp ks m)]
         \<and> mergedAttributes (mergeResplitKeys sp ks m) =
             attrs @ map (\<lambda>(k, ex). attributeInfoFromJS k (typeOf ex) None)
                       (innerSplits (mergeResplitKeys sp ks m))"
  using assms
proof (induction sp ks m rule: mergeResplitKeys.induct)
  case (1 sp m)
  then show ?case by simp
next
  case (2 sp nm ex rest m)
  define intermediateName where "intermediateName = ''s'' @ showNat (splitCount m)"
  define divvy where "divvy = divvyUpNestedSplitExpression ex intermediateName"
  define m1 where "m1 = m\<lparr>splitCount := splitCount m + 1,
      mergedAttributes := mergedAttributes m @
        [attributeInfoFromJS intermediateName (typeOf (fst divvy)) None],
      innerSplits := setField intermediateName (fst divvy) (innerSplits m)\<rparr>"
  define m2 where "m2 =
    (case (case sp of Some s \<Rightarrow> outerSplitNameOf ex (splits s) | None \<Rightarrow> None) of
       Some n \<Rightarrow> (if n \<noteq> [] then assignOuterSplit n (snd divvy) m1 else m1)
     | None \<Rightarrow> m1)"
  have step: "mergeResplitKeys sp ((nm, ex) # rest) m = mergeResplitKeys sp rest m2"
    unfolding m2_def m1_def divvy_def intermediateName_def mergeResplitKeys.simps Let_def
    by (rule refl)
  have same: "innerSplits m2 = innerSplits m1" "splitCount m2 = splitCount m1"
    "mergedAttributes m2 = mergedAttributes m1"
    by (simp_all add: m2_def assignOuterSplit_fields split: option.splits)
  have fresh: "setField intermediateName (fst divvy) (innerSplits m)
      = innerSplits m @ [(intermediateName, fst divvy)]"
    unfolding intermediateName_def by (rule intermediate_fresh [OF 2(2)])
  have i1: "innerSplits m1 = innerSplits m @ [(intermediateName, fst divvy)]"
    and c1: "splitCount m1 = Suc (splitCount m)"
    and a1: "mergedAttributes m1 = mergedAttributes m @
        [attributeInfoFromJS intermediateName (typeOf (fst divvy)) None]"
    by (simp_all add: m1_def fresh)
  have keys: "map fst (innerSplits m2) = map (\<lambda>i. ''s'' @ showNat i) [0..<splitCount m2]"
    unfolding same i1 c1 using 2(2) by (simp add: intermediateName_def)
  have attrs: "mergedAttributes m2 =
      attrs @ map (\<lambda>(k, ex). attributeInfoFromJS k (typeOf ex) None) (innerSplits m2)"
    unfolding same i1 a1 using 2(3) by simp
  from 2(1) [OF refl intermediateName_def divvy_def m1_def m2_def keys attrs]
  show ?case unfolding step .
qed

lemma mergeOuterKeys_intermediate:
  assumes "map fst (innerSplits m) = map (\<lambda>i. ''s'' @ showNat i) [0..<splitCount m]"
    and "mergedAttributes m =
           attrs @ map (\<lambda>(k, ex). attributeInfoFromJS k (typeOf ex) None) (innerSplits m)"
  shows "map fst (innerSplits (mergeOuterKeys K ks m))
           = map (\<lambda>i. ''s'' @ showNat i) [0..<splitCount (mergeOuterKeys K ks m)]
         \<and> mergedAttributes (mergeOuterKeys K ks m) =
             attrs @ map (\<lambda>(k, ex). attributeInfoFromJS k (typeOf ex) None)
                       (innerSplits (mergeOuterKeys K ks m))"
  using assms
proof (induction ks arbitrary: m)
  case Nil
  then show ?case by simp
next
  case (Cons k ks)
  obtain nm ex where k: "k = (nm, ex)" by (cases k) auto
  show ?case
  proof (cases "outerSplitTaken K m nm")
    case True
    with Cons.IH [OF Cons.prems] k show ?thesis by simp
  next
    case False
    define intermediateName where "intermediateName = ''s'' @ showNat (splitCount m)"
    define divvy where "divvy = divvyUpNestedSplitExpression ex intermediateName"
    define m1 where "m1 = m\<lparr>splitCount := splitCount m + 1,
        innerSplits := setField intermediateName (fst divvy) (innerSplits m),
        mergedAttributes := mergedAttributes m @
          [attributeInfoFromJS intermediateName (typeOf (fst divvy)) None]\<rparr>"
    define m2 where "m2 = assignOuterSplit nm (snd divvy) m1"
    from False k have step: "mergeOuterKeys K (k # ks) m = mergeOuterKeys K ks m2"
      by (simp add: Let_def m2_def m1_def divvy_def intermediateName_def)
    have same: "innerSplits m2 = innerSplits m1" "splitCount m2 = splitCount m1"
      "mergedAttributes m2 = mergedAttributes m1"
      by (simp_all add: m2_def assignOuterSplit_fields)
    have fresh: "setField intermediateName (fst divvy) (innerSplits m)
        = innerSplits m @ [(intermediateName, fst divvy)]"
      unfolding intermediateName_def by (rule intermediate_fresh [OF Cons.prems(1)])
    have i1: "innerSplits m1 = innerSplits m @ [(intermediateName, fst divvy)]"
      and c1: "splitCount m1 = Suc (splitCount m)"
      and a1: "mergedAttributes m1 = mergedAttributes m @
          [attributeInfoFromJS intermediateName (typeOf (fst divvy)) None]"
      by (simp_all add: m1_def fresh)
    have keys: "map fst (innerSplits m2) = map (\<lambda>i. ''s'' @ showNat i) [0..<splitCount m2]"
      unfolding same i1 c1 using Cons.prems(1) by (simp add: intermediateName_def)
    have attrs: "mergedAttributes m2 =
        attrs @ map (\<lambda>(k, ex). attributeInfoFromJS k (typeOf ex) None) (innerSplits m2)"
      unfolding same i1 a1 using Cons.prems(2) by simp
    from Cons.IH [OF keys attrs] show ?thesis unfolding step .
  qed
qed

lemma mergeSplits_intermediate:
  "map fst (innerSplits (mergeSplits K sp g attrs))
     = map (\<lambda>i. ''s'' @ showNat i) [0..<splitCount (mergeSplits K sp g attrs)]"
  "mergedAttributes (mergeSplits K sp g attrs) =
     attrs @ map (\<lambda>(k, ex). attributeInfoFromJS k (typeOf ex) None)
               (innerSplits (mergeSplits K sp g attrs))"
proof -
  define m0 :: mergedSplits where
    "m0 = \<lparr>outerSplits = [], outerPrototype = None, innerSplits = [], splitCount = 0,
           mergedAttributes = attrs\<rparr>"
  have k0: "map fst (innerSplits m0) = map (\<lambda>i. ''s'' @ showNat i) [0..<splitCount m0]"
    and a0: "mergedAttributes m0 =
      attrs @ map (\<lambda>(k, ex). attributeInfoFromJS k (typeOf ex) None) (innerSplits m0)"
    by (simp_all add: m0_def)
  note r = mergeResplitKeys_intermediate [OF k0 a0, of sp "splits g"]
  have both: "map fst (innerSplits (mergeSplits K sp g attrs))
     = map (\<lambda>i. ''s'' @ showNat i) [0..<splitCount (mergeSplits K sp g attrs)]
     \<and> mergedAttributes (mergeSplits K sp g attrs) =
     attrs @ map (\<lambda>(k, ex). attributeInfoFromJS k (typeOf ex) None)
               (innerSplits (mergeSplits K sp g attrs))"
  proof (cases sp)
    case None
    with r show ?thesis by (simp add: mergeSplits_def Let_def m0_def)
  next
    case (Some s)
    have eq: "mergeSplits K sp g attrs
        = mergeOuterKeys K (splits s) (mergeResplitKeys sp (splits g) m0)"
      by (simp add: mergeSplits_def Let_def m0_def Some)
    show ?thesis unfolding eq
      by (rule mergeOuterKeys_intermediate [OF r [THEN conjunct1] r [THEN conjunct2]])
  qed
  from both show "map fst (innerSplits (mergeSplits K sp g attrs))
     = map (\<lambda>i. ''s'' @ showNat i) [0..<splitCount (mergeSplits K sp g attrs)]" by blast
  from both show "mergedAttributes (mergeSplits K sp g attrs) =
     attrs @ map (\<lambda>(k, ex). attributeInfoFromJS k (typeOf ex) None)
               (innerSplits (mergeSplits K sp g attrs))" by blast
qed

text \<open>The walk pushes an inner apply and its column together, under one name.\<close>

lemma resplitAggregate_names:
  assumes "resplitAggregate K i resplit st = Inr (sub, st')"
    and "map attrName (outerAttributes st) = map applyName (innerApplies st)"
  shows "map attrName (outerAttributes st') = map applyName (innerApplies st')"
  using assms
  by (auto simp: resplitAggregate_def Let_def attributeInfoFromJS_def
      split: if_splits option.splits)

lemma plainAggregate_names:
  assumes "plainAggregate i ex st = Inr (sub, st')"
    and "map attrName (outerAttributes st) = map applyName (innerApplies st)"
  shows "map attrName (outerAttributes st') = map applyName (innerApplies st')"
  using assms
  by (auto simp: plainAggregate_def Let_def attributeInfoFromJS_def
      split: expression.splits chainableOp.splits)

lemma splitUpAggregate_names:
  assumes "splitUpAggregate K i ex st = Inr (sub, st')"
    and "map attrName (outerAttributes st) = map applyName (innerApplies st)"
  shows "map attrName (outerAttributes st') = map applyName (innerApplies st')"
  using assms
  by (auto simp: splitUpAggregate_def split: if_splits option.splits
      dest: resplitAggregate_names plainAggregate_names)

lemma substituteM_invariant:
  shows "(\<And>ex s sub s'. f ex s = Inr (sub, s') \<Longrightarrow> P s \<Longrightarrow> P s')
           \<Longrightarrow> substituteM f ex s = Inr (ex', s') \<Longrightarrow> P s \<Longrightarrow> P s'"
    and "(\<And>ex s sub s'. f ex s = Inr (sub, s') \<Longrightarrow> P s \<Longrightarrow> P s')
           \<Longrightarrow> substituteSplitsM f ss s = Inr (ss', s') \<Longrightarrow> P s \<Longrightarrow> P s'"
proof (induction f ex s and f ss s arbitrary: ex' s' and ss' s'
    rule: substituteM_substituteSplitsM.induct)
  case (1 f n k t i os s)
  note inv = 1(1)
  from 1(2,3) show ?case by (auto split: sum.splits option.splits prod.splits dest: inv)
next
  case (2 f v t os s)
  note inv = 2(1)
  from 2(2,3) show ?case by (auto split: sum.splits option.splits prod.splits dest: inv)
next
  case (3 f c t os x s)
  note inv = 3(2)
  from 3(3) obtain opt s1 where r: "f (ChainableExpression c t os x) s = Inr (opt, s1)"
    by (auto split: sum.splits prod.splits)
  from inv [OF r 3(4)] have p1: "P s1" .
  show ?case
  proof (cases opt)
    case (Some sub)
    with 3(3) r p1 show ?thesis by simp
  next
    case None
    with 3(3) r obtain x' where sx: "substituteM f x s1 = Inr (x', s')"
      by (auto split: sum.splits prod.splits)
    show ?thesis by (rule 3(1) [OF r [unfolded None] refl refl inv sx p1])
  qed
next
  case (4 f u t os x y s)
  note inv = 4(3)
  from 4(4) obtain opt s1 where r: "f (ChainableUnaryExpression u t os x y) s = Inr (opt, s1)"
    by (auto split: sum.splits prod.splits)
  from inv [OF r 4(5)] have p1: "P s1" .
  show ?case
  proof (cases opt)
    case (Some sub)
    with 4(4) r p1 show ?thesis by simp
  next
    case None
    with 4(4) r obtain x' s2 y' where sx: "substituteM f x s1 = Inr (x', s2)"
      and sy: "substituteM f y s2 = Inr (y', s')"
      by (auto split: sum.splits prod.splits)
    have p2: "P s2" by (rule 4(1) [OF r [unfolded None] refl refl inv sx p1])
    show ?thesis by (rule 4(2) [OF r [unfolded None] refl refl sx refl inv sy p2])
  qed
next
  case (5 f t os x ss d s)
  note inv = 5(3)
  from 5(4) obtain opt s1 where r: "f (SplitExpression t os x ss d) s = Inr (opt, s1)"
    by (auto split: sum.splits prod.splits)
  from inv [OF r 5(5)] have p1: "P s1" .
  show ?case
  proof (cases opt)
    case (Some sub)
    with 5(4) r p1 show ?thesis by simp
  next
    case None
    with 5(4) r obtain x' s2 ss'' where sx: "substituteM f x s1 = Inr (x', s2)"
      and sy: "substituteSplitsM f ss s2 = Inr (ss'', s')"
      by (auto split: sum.splits prod.splits)
    have p2: "P s2" by (rule 5(1) [OF r [unfolded None] refl refl inv sx p1])
    show ?thesis by (rule 5(2) [OF r [unfolded None] refl refl sx refl inv sy p2])
  qed
next
  case (6 f s)
  then show ?case by simp
next
  case (7 f k ex rest s)
  note inv = 7(3)
  from 7(4) obtain x' s1 rest' where sx: "substituteM f ex s = Inr (x', s1)"
    and sr: "substituteSplitsM f rest s1 = Inr (rest', s')"
    by (auto split: sum.splits prod.splits)
  have p1: "P s1" by (rule 7(1) [OF inv sx 7(5)])
  show ?case by (rule 7(2) [OF sx refl inv sr p1])
qed

lemma splitUpApplies_names:
  assumes "splitUpApplies K i eas st = Inr (outerApplies, st')"
    and "map attrName (outerAttributes st) = map applyName (innerApplies st)"
  shows "map attrName (outerAttributes st') = map applyName (innerApplies st')"
  using assms
proof (induction eas arbitrary: i st outerApplies)
  case Nil
  then show ?case by simp
next
  case (Cons a rest)
  from Cons.prems(1) obtain ex' st1 as where
    one: "substituteM (splitUpAggregate K i) (applyExpr a) (st\<lparr>counter := 0\<rparr>) = Inr (ex', st1)"
    and more: "splitUpApplies K (Suc i) rest st1 = Inr (as, st')"
    by (auto split: sum.splits prod.splits)
  have "map attrName (outerAttributes (st\<lparr>counter := 0\<rparr>))
      = map applyName (innerApplies (st\<lparr>counter := 0\<rparr>))"
    using Cons.prems(2) by simp
  with one have "map attrName (outerAttributes st1) = map applyName (innerApplies st1)"
    by (rule substituteM_invariant(1) [rotated, where
          P = "\<lambda>s. map attrName (outerAttributes s) = map applyName (innerApplies s)"])
      (rule splitUpAggregate_names)
  with more show ?case by (rule Cons.IH)
qed

lemma splitKey_names:
  "map attrName (map (\<lambda>(k, ex). attributeInfoFromJS k (typeOf ex) None) ss) = map fst ss"
  by (induction ss) (auto simp: attributeInfoFromJS_def)

lemma nestedGroupByIfNeeded_cases:
  assumes "nestedGroupByIfNeeded plan K e = Inr (Some result)"
  obtains eas outerApplies st g innerPlan outerPlan where
    "effectiveApplies e = Inr eas"
    "splitUpApplies K 0 eas initialResplitState = Inr (outerApplies, st)"
    "globalResplitSplit st = Some g"
    "plan (innerValue K e (innerApplies st)
            (mergeSplits K (split e) g (outerAttributes st))) = Inr innerPlan"
    "plan (outerValue K e outerApplies
            (mergeSplits K (split e) g (outerAttributes st))) = Inr outerPlan"
    "result = outerPlan
       \<lparr>query :=
          setField ''dataSource''
            (JObj [(''type'', JStr ''query''),
                   (''query'', JObj (deleteField ''context'' (query innerPlan)))])
            (query outerPlan)\<rparr>"
proof (cases "effectiveApplies e")
  case (Inl err)
  with assms show ?thesis by (simp add: nestedGroupByIfNeeded_def)
next
  case eas: (Inr eas)
  show ?thesis
  proof (cases "splitUpApplies K 0 eas initialResplitState")
    case (Inl err)
    with assms eas show ?thesis by (simp add: nestedGroupByIfNeeded_def split: if_splits)
  next
    case (Inr res)
    obtain outerApplies st where res: "res = (outerApplies, st)" by (cases res) auto
    note up = Inr [unfolded res]
    show ?thesis
    proof (cases "globalResplitSplit st")
      case None
      with assms eas up show ?thesis by (simp add: nestedGroupByIfNeeded_def split: if_splits)
    next
      case g: (Some g)
      let ?m = "mergeSplits K (split e) g (outerAttributes st)"
      show ?thesis
      proof (cases "plan (innerValue K e (innerApplies st) ?m)")
        case (Inl err)
        with assms eas up g show ?thesis
          by (simp add: nestedGroupByIfNeeded_def Let_def split: if_splits)
      next
        case ip: (Inr innerPlan)
        show ?thesis
        proof (cases "plan (outerValue K e outerApplies ?m)")
          case (Inl err)
          with assms eas up g ip show ?thesis
            by (simp add: nestedGroupByIfNeeded_def Let_def split: if_splits)
        next
          case op: (Inr outerPlan)
          with assms eas up g ip have "result = outerPlan
             \<lparr>query :=
                setField ''dataSource''
                  (JObj [(''type'', JStr ''query''),
                         (''query'', JObj (deleteField ''context'' (query innerPlan)))])
                  (query outerPlan)\<rparr>"
            by (simp add: nestedGroupByIfNeeded_def Let_def split: if_splits)
          with eas up g ip op show ?thesis by (rule that)
        qed
      qed
    qed
  qed
qed

text \<open>
  C4. Whenever \<^verbatim>\<open>nestedGroupByIfNeeded\<close> returns a plan, the walk over the applies
  succeeded and met a re-split. The inner planner ran on an External with mode
  \<^verbatim>\<open>'split'\<close>, no sort, no limit and group-by-only selection, whose applies are the
  inner applies of the walk and whose split is made of the merged inner split keys. The
  outer planner ran on an External with filter \<^verbatim>\<open>TRUE\<close>, eternity allowed,
  group-by-only selection and, as raw attributes, the schema of the intermediate columns:
  the columns that the walk made for the inner applies, one for each and under its name,
  followed by one column for each inner split key, under its name and with the type of
  its expression. The returned query is the outer query with its \<^verbatim>\<open>dataSource\<close> set
  to \<^verbatim>\<open>{type: 'query', query: ...}\<close> around the inner query (whose context was
  deleted).
\<close>

theorem nestedGroupByIfNeeded_plan:
  assumes "nestedGroupByIfNeeded plan K e = Inr (Some result)"
  shows "\<exists>eas outerApplies st g m inner outer innerPlan outerPlan.
           effectiveApplies e = Inr eas
           \<and> splitUpApplies K 0 eas initialResplitState = Inr (outerApplies, st)
           \<and> globalResplitSplit st = Some g
           \<and> m = mergeSplits K (split e) g (outerAttributes st)
           \<and> inner = innerValue K e (innerApplies st) m
           \<and> outer = outerValue K e outerApplies m
           \<and> mode inner = Split \<and> sortE inner = None \<and> limit inner = None
           \<and> querySelection inner = Some GroupByOnly
           \<and> applies inner = Some (innerApplies st)
           \<and> split inner =
                Some (case split e of
                        Some s \<Rightarrow> changeSplits K s (innerSplits m)
                      | None \<Rightarrow> splitOf K (innerSplits m))
           \<and> filterE outer = TRUE \<and> allowEternity outer
           \<and> querySelection outer = Some GroupByOnly
           \<and> rawAttributes outer =
                outerAttributes st @
                map (\<lambda>(k, ex). attributeInfoFromJS k (typeOf ex) None) (innerSplits m)
           \<and> map attrName (rawAttributes outer) =
                map applyName (innerApplies st) @ map fst (innerSplits m)
           \<and> plan inner = Inr innerPlan \<and> plan outer = Inr outerPlan
           \<and> result = outerPlan
                \<lparr>query :=
                   setField ''dataSource''
                     (JObj [(''type'', JStr ''query''),
                            (''query'', JObj (deleteField ''context'' (query innerPlan)))])
                     (query outerPlan)\<rparr>
           \<and> getField ''dataSource'' (query result) =
                Some (JObj [(''type'', JStr ''query''),
                            (''query'', JObj (deleteField ''context'' (query innerPlan)))])"
proof -
  from assms obtain eas outerApplies st g innerPlan outerPlan where
    eas: "effectiveApplies e = Inr eas" and
    up: "splitUpApplies K 0 eas initialResplitState = Inr (outerApplies, st)" and
    g: "globalResplitSplit st = Some g" and
    ip: "plan (innerValue K e (innerApplies st)
            (mergeSplits K (split e) g (outerAttributes st))) = Inr innerPlan" and
    op: "plan (outerValue K e outerApplies
            (mergeSplits K (split e) g (outerAttributes st))) = Inr outerPlan" and
    r: "result = outerPlan
       \<lparr>query :=
          setField ''dataSource''
            (JObj [(''type'', JStr ''query''),
                   (''query'', JObj (deleteField ''context'' (query innerPlan)))])
            (query outerPlan)\<rparr>"
    by (rule nestedGroupByIfNeeded_cases)
  let ?m = "mergeSplits K (split e) g (outerAttributes st)"
  let ?inner = "innerValue K e (innerApplies st) ?m"
  let ?outer = "outerValue K e outerApplies ?m"
  from r have ds: "getField ''dataSource'' (query result) =
      Some (JObj [(''type'', JStr ''query''),
                  (''query'', JObj (deleteField ''context'' (query innerPlan)))])"
    by (simp add: getField_setField)
  have raw: "rawAttributes ?outer =
      outerAttributes st @
      map (\<lambda>(k, ex). attributeInfoFromJS k (typeOf ex) None) (innerSplits ?m)"
    unfolding outerValue_fields by (rule mergeSplits_intermediate(2))
  have walk: "map attrName (outerAttributes st) = map applyName (innerApplies st)"
    by (rule splitUpApplies_names [OF up]) (simp add: initialResplitState_def)
  have names: "map attrName (rawAttributes ?outer) =
      map applyName (innerApplies st) @ map fst (innerSplits ?m)"
    unfolding raw map_append splitKey_names walk ..
  show ?thesis
    apply (rule exI [of _ eas], rule exI [of _ outerApplies], rule exI [of _ st])
    apply (rule exI [of _ g], rule exI [of _ ?m], rule exI [of _ ?inner])
    apply (rule exI [of _ ?outer], rule exI [of _ innerPlan], rule exI [of _ outerPlan])
    apply (intro conjI eas up g refl innerValue_fields outerValue_fields raw names ip op r ds)
    done
qed

text \<open>The planner itself on the split by country of a maximum over a filtered split by
  tags: the outer split key \<open>country\<close> is no key of the re-split and becomes the inner
  key \<open>s1\<close>, and the filter of the re-split is counted as \<open>x_0_def\<close>.\<close>

theorem nestedGroupByIfNeeded_plan_witness:
  "nestedGroupByIfNeeded (getQueryAndPostTransform sampleCollaborators 0) sampleCollaborators
       maxTaggedByCountry
     = Inr (Some nestedTaggedPlan)
   \<and> (\<exists>inner (outer :: druidExternal) innerPlan.
         mode inner = Split \<and> sortE inner = None \<and> limit inner = None
         \<and> querySelection inner = Some GroupByOnly
         \<and> map_option (map applyName) (applies inner) = Some [''x_0'', ''x_0_def'']
         \<and> map_option splits (split inner)
             = Some [(''s0'', tagsRef), (''s1'', countryRef)]
         \<and> filterE outer = TRUE \<and> allowEternity outer
         \<and> querySelection outer = Some GroupByOnly
         \<and> rawAttributes outer = intermediateTaggedColumns
         \<and> map_option splits (split outer) = Some [(''country'', ref ''s1'')]
         \<and> getQueryAndPostTransform sampleCollaborators 0 inner = Inr innerPlan
         \<and> getField ''dataSource'' (query nestedTaggedPlan) =
             Some (JObj [(''type'', JStr ''query''),
                         (''query'', JObj (deleteField ''context'' (query innerPlan)))]))
   \<and> getField ''dataSource'' (query nestedTaggedPlan) =
       Some (JObj [(''type'', JStr ''query''), (''query'', JObj innerTaggedQuery)])"
proof (intro conjI)
  let ?K = sampleCollaborators
  let ?e = maxTaggedByCountry
  let ?r = "splitUpApplies ?K 0 [maxTagged] initialResplitState"
  let ?st = "snd (projr ?r)"
  let ?m = "mergeSplits ?K (split ?e) (the (globalResplitSplit ?st)) (outerAttributes ?st)"
  show ev: "nestedGroupByIfNeeded (getQueryAndPostTransform ?K 0) ?K ?e
      = Inr (Some nestedTaggedPlan)"
    by code_simp
  have eas: "effectiveApplies ?e = Inr [maxTagged]" by code_simp
  have i1: "map_option (map applyName) (applies (innerValue ?K ?e (innerApplies ?st) ?m))
      = Some [''x_0'', ''x_0_def'']" by code_simp
  have i2: "map_option splits (split (innerValue ?K ?e (innerApplies ?st) ?m))
      = Some [(''s0'', tagsRef), (''s1'', countryRef)]" by code_simp
  have o1: "rawAttributes (outerValue ?K ?e (fst (projr ?r)) ?m) = intermediateTaggedColumns"
    by code_simp
  have o2: "map_option splits (split (outerValue ?K ?e (fst (projr ?r)) ?m))
      = Some [(''country'', ref ''s1'')]" by code_simp
  from nestedGroupByIfNeeded_plan [OF ev]
  obtain eas' outerApplies st g m inner and outer :: druidExternal and innerPlan where
    a1: "effectiveApplies ?e = Inr eas'" and
    a2: "splitUpApplies ?K 0 eas' initialResplitState = Inr (outerApplies, st)" and
    a3: "globalResplitSplit st = Some g" and
    a4: "m = mergeSplits ?K (split ?e) g (outerAttributes st)" and
    a5: "inner = innerValue ?K ?e (innerApplies st) m" and
    a6: "outer = outerValue ?K ?e outerApplies m" and
    b1: "mode inner = Split" and b2: "sortE inner = None" and b3: "limit inner = None" and
    b4: "querySelection inner = Some GroupByOnly" and
    c1: "filterE outer = TRUE" and c2: "allowEternity outer" and
    c3: "querySelection outer = Some GroupByOnly" and
    d1: "getQueryAndPostTransform ?K 0 inner = Inr innerPlan" and
    d2: "getField ''dataSource'' (query nestedTaggedPlan) =
           Some (JObj [(''type'', JStr ''query''),
                       (''query'', JObj (deleteField ''context'' (query innerPlan)))])"
    by (elim exE conjE) (rule that, assumption+)
  from a1 eas have e': "eas' = [maxTagged]" by simp
  from a2 have st: "st = ?st" and oa: "outerApplies = fst (projr ?r)"
    unfolding e' by simp_all
  from a3 have g: "g = the (globalResplitSplit ?st)" unfolding st by simp
  have m: "m = ?m" unfolding a4 g st ..
  have inner: "inner = innerValue ?K ?e (innerApplies ?st) ?m" unfolding a5 m st ..
  have outer: "outer = outerValue ?K ?e (fst (projr ?r)) ?m" unfolding a6 m oa ..
  note i1' = i1 [folded inner] and i2' = i2 [folded inner]
    and o1' = o1 [folded outer] and o2' = o2 [folded outer]
  show "\<exists>inner (outer :: druidExternal) innerPlan.
         mode inner = Split \<and> sortE inner = None \<and> limit inner = None
         \<and> querySelection inner = Some GroupByOnly
         \<and> map_option (map applyName) (applies inner) = Some [''x_0'', ''x_0_def'']
         \<and> map_option splits (split inner)
             = Some [(''s0'', tagsRef), (''s1'', countryRef)]
         \<and> filterE outer = TRUE \<and> allowEternity outer
         \<and> querySelection outer = Some GroupByOnly
         \<and> rawAttributes outer = intermediateTaggedColumns
         \<and> map_option splits (split outer) = Some [(''country'', ref ''s1'')]
         \<and> getQueryAndPostTransform sampleCollaborators 0 inner = Inr innerPlan
         \<and> getField ''dataSource'' (query nestedTaggedPlan) =
             Some (JObj [(''type'', JStr ''query''),
                         (''query'', JObj (deleteField ''context'' (query innerPlan)))])"
    apply (rule exI [of _ inner], rule exI [of _ outer], rule exI [of _ innerPlan])
    apply (intro conjI b1 b2 b3 b4 c1 c2 c3 d1 d2 i1' i2' o1' o2')
    done
  show "getField ''dataSource'' (query nestedTaggedPlan) =
       Some (JObj [(''type'', JStr ''query''), (''query'', JObj innerTaggedQuery)])"
    by (simp add: nestedTaggedPlan_def)
qed

text \<open>A key of the External's split named like a property that every object inherits is
  taken for an outer split already made, and gets no intermediate column.\<close>

lemma mergeOuterKeys_inherited:
  assumes "outerPrototype m = None" and "nm \<in> set objectPrototypeKeys"
  shows "mergeOuterKeys K ((nm, ex) # rest) m = mergeOuterKeys K rest m"
  using assms by (simp add: outerSplitTaken_def)

section \<open>The clauses of a SQL split query\<close>

lemma andThen_Inr_iff:
  "andThen step rest = Inr r \<longleftrightarrow> (\<exists>v. step = Inr v \<and> rest v = Inr r)"
  by (cases step) (simp_all add: andThen_def)

lemma andThen_simps:
  "andThen (Inr v) rest = rest v"
  "andThen (Inl err) rest = Inl err"
  by (simp_all add: andThen_def)

text \<open>Joining, written out: every element but the last is followed by the separator.\<close>

lemma join_concat:
  "join xs sep =
     (if xs = [] then [] else concat (map (\<lambda>c. c @ sep) (butlast xs)) @ last xs)"
  by (induction xs sep rule: join.induct) simp_all

lemma join_snoc: "xs \<noteq> [] \<Longrightarrow> join (xs @ [c]) sep = join xs sep @ sep @ c"
  by (induction xs sep rule: join.induct) simp_all

lemma join_Cons: "xs \<noteq> [] \<Longrightarrow> join (c # xs) sep = c @ sep @ join xs sep"
  by (cases xs) simp_all

lemma pushSortLimit_Inr_iff:
  "pushSortLimit D e q = Inr q' \<longleftrightarrow>
     (\<exists>so li.
        (case sortE e of Some srt \<Rightarrow> sortGetSQL D srt = Inr so | None \<Rightarrow> True)
        \<and> (case limit e of Some l \<Rightarrow> limitGetSQL D l = Inr li | None \<Rightarrow> True)
        \<and> q' = q @ (if sortE e = None then [] else [so])
                  @ (if limit e = None then [] else [li]))"
  by (cases "sortE e"; cases "limit e")
    (auto simp: pushSortLimit_def andThen_Inr_iff andThen_simps)

lemma getFrom_Inr_iff:
  "getFrom D e = Inr frm \<longleftrightarrow>
     (\<exists>tbl. (withQuerySet e \<or> escapeName D (source e) = Inr tbl)
        \<and> frm = (if withQuerySet e then ''FROM __with__ AS t''
                  else ''FROM '' @ tbl @ '' AS t''))"
  by (auto simp: getFrom_def andThen_Inr_iff)

text \<open>The clauses of a split query, as the list that is joined at the end.\<close>

lemma split_query_list:
  assumes "mode e = Split"
  shows "getQueryAndPostTransformSQL K D e = Inr r \<longleftrightarrow>
           (\<exists>tbl wh s sel as aps grp hv so li.
              (withQuerySet e \<or> escapeName D (source e) = Inr tbl)
              \<and> (sqlQueryFilter D e = TRUE \<or> getSQL D (sqlQueryFilter D e) = Inr wh)
              \<and> sqlQuerySplit D e = Inr s
              \<and> getSelectSQL D s = Inr sel
              \<and> applies e = Some as
              \<and> traverse (applyGetSQL D) as = Inr aps
              \<and> getShortGroupBySQL D s = Inr grp
              \<and> (havingFilter e = TRUE \<or> getSQL D (havingFilter e) = Inr hv)
              \<and> (case sortE e of Some srt \<Rightarrow> sortGetSQL D srt = Inr so | None \<Rightarrow> True)
              \<and> (case limit e of Some l \<Rightarrow> limitGetSQL D l = Inr li | None \<Rightarrow> True)
              \<and> r = \<lparr>sqlQuery =
                        join
                          ((if withQuerySet e
                            then [''WITH __with__ AS (''
                                  @ (case withQuery e of Some q \<Rightarrow> q | None \<Rightarrow> []) @ '')'']
                            else [])
                           @ [''SELECT'',
                              join (sel @ aps) ('','' @ newline),
                              (if withQuerySet e then ''FROM __with__ AS t''
                               else ''FROM '' @ tbl @ '' AS t'')
                              @ (if sqlQueryFilter D e = TRUE then []
                                 else newline @ ''WHERE '' @ wh),
                              ''GROUP BY '' @ join grp '','']
                           @ (if havingFilter e = TRUE then [] else [''HAVING '' @ hv])
                           @ (if sortE e = None then [] else [so])
                           @ (if limit e = None then [] else [li]))
                          newline,
                      sqlPostTransform =
                        PostTransform (getSplitInflaters K s) (sqlSelectedAttributes D e)
                          (Some (map fst (splits s))) None\<rparr>)"
    (is "?lhs \<longleftrightarrow> ?rhs")
proof
  have cap: "capability D ''shortcut-group-by''" by (simp add: capability_def)
  define query1 where "query1 =
    (if withQuerySet e
     then [''WITH __with__ AS ('' @ (case withQuery e of Some q \<Rightarrow> q | None \<Rightarrow> []) @ '')'']
     else []) @ [''SELECT'']"
  have unfold: "getQueryAndPostTransformSQL K D e =
      andThen (getFrom D e) (\<lambda>from0.
      andThen (if sqlQueryFilter D e \<noteq> TRUE
               then andThen (getSQL D (sqlQueryFilter D e))
                      (\<lambda>w. Inr (from0 @ newline @ ''WHERE '' @ w))
               else Inr from0) (\<lambda>from.
      andThen (sqlQuerySplit D e) (\<lambda>s.
      andThen (getSelectSQL D s) (\<lambda>selectSQL.
      case applies e of
        None \<Rightarrow> Inl undefinedMap
      | Some as \<Rightarrow>
          andThen (traverse (applyGetSQL D) as) (\<lambda>items.
          andThen (getShortGroupBySQL D s) (\<lambda>groupBy.
          andThen (if havingFilter e \<noteq> TRUE
                   then andThen (getSQL D (havingFilter e))
                          (\<lambda>h. Inr ((query1 @
                             [join (selectSQL @ items) ('','' @ newline), from,
                              ''GROUP BY '' @ join groupBy '','']) @ [''HAVING '' @ h]))
                   else Inr (query1 @
                             [join (selectSQL @ items) ('','' @ newline), from,
                              ''GROUP BY '' @ join groupBy '',''])) (\<lambda>query3.
          andThen (pushSortLimit D e query3) (\<lambda>query5.
          Inr \<lparr>sqlQuery = join query5 newline,
               sqlPostTransform =
                 PostTransform (getSplitInflaters K s) (sqlSelectedAttributes D e)
                   (Some (map fst (splits s))) None\<rparr>))))))))"
    unfolding getQueryAndPostTransformSQL_def Let_def assms mode.case if_P [OF cap] query1_def
    by (rule refl)
  {
    assume ?lhs
    from \<open>?lhs\<close> [unfolded unfold andThen_Inr_iff]
    obtain from0 from' s sel where
      f0: "getFrom D e = Inr from0" and
      f1: "(if sqlQueryFilter D e \<noteq> TRUE
            then andThen (getSQL D (sqlQueryFilter D e))
                   (\<lambda>w. Inr (from0 @ newline @ ''WHERE '' @ w))
            else Inr from0) = Inr from'" and
      s: "sqlQuerySplit D e = Inr s" and
      sel: "getSelectSQL D s = Inr sel" and
      rest: "(case applies e of
                None \<Rightarrow> Inl undefinedMap
              | Some as \<Rightarrow>
                  andThen (traverse (applyGetSQL D) as) (\<lambda>items.
                  andThen (getShortGroupBySQL D s) (\<lambda>groupBy.
                  andThen (if havingFilter e \<noteq> TRUE
                           then andThen (getSQL D (havingFilter e))
                                  (\<lambda>h. Inr ((query1 @
                                     [join (sel @ items) ('','' @ newline), from',
                                      ''GROUP BY '' @ join groupBy '','']) @ [''HAVING '' @ h]))
                           else Inr (query1 @
                                     [join (sel @ items) ('','' @ newline), from',
                                      ''GROUP BY '' @ join groupBy '',''])) (\<lambda>query3.
                  andThen (pushSortLimit D e query3) (\<lambda>query5.
                  Inr \<lparr>sqlQuery = join query5 newline,
                       sqlPostTransform =
                         PostTransform (getSplitInflaters K s) (sqlSelectedAttributes D e)
                           (Some (map fst (splits s))) None\<rparr>))))) = Inr r"
      by blast
    from rest obtain as where as: "applies e = Some as" by (cases "applies e") auto
    from rest [unfolded as option.case andThen_Inr_iff]
    obtain aps grp query3 query5 where
      aps: "traverse (applyGetSQL D) as = Inr aps" and
      grp: "getShortGroupBySQL D s = Inr grp" and
      q3: "(if havingFilter e \<noteq> TRUE
            then andThen (getSQL D (havingFilter e))
                   (\<lambda>h. Inr ((query1 @
                      [join (sel @ aps) ('','' @ newline), from',
                       ''GROUP BY '' @ join grp '','']) @ [''HAVING '' @ h]))
            else Inr (query1 @
                      [join (sel @ aps) ('','' @ newline), from',
                       ''GROUP BY '' @ join grp '',''])) = Inr query3" and
      q5: "pushSortLimit D e query3 = Inr query5" and
      r: "r = \<lparr>sqlQuery = join query5 newline,
               sqlPostTransform =
                 PostTransform (getSplitInflaters K s) (sqlSelectedAttributes D e)
                   (Some (map fst (splits s))) None\<rparr>"
      by auto
    from f0 obtain tbl where
      tbl: "withQuerySet e \<or> escapeName D (source e) = Inr tbl" and
      from0: "from0 = (if withQuerySet e then ''FROM __with__ AS t''
                       else ''FROM '' @ tbl @ '' AS t'')"
      unfolding getFrom_Inr_iff by blast
    from f1 obtain wh where
      wh: "sqlQueryFilter D e = TRUE \<or> getSQL D (sqlQueryFilter D e) = Inr wh" and
      from': "from' = from0 @ (if sqlQueryFilter D e = TRUE then []
                               else newline @ ''WHERE '' @ wh)"
      by (cases "sqlQueryFilter D e = TRUE") (auto simp: andThen_Inr_iff)
    from q3 obtain hv where
      hv: "havingFilter e = TRUE \<or> getSQL D (havingFilter e) = Inr hv" and
      query3: "query3 = query1 @ [join (sel @ aps) ('','' @ newline), from',
                  ''GROUP BY '' @ join grp '','']
                @ (if havingFilter e = TRUE then [] else [''HAVING '' @ hv])"
      by (cases "havingFilter e = TRUE") (auto simp: andThen_Inr_iff)
    from q5 obtain so li where
      so: "case sortE e of Some srt \<Rightarrow> sortGetSQL D srt = Inr so | None \<Rightarrow> True" and
      li: "case limit e of Some l \<Rightarrow> limitGetSQL D l = Inr li | None \<Rightarrow> True" and
      query5: "query5 = query3 @ (if sortE e = None then [] else [so])
                  @ (if limit e = None then [] else [li])"
      unfolding pushSortLimit_Inr_iff by blast
    have "r = \<lparr>sqlQuery =
                join
                  ((if withQuerySet e
                    then [''WITH __with__ AS (''
                          @ (case withQuery e of Some q \<Rightarrow> q | None \<Rightarrow> []) @ '')'']
                    else [])
                   @ [''SELECT'',
                      join (sel @ aps) ('','' @ newline),
                      (if withQuerySet e then ''FROM __with__ AS t''
                       else ''FROM '' @ tbl @ '' AS t'')
                      @ (if sqlQueryFilter D e = TRUE then []
                         else newline @ ''WHERE '' @ wh),
                      ''GROUP BY '' @ join grp '','']
                   @ (if havingFilter e = TRUE then [] else [''HAVING '' @ hv])
                   @ (if sortE e = None then [] else [so])
                   @ (if limit e = None then [] else [li]))
                  newline,
              sqlPostTransform =
                PostTransform (getSplitInflaters K s) (sqlSelectedAttributes D e)
                  (Some (map fst (splits s))) None\<rparr>"
      unfolding r query5 query3 from' from0 query1_def by simp
    with tbl wh s sel as aps grp hv so li show ?rhs by blast
  }
  {
    assume ?rhs
    then obtain tbl wh s sel as aps grp hv so li where
      tbl: "withQuerySet e \<or> escapeName D (source e) = Inr tbl" and
      wh: "sqlQueryFilter D e = TRUE \<or> getSQL D (sqlQueryFilter D e) = Inr wh" and
      s: "sqlQuerySplit D e = Inr s" and
      sel: "getSelectSQL D s = Inr sel" and
      as: "applies e = Some as" and
      aps: "traverse (applyGetSQL D) as = Inr aps" and
      grp: "getShortGroupBySQL D s = Inr grp" and
      hv: "havingFilter e = TRUE \<or> getSQL D (havingFilter e) = Inr hv" and
      so: "case sortE e of Some srt \<Rightarrow> sortGetSQL D srt = Inr so | None \<Rightarrow> True" and
      li: "case limit e of Some l \<Rightarrow> limitGetSQL D l = Inr li | None \<Rightarrow> True" and
      r: "r = \<lparr>sqlQuery =
                join
                  ((if withQuerySet e
                    then [''WITH __with__ AS (''
                          @ (case withQuery e of Some q \<Rightarrow> q | None \<Rightarrow> []) @ '')'']
                    else [])
                   @ [''SELECT'',
                      join (sel @ aps) ('','' @ newline),
                      (if withQuerySet e then ''FROM __with__ AS t''
                       else ''FROM '' @ tbl @ '' AS t'')
                      @ (if sqlQueryFilter D e = TRUE then []
                         else newline @ ''WHERE '' @ wh),
                      ''GROUP BY '' @ join grp '','']
                   @ (if havingFilter e = TRUE then [] else [''HAVING '' @ hv])
                   @ (if sortE e = None then [] else [so])
                   @ (if limit e = None then [] else [li]))
                  newline,
              sqlPostTransform =
                PostTransform (getSplitInflaters K s) (sqlSelectedAttributes D e)
                  (Some (map fst (splits s))) None\<rparr>"
      by blast
    define from0 where "from0 = (if withQuerySet e then ''FROM __with__ AS t''
                       else ''FROM '' @ tbl @ '' AS t'')"
    from tbl have f0: "getFrom D e = Inr from0"
      unfolding getFrom_Inr_iff from0_def by blast
    define from' where "from' = from0 @ (if sqlQueryFilter D e = TRUE then []
        else newline @ ''WHERE '' @ wh)"
    from wh have f1: "(if sqlQueryFilter D e \<noteq> TRUE
            then andThen (getSQL D (sqlQueryFilter D e))
                   (\<lambda>w. Inr (from0 @ newline @ ''WHERE '' @ w))
            else Inr from0) = Inr from'"
      by (cases "sqlQueryFilter D e = TRUE") (auto simp: andThen_simps from'_def)
    define query3 where "query3 = query1 @ [join (sel @ aps) ('','' @ newline), from',
        ''GROUP BY '' @ join grp '','']
      @ (if havingFilter e = TRUE then [] else [''HAVING '' @ hv])"
    from hv have q3: "(if havingFilter e \<noteq> TRUE
            then andThen (getSQL D (havingFilter e))
                   (\<lambda>h. Inr ((query1 @
                      [join (sel @ aps) ('','' @ newline), from',
                       ''GROUP BY '' @ join grp '','']) @ [''HAVING '' @ h]))
            else Inr (query1 @
                      [join (sel @ aps) ('','' @ newline), from',
                       ''GROUP BY '' @ join grp '',''])) = Inr query3"
      by (cases "havingFilter e = TRUE") (auto simp: andThen_simps query3_def)
    from so li have q5: "pushSortLimit D e query3 = Inr (query3
        @ (if sortE e = None then [] else [so]) @ (if limit e = None then [] else [li]))"
      unfolding pushSortLimit_Inr_iff by blast
    show ?lhs
      unfolding unfold f0 andThen_simps f1 s sel as option.case aps grp q3 q5 r
      by (simp add: query3_def from'_def from0_def query1_def)
  }
qed

lemma join_Cons_concat: "join (c # xs) sep = c @ concat (map (\<lambda>x. sep @ x) xs)"
  by (induction xs arbitrary: c) simp_all

lemma sqlQueryAndPostTransform_eq_iff:
  "r = \<lparr>sqlQuery = q, sqlPostTransform = t\<rparr> \<longleftrightarrow> sqlQuery r = q \<and> sqlPostTransform r = t"
  by (cases r) auto

lemma split_query_text:
  "join
     ((if withQuerySet e
       then [''WITH __with__ AS ('' @ (case withQuery e of Some q \<Rightarrow> q | None \<Rightarrow> []) @ '')'']
       else [])
      @ [''SELECT'',
         join items ('','' @ newline),
         (if withQuerySet e then ''FROM __with__ AS t'' else ''FROM '' @ tbl @ '' AS t'')
         @ (if flt = TRUE then [] else newline @ ''WHERE '' @ wh),
         ''GROUP BY '' @ join grp '','']
      @ (if hf = TRUE then [] else [''HAVING '' @ hv])
      @ (if srt = None then [] else [so])
      @ (if lim = None then [] else [li]))
     newline
   = (if withQuery e \<noteq> None \<and> withQuery e \<noteq> Some []
      then ''WITH __with__ AS ('' @ (case withQuery e of Some q \<Rightarrow> q | None \<Rightarrow> []) @ '')''
           @ [CHR 0x0A]
      else [])
     @ ''SELECT'' @ [CHR 0x0A]
     @ (if items = [] then []
        else concat (map (\<lambda>c. c @ '','' @ [CHR 0x0A]) (butlast items)) @ last items)
     @ [CHR 0x0A]
     @ (if withQuery e \<noteq> None \<and> withQuery e \<noteq> Some [] then ''FROM __with__ AS t''
        else ''FROM '' @ tbl @ '' AS t'')
     @ (if flt = TRUE then [] else [CHR 0x0A] @ ''WHERE '' @ wh)
     @ [CHR 0x0A]
     @ ''GROUP BY ''
     @ (if grp = [] then [] else concat (map (\<lambda>c. c @ '','') (butlast grp)) @ last grp)
     @ (if hf = TRUE then [] else [CHR 0x0A] @ ''HAVING '' @ hv)
     @ (if srt = None then [] else [CHR 0x0A] @ so)
     @ (if lim = None then [] else [CHR 0x0A] @ li)"
proof -
  have w: "withQuerySet e \<longleftrightarrow> withQuery e \<noteq> None \<and> withQuery e \<noteq> Some []"
    by (simp add: withQuerySet_def split: option.splits)
  have items: "join items ('','' @ newline) =
      (if items = [] then []
       else concat (map (\<lambda>c. c @ '','' @ [CHR 0x0A]) (butlast items)) @ last items)"
    by (simp add: join_concat [of items] newline_def)
  have grp: "join grp '','' =
      (if grp = [] then [] else concat (map (\<lambda>c. c @ '','') (butlast grp)) @ last grp)"
    by (simp add: join_concat [of grp])
  show ?thesis
    unfolding items grp w
    by (simp add: join_Cons_concat newline_def)
qed

text \<open>
  C9, as amended. In split mode \<^verbatim>\<open>SQLExternal.getQueryAndPostTransform\<close> returns a SQL
  string exactly when the query split is available, the applies are defined and every
  clause that is called for renders without throwing. The string then holds, separated
  by line feeds and in this order: \<^verbatim>\<open>WITH __with__ AS (<withQuery>)\<close> exactly when
  \<^verbatim>\<open>withQuery\<close> is set (a non-empty string); \<^verbatim>\<open>SELECT\<close>; the select list of the split
  followed by the applies, one per line; \<^verbatim>\<open>FROM\<close>, over \<^verbatim>\<open>__with__\<close> or the escaped
  source, with \<^verbatim>\<open>WHERE\<close> on the next line exactly when the query filter is not
  \<^verbatim>\<open>TRUE\<close>; \<^verbatim>\<open>GROUP BY\<close>, in its short form; \<^verbatim>\<open>HAVING\<close> exactly when the having filter
  is not \<^verbatim>\<open>TRUE\<close>; the sort clause when there is a sort; the limit clause when there is
  a limit.
\<close>

theorem getQueryAndPostTransformSQL_split_clauses:
  assumes "mode e = Split"
  shows "getQueryAndPostTransformSQL K D e = Inr r \<longleftrightarrow>
           (\<exists>tbl wh s sel as aps grp hv so li.
              ((withQuery e \<noteq> None \<and> withQuery e \<noteq> Some [])
                 \<or> escapeName D (source e) = Inr tbl)
              \<and> (sqlQueryFilter D e = TRUE \<or> getSQL D (sqlQueryFilter D e) = Inr wh)
              \<and> sqlQuerySplit D e = Inr s
              \<and> getSelectSQL D s = Inr sel
              \<and> applies e = Some as
              \<and> traverse (applyGetSQL D) as = Inr aps
              \<and> getShortGroupBySQL D s = Inr grp
              \<and> (havingFilter e = TRUE \<or> getSQL D (havingFilter e) = Inr hv)
              \<and> (case sortE e of Some srt \<Rightarrow> sortGetSQL D srt = Inr so | None \<Rightarrow> True)
              \<and> (case limit e of Some l \<Rightarrow> limitGetSQL D l = Inr li | None \<Rightarrow> True)
              \<and> sqlQuery r =
                  (if withQuery e \<noteq> None \<and> withQuery e \<noteq> Some []
                   then ''WITH __with__ AS (''
                        @ (case withQuery e of Some q \<Rightarrow> q | None \<Rightarrow> []) @ '')'' @ [CHR 0x0A]
                   else [])
                  @ ''SELECT'' @ [CHR 0x0A]
                  @ (if sel @ aps = [] then []
                     else concat (map (\<lambda>c. c @ '','' @ [CHR 0x0A]) (butlast (sel @ aps)))
                          @ last (sel @ aps))
                  @ [CHR 0x0A]
                  @ (if withQuery e \<noteq> None \<and> withQuery e \<noteq> Some []
                     then ''FROM __with__ AS t''
                     else ''FROM '' @ tbl @ '' AS t'')
                  @ (if sqlQueryFilter D e = TRUE then [] else [CHR 0x0A] @ ''WHERE '' @ wh)
                  @ [CHR 0x0A]
                  @ ''GROUP BY ''
                  @ (if grp = [] then []
                     else concat (map (\<lambda>c. c @ '','') (butlast grp)) @ last grp)
                  @ (if havingFilter e = TRUE then [] else [CHR 0x0A] @ ''HAVING '' @ hv)
                  @ (if sortE e = None then [] else [CHR 0x0A] @ so)
                  @ (if limit e = None then [] else [CHR 0x0A] @ li)
              \<and> sqlPostTransform r =
                  PostTransform (getSplitInflaters K s) (sqlSelectedAttributes D e)
                    (Some (map fst (splits s))) None)"
proof -
  have w: "withQuerySet e \<longleftrightarrow> withQuery e \<noteq> None \<and> withQuery e \<noteq> Some []"
    by (simp add: withQuerySet_def split: option.splits)
  show ?thesis
    unfolding split_query_list [OF assms] sqlQueryAndPostTransform_eq_iff split_query_text
    unfolding w ..
qed

lemma sampleDialect_fields:
  "escapeName sampleDialect (Source n) = Inr (bracket n)"
  "maybeNamespacedName sampleDialect = (\<lambda>n. Inr (bracket n))"
  "expressionGetSQL sampleDialect = (\<lambda>ex. Inr (sampleSQL ex))"
  "applyGetSQL sampleDialect =
     (\<lambda>a. Inr (sampleSQL (applyExpr a) @ '' AS '' @ bracket (applyName a)))"
  "sortGetSQL sampleDialect =
     (\<lambda>s. Inr (''ORDER BY '' @ sampleSQL (sortExpr s) @ '' ''
               @ (case sortDirection s of Ascending \<Rightarrow> ''ASC'' | Descending \<Rightarrow> ''DESC'')))"
  "limitGetSQL sampleDialect = (\<lambda>l. Inr (''LIMIT '' @ showNat (nat (limitValue l))))"
  "getSelectSQL sampleDialect =
     (\<lambda>s. Inr (map (\<lambda>(k, ex). sampleSQL ex @ '' AS '' @ bracket k) (splits s)))"
  "getShortGroupBySQL sampleDialect =
     (\<lambda>s. Inr (map (\<lambda>i. showNat (Suc i)) [0..<length (splits s)]))"
  "sqlSelectedAttributes sampleDialect = (\<lambda>e. rawAttributes e)"
  "sqlQueryFilter sampleDialect = (\<lambda>e. filterE e)"
  "sqlQuerySplit sampleDialect =
     (\<lambda>e. case split e of Some s \<Rightarrow> Inr s | None \<Rightarrow> Inl (TypeError ''no split''))"
  by (simp_all add: sampleDialect_def)

lemma showNat_digits: "showNat (Suc 0) = ''1''" "showNat 5 = ''5''"
  by code_simp+

lemmas sql_sample_defs = sampleDialect_fields sqlByCountry_def splitOn_def countApply_def
  countryRef_def tagsRef_def isTagX_def countOver10_def TRUE_def bracket_def
  showNat_digits getSQL_def andThen_simps getSplitInflaters_def sampleCollaborators_fields
  sampleInflater_def

theorem getQueryAndPostTransformSQL_split_clauses_witness:
  "getQueryAndPostTransformSQL sampleCollaborators sampleDialect
       (sqlByCountry (Some ''SELECT 1'') countOver10)
     = Inr \<lparr>sqlQuery =
              ''WITH __with__ AS (SELECT 1)'' @ [CHR 0x0A]
              @ ''SELECT'' @ [CHR 0x0A]
              @ ''[country] AS [country],'' @ [CHR 0x0A]
              @ ''count([main]) AS [count],'' @ [CHR 0x0A]
              @ ''count([main]) AS [n]'' @ [CHR 0x0A]
              @ ''FROM __with__ AS t'' @ [CHR 0x0A]
              @ ''WHERE [tags] is ?'' @ [CHR 0x0A]
              @ ''GROUP BY 1'' @ [CHR 0x0A]
              @ ''HAVING [count] greaterThan ?'' @ [CHR 0x0A]
              @ ''ORDER BY [count] DESC'' @ [CHR 0x0A]
              @ ''LIMIT 5'',
            sqlPostTransform =
              PostTransform [None] sampleAttributes (Some [''country'']) None\<rparr>
   \<and> getQueryAndPostTransformSQL sampleCollaborators sampleDialect
       ((sqlByCountry None TRUE)\<lparr>sortE := None\<rparr>)
     = Inr \<lparr>sqlQuery =
              ''SELECT'' @ [CHR 0x0A]
              @ ''[country] AS [country],'' @ [CHR 0x0A]
              @ ''count([main]) AS [count],'' @ [CHR 0x0A]
              @ ''count([main]) AS [n]'' @ [CHR 0x0A]
              @ ''FROM [wiki] AS t'' @ [CHR 0x0A]
              @ ''WHERE [tags] is ?'' @ [CHR 0x0A]
              @ ''GROUP BY 1'' @ [CHR 0x0A]
              @ ''LIMIT 5'',
            sqlPostTransform =
              PostTransform [None] sampleAttributes (Some [''country'']) None\<rparr>"
proof
  have m: "mode (sqlByCountry w h) = Split" for w h by (simp add: sqlByCountry_def)
  show "getQueryAndPostTransformSQL sampleCollaborators sampleDialect
       (sqlByCountry (Some ''SELECT 1'') countOver10)
     = Inr \<lparr>sqlQuery =
              ''WITH __with__ AS (SELECT 1)'' @ [CHR 0x0A]
              @ ''SELECT'' @ [CHR 0x0A]
              @ ''[country] AS [country],'' @ [CHR 0x0A]
              @ ''count([main]) AS [count],'' @ [CHR 0x0A]
              @ ''count([main]) AS [n]'' @ [CHR 0x0A]
              @ ''FROM __with__ AS t'' @ [CHR 0x0A]
              @ ''WHERE [tags] is ?'' @ [CHR 0x0A]
              @ ''GROUP BY 1'' @ [CHR 0x0A]
              @ ''HAVING [count] greaterThan ?'' @ [CHR 0x0A]
              @ ''ORDER BY [count] DESC'' @ [CHR 0x0A]
              @ ''LIMIT 5'',
            sqlPostTransform =
              PostTransform [None] sampleAttributes (Some [''country'']) None\<rparr>"
    apply (rule getQueryAndPostTransformSQL_split_clauses [THEN iffD2, OF m])
    apply (rule exI [of _ "''[wiki]''"], rule exI [of _ "''[tags] is ?''"])
    apply (rule exI [of _ "splitOn ''country'' countryRef"])
    apply (rule exI [of _ "[''[country] AS [country]'']"])
    apply (rule exI [of _ "[countApply, countApply\<lparr>applyName := ''n''\<rparr>]"])
    apply (rule exI [of _ "[''count([main]) AS [count]'', ''count([main]) AS [n]'']"])
    apply (rule exI [of _ "[''1'']"], rule exI [of _ "''[count] greaterThan ?''"])
    apply (rule exI [of _ "''ORDER BY [count] DESC''"], rule exI [of _ "''LIMIT 5''"])
    apply (simp add: sql_sample_defs)
    done
  have m': "mode ((sqlByCountry w h)\<lparr>sortE := None\<rparr>) = Split" for w h
    by (simp add: sqlByCountry_def)
  show "getQueryAndPostTransformSQL sampleCollaborators sampleDialect
       ((sqlByCountry None TRUE)\<lparr>sortE := None\<rparr>)
     = Inr \<lparr>sqlQuery =
              ''SELECT'' @ [CHR 0x0A]
              @ ''[country] AS [country],'' @ [CHR 0x0A]
              @ ''count([main]) AS [count],'' @ [CHR 0x0A]
              @ ''count([main]) AS [n]'' @ [CHR 0x0A]
              @ ''FROM [wiki] AS t'' @ [CHR 0x0A]
              @ ''WHERE [tags] is ?'' @ [CHR 0x0A]
              @ ''GROUP BY 1'' @ [CHR 0x0A]
              @ ''LIMIT 5'',
            sqlPostTransform =
              PostTransform [None] sampleAttributes (Some [''country'']) None\<rparr>"
    apply (rule getQueryAndPostTransformSQL_split_clauses [THEN iffD2, OF m'])
    apply (rule exI [of _ "''[wiki]''"], rule exI [of _ "''[tags] is ?''"])
    apply (rule exI [of _ "splitOn ''country'' countryRef"])
    apply (rule exI [of _ "[''[country] AS [country]'']"])
    apply (rule exI [of _ "[countApply, countApply\<lparr>applyName := ''n''\<rparr>]"])
    apply (rule exI [of _ "[''count([main]) AS [count]'', ''count([main]) AS [n]'']"])
    apply (rule exI [of _ "[''1'']"], rule exI [of _ "''''"])
    apply (rule exI [of _ "''''"], rule exI [of _ "''LIMIT 5''"])
    apply (simp add: sql_sample_defs)
    done
qed

theorem getQueryAndPostTransformSQL_unresolved_counterexample:
  "mode (sqlByCountry None unresolvedFlag) = Split
   \<and> getQueryAndPostTransformSQL sampleCollaborators sampleDialect
       (sqlByCountry None unresolvedFlag)
     = Inl (Error ''can not call getSQL on unresolved expression: $^flag:BOOLEAN'')"
  by (simp add: getQueryAndPostTransformSQL_def getFrom_def withQuerySet_def capability_def
      unresolvedFlag_def refToString_def isSimpleName_def isLetter_def isWordChar_def
      sql_sample_defs Let_def)

section \<open>The follow-up query of the introspection\<close>

lemma columnAttributes_time_first:
  assumes "columnAttributes R ta aggs cols (attrs, found) = Inr (attrs', found')"
    and "found \<longrightarrow> attrs \<noteq> [] \<and> attrName (hd attrs) = ta
                    \<and> nativeType (hd attrs) = Some ''__time''"
  shows "found' \<longrightarrow> attrs' \<noteq> [] \<and> attrName (hd attrs') = ta
                    \<and> nativeType (hd attrs') = Some ''__time''"
  using assms
proof (induction cols arbitrary: attrs found)
  case Nil
  then show ?case by simp
next
  case (Cons c cols)
  obtain name columnData where c: "c = (name, columnData)" by (cases c) auto
  show ?case
  proof (cases "nonEmpty (errorMessage columnData)
         \<or> (case columnSize columnData of Some n \<Rightarrow> n < 0 | None \<Rightarrow> False)")
    case True
    with Cons.prems c have "columnAttributes R ta aggs cols (attrs, found) = Inr (attrs', found')"
      by simp
    from Cons.IH [OF this Cons.prems(2)] show ?thesis .
  next
    case ok: False
    show ?thesis
    proof (cases "name = TIME_ATTRIBUTE")
      case True
      with ok Cons.prems(1) c obtain rng where
        "columnAttributes R ta aggs cols
           (\<lparr>attrName = ta, attrType = Some TIME, nativeType = Some ''__time'',
             unsplitable = False, maker = None,
             cardinality = columnCardinality columnData, attrRange = rng\<rparr> # attrs, True)
         = Inr (attrs', found')"
        by (cases "columnMetadataToRange R columnData") auto
      from Cons.IH [OF this] show ?thesis by simp
    next
      case other: False
      show ?thesis
      proof (cases "name = ta")
        case True
        with ok other Cons.prems c
        have "columnAttributes R ta aggs cols (attrs, found) = Inr (attrs', found')"
          by simp
        from Cons.IH [OF this Cons.prems(2)] show ?thesis .
      next
        case False
        with ok other Cons.prems(1) c obtain a where
          "columnAttributes R ta aggs cols (attrs @ [a], found) = Inr (attrs', found')"
          by (cases "columnAttribute R aggs name columnData") auto
        from Cons.IH [OF this] Cons.prems(2) show ?thesis by (cases attrs) auto
      qed
    qed
  qed
qed

lemma segmentMetadataPostProcess_time_first:
  assumes "segmentMetadataPostProcess R ta res = Inr attrs"
  shows "attrs \<noteq> [] \<and> attrName (hd attrs) = ta \<and> nativeType (hd attrs) = Some ''__time''"
proof -
  from assms obtain res0 others where res: "res = res0 # others"
    by (cases res) (auto simp: segmentMetadataPostProcess_def)
  from assms res obtain cols where cols: "rowColumns res0 = Some cols"
    by (cases "rowColumns res0") (auto simp: segmentMetadataPostProcess_def)
  define aggs where "aggs = (case rowAggregators res0 of Some a \<Rightarrow> a | None \<Rightarrow> [])"
  from assms res cols obtain r where r: "columnAttributes R ta aggs cols ([], False) = Inr r"
    by (cases "columnAttributes R ta aggs cols ([], False)")
      (auto simp: segmentMetadataPostProcess_def aggs_def)
  obtain attrs' found' where r': "r = (attrs', found')" by (cases r) auto
  from assms res cols r r' have "found'" and "attrs' = attrs"
    by (auto simp: segmentMetadataPostProcess_def aggs_def split: if_splits)
  with columnAttributes_time_first [OF r [unfolded r']] show ?thesis by simp
qed

lemma queries_differ: "timeBoundaryQuery d c \<noteq> segmentMetadataQuery d c depth"
proof
  assume "timeBoundaryQuery d c = segmentMetadataQuery d c depth"
  then have "getField ''queryType'' (timeBoundaryQuery d c)
      = getField ''queryType'' (segmentMetadataQuery d c depth)" by simp
  then show False
    by (cases c) (simp_all add: timeBoundaryQuery_def segmentMetadataQuery_def)
qed

text \<open>
  C6, as amended. Once the \<^verbatim>\<open>segmentMetadata\<close> query is answered and post-processed,
  the first attribute is the time attribute, and the follow-up \<^verbatim>\<open>timeBoundary\<close> query
  is issued exactly when the depth is not \<^verbatim>\<open>'shallow'\<close> and the time attribute lacks
  a range. The call then never rejects. When the follow-up is not issued, and when it
  fails in any of the three ways it can (the request fails, the response has no row,
  the time range cannot be built), the attributes of the post-processing are returned
  unchanged; when it succeeds, the time attribute gets the range and nothing else
  changes.
\<close>

theorem introspectAttributesWithSegmentMetadata_follow_up:
  assumes "requester (segmentMetadataQuery dataSource ctx depth) = Inr res"
    and "segmentMetadataPostProcess R timeAttribute' res = Inr attributes"
  shows "attributes \<noteq> [] \<and> attrName (hd attributes) = timeAttribute'
         \<and> fst (introspectAttributesWithSegmentMetadata R dataSource requester timeAttribute'
                  ctx depth)
             = segmentMetadataQuery dataSource ctx depth
               # (if depth \<noteq> ''shallow'' \<and> attrRange (hd attributes) = None
                  then [timeBoundaryQuery dataSource ctx] else [])
         \<and> (timeBoundaryQuery dataSource ctx
               \<in> set (fst (introspectAttributesWithSegmentMetadata R dataSource requester
                              timeAttribute' ctx depth))
             \<longleftrightarrow> depth \<noteq> ''shallow'' \<and> attrRange (hd attributes) = None)
         \<and> (\<exists>attrs. snd (introspectAttributesWithSegmentMetadata R dataSource requester
                            timeAttribute' ctx depth) = Inr attrs)
         \<and> (depth = ''shallow'' \<or> attrRange (hd attributes) \<noteq> None \<longrightarrow>
               snd (introspectAttributesWithSegmentMetadata R dataSource requester
                      timeAttribute' ctx depth) = Inr attributes)
         \<and> (\<forall>err. requester (timeBoundaryQuery dataSource ctx) = Inl err \<longrightarrow>
               snd (introspectAttributesWithSegmentMetadata R dataSource requester
                      timeAttribute' ctx depth) = Inr attributes)
         \<and> (requester (timeBoundaryQuery dataSource ctx) = Inr [] \<longrightarrow>
               snd (introspectAttributesWithSegmentMetadata R dataSource requester
                      timeAttribute' ctx depth) = Inr attributes)
         \<and> (\<forall>row rows err.
               requester (timeBoundaryQuery dataSource ctx) = Inr (row # rows)
               \<and> timeRangeFromJS R (rowMinTime row) (rowMaxTime row) = Inl err \<longrightarrow>
               snd (introspectAttributesWithSegmentMetadata R dataSource requester
                      timeAttribute' ctx depth) = Inr attributes)
         \<and> (\<forall>row rows rng.
               depth \<noteq> ''shallow'' \<and> attrRange (hd attributes) = None
               \<and> requester (timeBoundaryQuery dataSource ctx) = Inr (row # rows)
               \<and> timeRangeFromJS R (rowMinTime row) (rowMaxTime row) = Inr rng \<longrightarrow>
               snd (introspectAttributesWithSegmentMetadata R dataSource requester
                      timeAttribute' ctx depth)
                 = Inr ((hd attributes)\<lparr>attrRange := Some rng\<rparr> # tl attributes))"
proof -
  from segmentMetadataPostProcess_time_first [OF assms(2)]
  obtain a0 rest where attrs: "attributes = a0 # rest" and name: "attrName a0 = timeAttribute'"
    and native: "nativeType a0 = Some ''__time''"
    by (cases attributes) auto
  show ?thesis
  proof (cases "depth \<noteq> ''shallow'' \<and> attrRange a0 = None")
    case True
    with assms [unfolded attrs] native
    have run: "introspectAttributesWithSegmentMetadata R dataSource requester timeAttribute'
        ctx depth
      = ([segmentMetadataQuery dataSource ctx depth, timeBoundaryQuery dataSource ctx],
         case requester (timeBoundaryQuery dataSource ctx) of
           Inl err \<Rightarrow> Inr attributes
         | Inr resTB \<Rightarrow>
             (case resTB of
                [] \<Rightarrow> Inr attributes
              | resTB0 # others \<Rightarrow>
                  (case timeRangeFromJS R (rowMinTime resTB0) (rowMaxTime resTB0) of
                     Inl err \<Rightarrow> Inr attributes
                   | Inr rng \<Rightarrow> Inr (a0\<lparr>attrRange := Some rng\<rparr> # rest))))"
      unfolding attrs by (simp add: introspectAttributesWithSegmentMetadata_def Let_def)
    have returns: "\<exists>attrs. snd (introspectAttributesWithSegmentMetadata R dataSource requester
        timeAttribute' ctx depth) = Inr attrs"
      unfolding run by (simp split: sum.splits list.splits)
    from True attrs name returns show ?thesis unfolding run by auto
  next
    case False
    with assms [unfolded attrs] native
    have run: "introspectAttributesWithSegmentMetadata R dataSource requester timeAttribute'
        ctx depth = ([segmentMetadataQuery dataSource ctx depth], Inr attributes)"
      unfolding attrs by (auto simp: introspectAttributesWithSegmentMetadata_def Let_def)
    from False attrs name queries_differ [of dataSource ctx depth] show ?thesis
      unfolding run by auto
  qed
qed

lemma sample_postProcess:
  "segmentMetadataPostProcess sampleRanges ''time'' [sampleMetadata] = Inr sampleIntrospected"
  by (simp add: segmentMetadataPostProcess_def sampleMetadata_def plainColumn_def
      columnAttribute_def columnMetadataToRange_def nonEmpty_def TIME_ATTRIBUTE_def
      sampleIntrospected_def Let_def)

lemma sample_segmentMetadata:
  "sampleRequester (segmentMetadataQuery (JStr ''wiki'') None depth) = Inr [sampleMetadata]"
  "failingRequester (segmentMetadataQuery (JStr ''wiki'') None depth) = Inr [sampleMetadata]"
  "emptyRequester (segmentMetadataQuery (JStr ''wiki'') None depth) = Inr [sampleMetadata]"
  "boundlessRequester (segmentMetadataQuery (JStr ''wiki'') None depth) = Inr [sampleMetadata]"
  by (simp_all add: sampleRequester_def failingRequester_def emptyRequester_def
      boundlessRequester_def segmentMetadataQuery_def)

lemma sample_timeBoundary:
  "sampleRequester (timeBoundaryQuery (JStr ''wiki'') None) = Inr [sampleBoundary]"
  "failingRequester (timeBoundaryQuery (JStr ''wiki'') None)
     = Inl (Error ''time boundary failed'')"
  "emptyRequester (timeBoundaryQuery (JStr ''wiki'') None) = Inr []"
  "boundlessRequester (timeBoundaryQuery (JStr ''wiki'') None) = Inr [sampleMetadata]"
  by (simp_all add: sampleRequester_def failingRequester_def emptyRequester_def
      boundlessRequester_def timeBoundaryQuery_def)

lemma sample_lacks_range: "attrRange (hd sampleIntrospected) = None"
  by (simp add: sampleIntrospected_def)

theorem introspectAttributesWithSegmentMetadata_follow_up_witness:
  "introspectAttributesWithSegmentMetadata sampleRanges (JStr ''wiki'') failingRequester
       ''time'' None ''deep''
     = ([segmentMetadataQuery (JStr ''wiki'') None ''deep'',
         timeBoundaryQuery (JStr ''wiki'') None],
        Inr sampleIntrospected)
   \<and> snd (introspectAttributesWithSegmentMetadata sampleRanges (JStr ''wiki'') emptyRequester
            ''time'' None ''deep'')
     = Inr sampleIntrospected
   \<and> snd (introspectAttributesWithSegmentMetadata sampleRanges (JStr ''wiki'')
            boundlessRequester ''time'' None ''deep'')
     = Inr sampleIntrospected
   \<and> snd (introspectAttributesWithSegmentMetadata sampleRanges (JStr ''wiki'') sampleRequester
            ''time'' None ''deep'')
     = Inr ((hd sampleIntrospected)
              \<lparr>attrRange := Some (JStr ''2015-09-12T00:00:00Z'', JStr ''2015-09-13T00:00:00Z'')\<rparr>
            # tl sampleIntrospected)
   \<and> introspectAttributesWithSegmentMetadata sampleRanges (JStr ''wiki'') sampleRequester
       ''time'' None ''shallow''
     = ([segmentMetadataQuery (JStr ''wiki'') None ''shallow''], Inr sampleIntrospected)"
proof (intro conjI)
  note failing = introspectAttributesWithSegmentMetadata_follow_up
    [where requester = failingRequester and depth = "''deep''" and ctx = None
       and dataSource = "JStr ''wiki''",
     OF sample_segmentMetadata(2) sample_postProcess]
  from failing sample_lacks_range
  have "fst (introspectAttributesWithSegmentMetadata sampleRanges (JStr ''wiki'')
      failingRequester ''time'' None ''deep'')
    = [segmentMetadataQuery (JStr ''wiki'') None ''deep'',
       timeBoundaryQuery (JStr ''wiki'') None]"
    by simp
  moreover from failing sample_timeBoundary(2)
  have "snd (introspectAttributesWithSegmentMetadata sampleRanges (JStr ''wiki'')
      failingRequester ''time'' None ''deep'') = Inr sampleIntrospected"
    by blast
  ultimately show "introspectAttributesWithSegmentMetadata sampleRanges (JStr ''wiki'')
      failingRequester ''time'' None ''deep''
    = ([segmentMetadataQuery (JStr ''wiki'') None ''deep'',
        timeBoundaryQuery (JStr ''wiki'') None],
       Inr sampleIntrospected)"
    by (simp add: prod_eq_iff)
  note empty = introspectAttributesWithSegmentMetadata_follow_up
    [where requester = emptyRequester and depth = "''deep''" and ctx = None
       and dataSource = "JStr ''wiki''",
     OF sample_segmentMetadata(3) sample_postProcess]
  from empty sample_timeBoundary(3)
  show "snd (introspectAttributesWithSegmentMetadata sampleRanges (JStr ''wiki'')
      emptyRequester ''time'' None ''deep'') = Inr sampleIntrospected"
    by blast
  note boundless = introspectAttributesWithSegmentMetadata_follow_up
    [where requester = boundlessRequester and depth = "''deep''" and ctx = None
       and dataSource = "JStr ''wiki''",
     OF sample_segmentMetadata(4) sample_postProcess]
  have bad: "timeRangeFromJS sampleRanges (rowMinTime sampleMetadata) (rowMaxTime sampleMetadata)
      = Inl (Error ''bad range'')"
    by (simp add: sampleRanges_def sampleMetadata_def)
  from boundless sample_timeBoundary(4) bad
  show "snd (introspectAttributesWithSegmentMetadata sampleRanges (JStr ''wiki'')
      boundlessRequester ''time'' None ''deep'') = Inr sampleIntrospected"
    by blast
  note answered = introspectAttributesWithSegmentMetadata_follow_up
    [where requester = sampleRequester and depth = "''deep''" and ctx = None
       and dataSource = "JStr ''wiki''",
     OF sample_segmentMetadata(1) sample_postProcess]
  have good: "timeRangeFromJS sampleRanges (rowMinTime sampleBoundary) (rowMaxTime sampleBoundary)
      = Inr (JStr ''2015-09-12T00:00:00Z'', JStr ''2015-09-13T00:00:00Z'')"
    by (simp add: sampleRanges_def sampleBoundary_def)
  have deep: "''deep'' \<noteq> ''shallow''" by simp
  from answered sample_timeBoundary(1) good sample_lacks_range deep
  show "snd (introspectAttributesWithSegmentMetadata sampleRanges (JStr ''wiki'')
      sampleRequester ''time'' None ''deep'')
    = Inr ((hd sampleIntrospected)
             \<lparr>attrRange := Some (JStr ''2015-09-12T00:00:00Z'', JStr ''2015-09-13T00:00:00Z'')\<rparr>
           # tl sampleIntrospected)"
    by blast
  note shallow = introspectAttributesWithSegmentMetadata_follow_up
    [where requester = sampleRequester and depth = "''shallow''" and ctx = None
       and dataSource = "JStr ''wiki''",
     OF sample_segmentMetadata(1) sample_postProcess]
  from shallow
  have "fst (introspectAttributesWithSegmentMetadata sampleRanges (JStr ''wiki'')
      sampleRequester ''time'' None ''shallow'')
    = [segmentMetadataQuery (JStr ''wiki'') None ''shallow'']"
    by simp
  moreover from shallow
  have "snd (introspectAttributesWithSegmentMetadata sampleRanges (JStr ''wiki'')
      sampleRequester ''time'' None ''shallow'') = Inr sampleIntrospected"
    by blast
  ultimately show "introspectAttributesWithSegmentMetadata sampleRanges (JStr ''wiki'')
      sampleRequester ''time'' None ''shallow''
    = ([segmentMetadataQuery (JStr ''wiki'') None ''shallow''], Inr sampleIntrospected)"
    by (simp add: prod_eq_iff)
qed

theorem introspectAttributesWithSegmentMetadata_medium_counterexample:
  "introspectAttributesWithSegmentMetadata sampleRanges (JStr ''wiki'') sampleRequester
       ''time'' None ''medium''
     = ([segmentMetadataQuery (JStr ''wiki'') None ''medium'',
         timeBoundaryQuery (JStr ''wiki'') None],
        Inr (sampleIntrospected
               [0 := (sampleIntrospected ! 0)
                  \<lparr>attrRange := Some (JStr ''2015-09-12T00:00:00Z'',
                                       JStr ''2015-09-13T00:00:00Z'')\<rparr>]))
   \<and> ''medium'' \<noteq> ''deep''
   \<and> segmentMetadataPostProcess sampleRanges ''time'' [sampleMetadata] = Inr sampleIntrospected
   \<and> attrRange (sampleIntrospected ! 0) = None"
proof (intro conjI)
  show "''medium'' \<noteq> ''deep''" by simp
  show "segmentMetadataPostProcess sampleRanges ''time'' [sampleMetadata] = Inr sampleIntrospected"
    by (simp add: segmentMetadataPostProcess_def sampleMetadata_def plainColumn_def
        columnAttribute_def columnMetadataToRange_def nonEmpty_def TIME_ATTRIBUTE_def
        sampleIntrospected_def Let_def)
  show "attrRange (sampleIntrospected ! 0) = None" by (simp add: sampleIntrospected_def)
  have tb: "sampleRequester (timeBoundaryQuery (JStr ''wiki'') None) = Inr [sampleBoundary]"
    by (simp add: sampleRequester_def timeBoundaryQuery_def)
  have sm: "sampleRequester (segmentMetadataQuery (JStr ''wiki'') None ''medium'')
      = Inr [sampleMetadata]"
    by (simp add: sampleRequester_def segmentMetadataQuery_def)
  have pp: "segmentMetadataPostProcess sampleRanges ''time'' [sampleMetadata]
      = Inr sampleIntrospected"
    by (simp add: segmentMetadataPostProcess_def sampleMetadata_def plainColumn_def
        columnAttribute_def columnMetadataToRange_def nonEmpty_def TIME_ATTRIBUTE_def
        sampleIntrospected_def Let_def)
  show "introspectAttributesWithSegmentMetadata sampleRanges (JStr ''wiki'') sampleRequester
       ''time'' None ''medium''
     = ([segmentMetadataQuery (JStr ''wiki'') None ''medium'',
         timeBoundaryQuery (JStr ''wiki'') None],
        Inr (sampleIntrospected
               [0 := (sampleIntrospected ! 0)
                  \<lparr>attrRange := Some (JStr ''2015-09-12T00:00:00Z'',
                                       JStr ''2015-09-13T00:00:00Z'')\<rparr>]))"
    unfolding introspectAttributesWithSegmentMetadata_def Let_def sm sum.case pp tb
    by (simp add: sampleIntrospected_def sampleRanges_def sampleBoundary_def)
qed

end
